theory Spec2Isabelle
  imports Complex_Main "HOL-Library.Word" "HOL-Library.Sublist" "HOL-Library.Multiset"
begin

unbundle bit_operations_syntax

section \<open>Python text and dictionary primitives\<close>

text \<open>
  Text is a list of 8-bit characters. The model covers ASCII text: \<open>str.lower\<close> and
  \<open>str.upper\<close> change the letters A-Z / a-z only, \<open>str.strip\<close> removes the ASCII
  characters for which \<open>str.isspace\<close> holds (9-13 and 28-32), and \<open>encode("utf-8")\<close>
  is the identity on such text. Python's case mappings of other characters, which can
  change the length of a text and depend on the neighbouring characters, are outside the
  model. The theorems on the code therefore state conditions on text through the very
  expressions the code evaluates (\<open>lower (strip q)\<close>, \<open>lower (title r)\<close>). Of \<open>lower\<close>,
  \<open>upper\<close> and \<open>strip\<close> they use their values on the empty text and on the ASCII texts of
  the examples, and that \<open>upper\<close> of a text is empty only when the text is; no other law
  of the three functions enters a proof.
\<close>

definition is_space :: "char \<Rightarrow> bool" where
  "is_space c = (let n = (of_char c :: nat) in (9 \<le> n \<and> n \<le> 13) \<or> (28 \<le> n \<and> n \<le> 32))"

definition strip :: "string \<Rightarrow> string" where
  "strip s = rev (dropWhile is_space (rev (dropWhile is_space s)))"

definition lower_char :: "char \<Rightarrow> char" where
  "lower_char c = (let n = (of_char c :: nat) in if 65 \<le> n \<and> n \<le> 90 then char_of (n + 32) else c)"

definition upper_char :: "char \<Rightarrow> char" where
  "upper_char c = (let n = (of_char c :: nat) in if 97 \<le> n \<and> n \<le> 122 then char_of (n - 32) else c)"

definition lower :: "string \<Rightarrow> string" where
  "lower s = map lower_char s"

definition upper :: "string \<Rightarrow> string" where
  "upper s = map upper_char s"

text \<open>Python's \<open>q in s\<close> on strings: \<open>q\<close> occurs in \<open>s\<close> as a contiguous run.\<close>

fun str_in :: "string \<Rightarrow> string \<Rightarrow> bool" where
  "str_in q [] = (q = [])"
| "str_in q (c # cs) = (prefix q (c # cs) \<or> str_in q cs)"

text \<open>\<open>sep.join(xs)\<close>.\<close>

fun join :: "string \<Rightarrow> string list \<Rightarrow> string" where
  "join sep [] = []"
| "join sep [x] = x"
| "join sep (x # y # ys) = x @ sep @ join sep (y # ys)"

text \<open>Decimal rendering of an integer, as \<open>str(n)\<close> and f-strings produce it.\<close>

definition digit_char :: "nat \<Rightarrow> char" where
  "digit_char d = char_of (48 + d mod 10)"

function str_of_nat :: "nat \<Rightarrow> string" where
  "str_of_nat n = (if n < 10 then [digit_char n] else str_of_nat (n div 10) @ [digit_char (n mod 10)])"
  by pat_completeness auto
termination
  by (relation "measure id") auto

declare str_of_nat.simps [simp del]

definition str_of_int :: "int \<Rightarrow> string" where
  "str_of_int i = (if i < 0 then CHR ''-'' # str_of_nat (nat (- i)) else str_of_nat (nat i))"

text \<open>
  Truthiness of an optional string: \<open>None\<close> and the empty string are falsy
  (\<open>not x\<close>, \<open>x or default\<close>).
\<close>

definition falsy :: "string option \<Rightarrow> bool" where
  "falsy x = (case x of None \<Rightarrow> True | Some s \<Rightarrow> s = [])"

definition or_empty :: "string option \<Rightarrow> string" where
  "or_empty x = (case x of None \<Rightarrow> [] | Some s \<Rightarrow> s)"

text \<open>
  A Python \<open>dict\<close> keeps its keys in insertion order: assigning to a present key keeps
  the key's position, assigning to a new key appends it. It is an association list.
\<close>

type_synonym ('k, 'v) dict = "('k \<times> 'v) list"

definition dict_get :: "('k, 'v) dict \<Rightarrow> 'k \<Rightarrow> 'v option" where
  "dict_get d k = map_of d k"

fun dict_set :: "'k \<Rightarrow> 'v \<Rightarrow> ('k, 'v) dict \<Rightarrow> ('k, 'v) dict" where
  "dict_set k v [] = [(k, v)]"
| "dict_set k v (p # d) = (if fst p = k then (k, v) # d else p # dict_set k v d)"

definition dict_pop :: "'k \<Rightarrow> ('k, 'v) dict \<Rightarrow> ('k, 'v) dict" where
  "dict_pop k d = filter (\<lambda>p. fst p \<noteq> k) d"

definition dict_values :: "('k, 'v) dict \<Rightarrow> 'v list" where
  "dict_values d = map snd d"

section \<open>SHA-256 (\<open>hashlib.sha256(...).hexdigest()\<close>)\<close>

type_synonym u32 = "32 word"

definition rotr :: "nat \<Rightarrow> u32 \<Rightarrow> u32" where
  "rotr n x = (drop_bit n x) OR (push_bit (32 - n) x)"

definition Ch :: "u32 \<Rightarrow> u32 \<Rightarrow> u32 \<Rightarrow> u32" where
  "Ch x y z = (x AND y) XOR (NOT x AND z)"

definition Maj :: "u32 \<Rightarrow> u32 \<Rightarrow> u32 \<Rightarrow> u32" where
  "Maj x y z = (x AND y) XOR (x AND z) XOR (y AND z)"

definition bsig0 :: "u32 \<Rightarrow> u32" where
  "bsig0 x = rotr 2 x XOR rotr 13 x XOR rotr 22 x"

definition bsig1 :: "u32 \<Rightarrow> u32" where
  "bsig1 x = rotr 6 x XOR rotr 11 x XOR rotr 25 x"

definition ssig0 :: "u32 \<Rightarrow> u32" where
  "ssig0 x = rotr 7 x XOR rotr 18 x XOR drop_bit 3 x"

definition ssig1 :: "u32 \<Rightarrow> u32" where
  "ssig1 x = rotr 17 x XOR rotr 19 x XOR drop_bit 10 x"

text \<open>
  The round constants: the first 32 bits of the fractional parts of the cube roots of the
  first 64 primes, in decimal.
\<close>

definition sha256_K :: "u32 list" where
  "sha256_K =
    [1116352408, 1899447441, 3049323471, 3921009573, 961987163, 1508970993,
     2453635748, 2870763221, 3624381080, 310598401, 607225278, 1426881987,
     1925078388, 2162078206, 2614888103, 3248222580, 3835390401, 4022224774,
     264347078, 604807628, 770255983, 1249150122, 1555081692, 1996064986,
     2554220882, 2821834349, 2952996808, 3210313671, 3336571891, 3584528711,
     113926993, 338241895, 666307205, 773529912, 1294757372, 1396182291,
     1695183700, 1986661051, 2177026350, 2456956037, 2730485921, 2820302411,
     3259730800, 3345764771, 3516065817, 3600352804, 4094571909, 275423344,
     430227734, 506948616, 659060556, 883997877, 958139571, 1322822218,
     1537002063, 1747873779, 1955562222, 2024104815, 2227730452, 2361852424,
     2428436474, 2756734187, 3204031479, 3329325298]"

type_synonym sha_state = "u32 \<times> u32 \<times> u32 \<times> u32 \<times> u32 \<times> u32 \<times> u32 \<times> u32"

text \<open>
  The initial hash value: the first 32 bits of the fractional parts of the square roots
  of the first 8 primes, in decimal.
\<close>

definition sha256_init :: sha_state where
  "sha256_init = (1779033703, 3144134277, 1013904242, 2773480762,
                  1359893119, 2600822924, 528734635, 1541459225)"

text \<open>The message schedule, most recent word first.\<close>

fun schedule :: "nat \<Rightarrow> u32 list \<Rightarrow> u32 list" where
  "schedule 0 w = w"
| "schedule (Suc n) w =
     schedule n ((ssig1 (w ! 1) + w ! 6 + ssig0 (w ! 14) + w ! 15) # w)"

definition sha_round :: "sha_state \<Rightarrow> u32 \<times> u32 \<Rightarrow> sha_state" where
  "sha_round st kw = (case st of (a, b, c, d, e, f, g, h) \<Rightarrow> case kw of (k, w) \<Rightarrow>
     (let t1 = h + bsig1 e + Ch e f g + k + w;
          t2 = bsig0 a + Maj a b c
      in (t1 + t2, a, b, c, d + t1, e, f, g)))"

definition sha_add :: "sha_state \<Rightarrow> sha_state \<Rightarrow> sha_state" where
  "sha_add s t = (case s of (a, b, c, d, e, f, g, h) \<Rightarrow>
     case t of (a', b', c', d', e', f', g', h') \<Rightarrow>
     (a + a', b + b', c + c', d + d', e + e', f + f', g + g', h + h'))"

definition compress :: "sha_state \<Rightarrow> u32 list \<Rightarrow> sha_state" where
  "compress st blk =
     sha_add st (foldl sha_round st (zip sha256_K (rev (schedule 48 (rev blk)))))"

definition be32 :: "8 word list \<Rightarrow> u32" where
  "be32 bs = foldl (\<lambda>acc b. push_bit 8 acc OR ucast b) 0 bs"

fun chunks :: "nat \<Rightarrow> nat \<Rightarrow> 'a list \<Rightarrow> 'a list list" where
  "chunks 0 n xs = []"
| "chunks (Suc k) n xs = take n xs # chunks k n (drop n xs)"

definition be_bytes64 :: "64 word \<Rightarrow> 8 word list" where
  "be_bytes64 v = map (\<lambda>i. ucast (drop_bit (8 * (7 - i)) v)) [0..<8]"

definition sha_pad :: "8 word list \<Rightarrow> 8 word list" where
  "sha_pad m = m @ [128] @ replicate ((119 - length m mod 64) mod 64) 0
               @ be_bytes64 (8 * of_nat (length m))"

definition sha256_words :: "8 word list \<Rightarrow> sha_state" where
  "sha256_words m =
     (let p = sha_pad m;
          blocks = chunks (length p div 64) 64 p
      in foldl (\<lambda>st b. compress st (map be32 (chunks 16 4 b))) sha256_init blocks)"

definition hex_digit :: "nat \<Rightarrow> char" where
  "hex_digit n = ''0123456789abcdef'' ! (n mod 16)"

definition hex32 :: "u32 \<Rightarrow> string" where
  "hex32 w = map (\<lambda>i. hex_digit (unat (drop_bit (4 * (7 - i)) w AND 15))) [0..<8]"

definition hexdigest :: "sha_state \<Rightarrow> string" where
  "hexdigest st = (case st of (a, b, c, d, e, f, g, h) \<Rightarrow>
     hex32 a @ hex32 b @ hex32 c @ hex32 d @ hex32 e @ hex32 f @ hex32 g @ hex32 h)"

definition sha256_hex :: "string \<Rightarrow> string" where
  "sha256_hex s = hexdigest (sha256_words (map of_char s))"

section \<open>The rule store (\<open>experience.py\<close>)\<close>

record rule =
  rule_id :: "string option"
  title :: string
  content :: string
  category :: "string option"
  tags :: "string list"
  sources :: "string list"
  version :: string
  confidence :: real
  weight :: real
  status :: string
  created_at :: "string option"
  updated_at :: "string option"
  fingerprint :: "string option"

record store =
  by_id :: "(string, rule) dict"
  id_by_fp :: "(string, string) dict"

datatype error = KeyError

text \<open>\<open>ExperienceStore.make_fingerprint\<close>.\<close>

definition make_fingerprint :: "string \<Rightarrow> string \<Rightarrow> string" where
  "make_fingerprint t c = sha256_hex (lower (strip t) @ [CHR 0x0A] @ lower (strip c))"

text \<open>
  \<open>ExperienceRule.ensure_ids\<close>. The two values the method draws from its environment,
  \<open>str(uuid4())\<close> and \<open>datetime.now(timezone.utc).isoformat()\<close>, are the parameters
  \<open>uuid\<close> and \<open>now\<close>.
\<close>

definition ensure_ids :: "string \<Rightarrow> string \<Rightarrow> rule \<Rightarrow> rule" where
  "ensure_ids uuid now r =
     (let r1 = (if falsy (rule_id r) then r\<lparr>rule_id := Some uuid\<rparr> else r);
          r2 = (if falsy (created_at r1) then r1\<lparr>created_at := Some now\<rparr> else r1);
          r3 = r2\<lparr>updated_at := Some now\<rparr>
      in if falsy (fingerprint r3)
         then r3\<lparr>fingerprint := Some (make_fingerprint (title r3) (content r3))\<rparr>
         else r3)"

text \<open>The fingerprint \<open>add\<close> and \<open>delete\<close> work with: \<open>rule.fingerprint or make_fingerprint(...)\<close>.\<close>

definition fp_of :: "rule \<Rightarrow> string" where
  "fp_of r = (if falsy (fingerprint r) then make_fingerprint (title r) (content r)
              else or_empty (fingerprint r))"

text \<open>
  \<open>ExperienceStore.add\<close>. The lookup \<open>self._by_id[ex_id]\<close> raises \<open>KeyError\<close> when the
  fingerprint index names an identifier that is no longer stored.
\<close>

definition add :: "store \<Rightarrow> rule \<Rightarrow> bool \<Rightarrow> bool \<Rightarrow> string \<Rightarrow> string \<Rightarrow> error + rule \<times> store" where
  "add s rule0 dedup upsert uuid now =
     (let r = ensure_ids uuid now rule0;
          fp = fp_of r
      in case (if dedup then dict_get (id_by_fp s) fp else None) of
           Some ex_id \<Rightarrow>
             (case dict_get (by_id s) ex_id of
                None \<Rightarrow> Inl KeyError
              | Some ex \<Rightarrow> Inr (ex, s))
         | None \<Rightarrow>
             (let i = or_empty (rule_id r);
                  r' = (case (if upsert then dict_get (by_id s) i else None) of
                          Some old \<Rightarrow>
                            r\<lparr>created_at := (if falsy (created_at old) then created_at r
                                             else created_at old)\<rparr>
                        | None \<Rightarrow> r)
              in Inr (r', s\<lparr>by_id := dict_set i r' (by_id s),
                           id_by_fp := dict_set fp i (id_by_fp s)\<rparr>)))"

text \<open>
  A patch is the dictionary \<open>update\<close> receives, restricted to the fields of a rule and to
  values of the field's type; a key that is absent or \<open>None\<close> is \<open>None\<close> here.
\<close>

record patch =
  p_rule_id :: "string option"
  p_title :: "string option"
  p_content :: "string option"
  p_category :: "string option"
  p_tags :: "string list option"
  p_sources :: "string list option"
  p_version :: "string option"
  p_confidence :: "real option"
  p_weight :: "real option"
  p_status :: "string option"
  p_created_at :: "string option"
  p_updated_at :: "string option"
  p_fingerprint :: "string option"

definition no_patch :: patch where
  "no_patch = \<lparr>p_rule_id = None, p_title = None, p_content = None, p_category = None,
     p_tags = None, p_sources = None, p_version = None, p_confidence = None, p_weight = None,
     p_status = None, p_created_at = None, p_updated_at = None, p_fingerprint = None\<rparr>"

definition pick :: "'a option \<Rightarrow> 'a \<Rightarrow> 'a" where
  "pick p old = (case p of None \<Rightarrow> old | Some v \<Rightarrow> v)"

definition pick_opt :: "'a option \<Rightarrow> 'a option \<Rightarrow> 'a option" where
  "pick_opt p old = (case p of None \<Rightarrow> old | Some v \<Rightarrow> Some v)"

definition apply_patch :: "patch \<Rightarrow> rule \<Rightarrow> rule" where
  "apply_patch p cur =
     \<lparr>rule_id = pick_opt (p_rule_id p) (rule_id cur),
      title = pick (p_title p) (title cur),
      content = pick (p_content p) (content cur),
      category = pick_opt (p_category p) (category cur),
      tags = pick (p_tags p) (tags cur),
      sources = pick (p_sources p) (sources cur),
      version = pick (p_version p) (version cur),
      confidence = pick (p_confidence p) (confidence cur),
      weight = pick (p_weight p) (weight cur),
      status = pick (p_status p) (status cur),
      created_at = pick_opt (p_created_at p) (created_at cur),
      updated_at = pick_opt (p_updated_at p) (updated_at cur),
      fingerprint = pick_opt (p_fingerprint p) (fingerprint cur)\<rparr>"

text \<open>\<open>ExperienceStore.update\<close>.\<close>

definition update :: "store \<Rightarrow> string \<Rightarrow> patch \<Rightarrow> string \<Rightarrow> error + rule \<times> store" where
  "update s i p now =
     (case dict_get (by_id s) i of
        None \<Rightarrow> Inl KeyError
      | Some cur \<Rightarrow>
          (let upd0 = (apply_patch p cur)\<lparr>updated_at := Some now\<rparr>;
               fp = make_fingerprint (title upd0) (content upd0);
               upd = upd0\<lparr>fingerprint := Some fp\<rparr>
           in Inr (upd, s\<lparr>by_id := dict_set i upd (by_id s),
                           id_by_fp := dict_set fp i (id_by_fp s)\<rparr>)))"

text \<open>\<open>ExperienceStore.delete\<close>.\<close>

definition delete :: "store \<Rightarrow> string \<Rightarrow> bool \<times> store" where
  "delete s i =
     (case dict_get (by_id s) i of
        None \<Rightarrow> (False, s)
      | Some cur \<Rightarrow>
          (let s1 = s\<lparr>by_id := dict_pop i (by_id s)\<rparr>;
               fp = fp_of cur
           in (True, if dict_get (id_by_fp s1) fp = Some i
                     then s1\<lparr>id_by_fp := dict_pop fp (id_by_fp s1)\<rparr>
                     else s1)))"

definition empty_store :: store where
  "empty_store = \<lparr>by_id = [], id_by_fp = []\<rparr>"

text \<open>A rule as the \<open>POST /rules\<close> route builds it: every other field at its default.\<close>

definition new_rule :: "string \<Rightarrow> string \<Rightarrow> rule" where
  "new_rule t c = \<lparr>rule_id = None, title = t, content = c, category = Some ''general'',
     tags = [], sources = [], version = ''v1'', confidence = 0.7, weight = 1.0,
     status = ''active'', created_at = None, updated_at = None, fingerprint = None\<rparr>"

text \<open>
  \<open>ExperienceStore.search\<close>. The loop visits the rules in the dictionary's order and
  appends a pair of score and rule for every rule it does not skip.

  The source computes the score in binary64 arithmetic. A finite binary64 value is a real
  number, and each \<open>+\<close> and \<open>*\<close> of the source returns the exact result rounded to a
  binary64 value. The rounding is the parameter \<open>fl\<close>, applied once for every operation
  of the source, in the order in which the source evaluates
  \<open>score = 0.0\<close>, \<open>score += 2.0 if in_title else 0.0\<close>, \<open>score += 1.0 if in_content else 0.0\<close>
  and \<open>score += confidence * 0.5 + weight * 0.5\<close>. Nothing is assumed about \<open>fl\<close>.
  Confidences and weights that are infinite or not a number are outside the model.
\<close>

fun search_loop ::
  "(real \<Rightarrow> real) \<Rightarrow> string \<Rightarrow> string \<Rightarrow> string \<Rightarrow> string \<Rightarrow> rule list \<Rightarrow> (real \<times> rule) list
   \<Rightarrow> (real \<times> rule) list" where
  "search_loop fl ql tagl catl stl [] res = res"
| "search_loop fl ql tagl catl stl (r # rs) res =
     (if catl \<noteq> [] \<and> lower (or_empty (category r)) \<noteq> catl
        then search_loop fl ql tagl catl stl rs res
      else if stl \<noteq> [] \<and> lower (status r) \<noteq> stl
        then search_loop fl ql tagl catl stl rs res
      else if tagl \<noteq> [] \<and> \<not> str_in tagl (join '','' (map lower (tags r)))
        then search_loop fl ql tagl catl stl rs res
      else if ql \<noteq> [] then
        (let in_title = str_in ql (lower (title r));
             in_content = str_in ql (lower (content r))
         in if \<not> (in_title \<or> in_content)
              then search_loop fl ql tagl catl stl rs res
            else search_loop fl ql tagl catl stl rs
                   (res @ [(fl (fl (fl (0 + (if in_title then 2 else 0))
                                     + (if in_content then 1 else 0))
                                + fl (fl (confidence r * 0.5) + fl (weight r * 0.5))), r)]))
      else search_loop fl ql tagl catl stl rs
             (res @ [(fl (0 + fl (fl (confidence r * 0.5) + fl (weight r * 0.5))), r)]))"

text \<open>\<open>max(1, min(limit, 200))\<close>, used as a slice bound and as a length bound.\<close>

definition clamp_limit :: "int \<Rightarrow> nat" where
  "clamp_limit limit = nat (max 1 (min limit 200))"

text \<open>
  \<open>res.sort(key=..., reverse=True)\<close> is stable: pairs with equal scores keep the order
  in which they were appended. Sorting by the negated score with the stable insertion
  sort \<open>sort_key\<close> is that order.
\<close>

definition search ::
  "(real \<Rightarrow> real) \<Rightarrow> store \<Rightarrow> string option \<Rightarrow> string option \<Rightarrow> string option \<Rightarrow> string option
   \<Rightarrow> int \<Rightarrow> rule list" where
  "search fl s q tag cat st limit =
     (let ql = lower (strip (or_empty q));
          tagl = lower (strip (or_empty tag));
          catl = lower (strip (or_empty cat));
          stl = lower (strip (or_empty st));
          res = search_loop fl ql tagl catl stl (dict_values (by_id s)) []
      in map snd (take (clamp_limit limit) (sort_key (\<lambda>x. - fst x) res)))"

section \<open>The candidate workflow routes\<close>

text \<open>
  The routes are modelled by their effect on the store and by their response. Their
  writes to counters, gauges and the log buffer do not touch the store and are left out.
  A route that answers with an \<open>HTTPException\<close> returns the status as an error value.
\<close>

datatype http_error = NotFound | InternalError

definition add_candidate ::
  "store \<Rightarrow> rule \<Rightarrow> bool \<Rightarrow> bool \<Rightarrow> string \<Rightarrow> string \<Rightarrow> (http_error + rule) \<times> store" where
  "add_candidate s req dedup upsert uuid now =
     (case add s (req\<lparr>status := ''draft''\<rparr>) dedup upsert uuid now of
        Inl e \<Rightarrow> (Inl InternalError, s)
      | Inr (added, s') \<Rightarrow> (Inr added, s'))"

definition approve_candidate :: "store \<Rightarrow> string \<Rightarrow> string \<Rightarrow> (http_error + rule) \<times> store" where
  "approve_candidate s i now =
     (case update s i (no_patch\<lparr>p_status := Some ''active''\<rparr>) now of
        Inl KeyError \<Rightarrow> (Inl NotFound, s)
      | Inr (upd, s') \<Rightarrow> (Inr upd, s'))"

definition reject_candidate :: "store \<Rightarrow> string \<Rightarrow> string \<Rightarrow> (http_error + rule) \<times> store" where
  "reject_candidate s i now =
     (case update s i (no_patch\<lparr>p_status := Some ''deprecated''\<rparr>) now of
        Inl KeyError \<Rightarrow> (Inl NotFound, s)
      | Inr (upd, s') \<Rightarrow> (Inr upd, s'))"

section \<open>The telemetry substrate (\<open>observability.py\<close>)\<close>

datatype jval = JInt int | JStr string | JList "jval list" | JObj "(string \<times> jval) list"

text \<open>
  A log event. \<open>ts\<close> is the instant the event was appended, in microseconds: the source
  stores \<open>now.isoformat()\<close> and reads it back with \<open>datetime.fromisoformat\<close>.
\<close>

record log_item =
  ts :: int
  level :: string
  message :: string
  log_module :: string
  item_tags :: "string list"
  extra :: "(string \<times> jval) list"

record log_buffer =
  buf :: "log_item list"
  maxlen :: nat

text \<open>\<open>LogBuffer.add\<close>: a \<open>deque(maxlen=...)\<close> drops from the left when it is full.\<close>

definition log_add ::
  "log_buffer \<Rightarrow> int \<Rightarrow> string \<Rightarrow> string \<Rightarrow> string \<Rightarrow> string list \<Rightarrow> (string \<times> jval) list \<Rightarrow> log_buffer" where
  "log_add lb now lvl msg modl tgs ex =
     (let b = buf lb @ [\<lparr>ts = now, level = upper lvl, message = msg, log_module = modl,
                         item_tags = tgs, extra = ex\<rparr>]
      in lb\<lparr>buf := drop (length b - maxlen lb) b\<rparr>)"

definition MAX_RANGE_SECONDS :: int where
  "MAX_RANGE_SECONDS = 365 * 24 * 3600"

text \<open>\<open>safe_seconds\<close>: \<open>None\<close> and \<open>0\<close> are falsy and leave it \<open>None\<close>.\<close>

definition safe_seconds :: "int option \<Rightarrow> int option" where
  "safe_seconds since_seconds =
     (case since_seconds of
        None \<Rightarrow> None
      | Some n \<Rightarrow> if n = 0 then None else Some (max 1 (min n MAX_RANGE_SECONDS)))"

text \<open>
  \<open>since_dt = now - timedelta(seconds=safe_seconds)\<close>, in microseconds. The
  \<open>OverflowError\<close> branch needs a clock within a year of \<open>datetime.min\<close> and is not
  modelled.
\<close>

definition since_dt :: "int \<Rightarrow> int option \<Rightarrow> int option" where
  "since_dt now since_seconds =
     (case safe_seconds since_seconds of None \<Rightarrow> None | Some n \<Rightarrow> Some (now - n * 1000000))"

fun log_search_loop ::
  "string option \<Rightarrow> string option \<Rightarrow> int option \<Rightarrow> nat \<Rightarrow> log_item list \<Rightarrow> log_item list \<Rightarrow> log_item list" where
  "log_search_loop q level_u sdt cap [] results = results"
| "log_search_loop q level_u sdt cap (item # rest) results =
     (if \<not> falsy level_u \<and> level item \<noteq> or_empty level_u
        then log_search_loop q level_u sdt cap rest results
      else if \<not> falsy q \<and> \<not> str_in (or_empty q) (message item)
              \<and> \<not> str_in (or_empty q) (join '','' (item_tags item))
        then log_search_loop q level_u sdt cap rest results
      else if (case sdt of None \<Rightarrow> False | Some t \<Rightarrow> ts item < t)
        then log_search_loop q level_u sdt cap rest results
      else (let results' = results @ [item]
            in if length results' \<ge> cap then results'
               else log_search_loop q level_u sdt cap rest results'))"

text \<open>\<open>LogBuffer.search\<close>; \<open>now\<close> is the clock reading at the call.\<close>

definition log_search ::
  "log_buffer \<Rightarrow> int \<Rightarrow> string option \<Rightarrow> string option \<Rightarrow> int option \<Rightarrow> int \<Rightarrow> log_item list" where
  "log_search lb now q lvl since_seconds limit =
     (let level_u = (if falsy lvl then None else Some (upper (or_empty lvl)))
      in log_search_loop q level_u (since_dt now since_seconds) (clamp_limit limit)
           (rev (buf lb)) [])"

text \<open>
  \<open>LogSearchRequest\<close> and the \<open>POST /logs/search\<close> route. The request model puts no
  bound on \<open>since_seconds\<close>; the \<open>GET\<close> route declares \<open>ge=1\<close>.
\<close>

record log_search_request =
  req_q :: "string option"
  req_query :: "string option"
  req_level :: "string option"
  req_limit :: int
  req_since_seconds :: "int option"

definition search_logs_post :: "log_buffer \<Rightarrow> int \<Rightarrow> log_search_request \<Rightarrow> log_item list" where
  "search_logs_post lb now payload =
     (let q = (if falsy (req_q payload) then req_query payload else req_q payload);
          limit = max 1 (min (if req_limit payload = 0 then 50 else req_limit payload) 200)
      in log_search lb now q (req_level payload) (req_since_seconds payload) limit)"

text \<open>\<open>Metrics\<close>: the counters and gauges (timings and labels are not used here).\<close>

record metrics =
  counters :: "(string, int) dict"
  gauges :: "(string, real) dict"

definition inc :: "metrics \<Rightarrow> string \<Rightarrow> int \<Rightarrow> metrics" where
  "inc m name v =
     m\<lparr>counters := dict_set name ((case dict_get (counters m) name of None \<Rightarrow> 0 | Some c \<Rightarrow> c) + v)
                      (counters m)\<rparr>"

definition set_gauge :: "metrics \<Rightarrow> string \<Rightarrow> real \<Rightarrow> metrics" where
  "set_gauge m name v = m\<lparr>gauges := dict_set name v (gauges m)\<rparr>"

section \<open>The auto-harvester (\<open>harvest_auto_candidates\<close>)\<close>

text \<open>The process-wide singletons \<open>store\<close>, \<open>obs_metrics\<close> and \<open>obs_logs\<close>.\<close>

record sys =
  exp_store :: store
  obs_metrics :: metrics
  obs_logs :: log_buffer

record auto_cfg =
  enabled :: bool
  min_count :: int
  include_levels :: "string list"
  since_seconds :: int
  min_confidence :: real
  max_candidates :: int
  min_samples :: int

record harvest_response =
  created :: int
  candidates :: "rule list"

text \<open>\<open>int(x or d)\<close> on an integer: \<open>0\<close> is falsy.\<close>

definition int_or :: "int \<Rightarrow> int \<Rightarrow> int" where
  "int_or x d = (if x = 0 then d else x)"

definition harvest_recent :: "auto_cfg \<Rightarrow> log_buffer \<Rightarrow> int \<Rightarrow> log_item list" where
  "harvest_recent cfg lb now =
     log_search lb now None None (Some (max 1 (int_or (since_seconds cfg) 900))) 1000"

text \<open>
  The frequency count per \<open>module:level\<close> key. The \<open>examples\<close> dictionary the source
  fills beside it is never read and is left out.
\<close>

fun freq_loop :: "string list \<Rightarrow> log_item list \<Rightarrow> (string, int) dict \<Rightarrow> (string, int) dict" where
  "freq_loop allow_levels [] freq = freq"
| "freq_loop allow_levels (it # rest) freq =
     (let lvl = upper (level it);
          modl = (if log_module it = [] then ''unknown'' else log_module it)
      in if lvl \<notin> set allow_levels then freq_loop allow_levels rest freq
         else (let key = modl @ '':'' @ lvl
               in freq_loop allow_levels rest
                    (dict_set key ((case dict_get freq key of None \<Rightarrow> 0 | Some c \<Rightarrow> c) + 1) freq)))"

definition harvest_ordered :: "auto_cfg \<Rightarrow> log_item list \<Rightarrow> (string \<times> int) list" where
  "harvest_ordered cfg recent =
     sort_key (\<lambda>kv. - snd kv) (freq_loop (map upper (include_levels cfg)) recent [])"

text \<open>\<open>key.split(":", 1)\<close> on a key that holds a colon.\<close>

definition split_key :: "string \<Rightarrow> string \<times> string" where
  "split_key key = (takeWhile (\<lambda>c. c \<noteq> CHR '':'') key, drop 1 (dropWhile (\<lambda>c. c \<noteq> CHR '':'') key))"

definition cand_fingerprint :: "auto_cfg \<Rightarrow> string \<Rightarrow> int \<Rightarrow> string" where
  "cand_fingerprint cfg key cnt =
     (case split_key key of (modl, lvl) \<Rightarrow>
        take 16 (sha256_hex (modl @ ''|'' @ lvl @ ''|'' @ str_of_int cnt @ ''|''
                             @ str_of_int (since_seconds cfg))))"

definition make_candidate :: "auto_cfg \<Rightarrow> string \<Rightarrow> int \<Rightarrow> string \<Rightarrow> rule" where
  "make_candidate cfg key cnt uuid =
     (case split_key key of (modl, lvl) \<Rightarrow>
        \<lparr>rule_id = Some uuid,
         title = modl @ '' high-'' @ lower lvl @ '' frequency reflection'',
         content = ''Observed '' @ str_of_int cnt @ '' '' @ lvl @ '' logs in '' @ modl
                   @ '' within last '' @ str_of_int (since_seconds cfg) @ ''s.'',
         category = Some ''reflection'',
         tags = [modl, lvl, ''auto''],
         sources = [],
         version = ''v1'',
         confidence = 0.7,
         weight = 1.0,
         status = ''draft'',
         created_at = None,
         updated_at = None,
         fingerprint = Some (cand_fingerprint cfg key cnt)\<rparr>)"

definition draft_count :: "store \<Rightarrow> nat" where
  "draft_count s = length (filter (\<lambda>r. lower (status r) = ''draft'') (dict_values (by_id s)))"

text \<open>
  The loop over \<open>ordered\<close>. \<open>uuids k\<close> is the \<open>k\<close>-th value \<open>str(uuid4())\<close> yields during
  the call and \<open>stamp\<close> the text of the clock reading. An exception raised by \<open>add\<close> leaves
  the loop; the store keeps what earlier iterations wrote.
\<close>

fun harvest_loop ::
  "auto_cfg \<Rightarrow> (nat \<Rightarrow> string) \<Rightarrow> string \<Rightarrow> (string \<times> int) list \<Rightarrow> nat \<Rightarrow> int \<Rightarrow> rule list \<Rightarrow> store
   \<Rightarrow> error option \<times> int \<times> rule list \<times> store" where
  "harvest_loop cfg uuids stamp [] k n acc s = (None, n, acc, s)"
| "harvest_loop cfg uuids stamp ((key, cnt) # rest) k n acc s =
     (if n \<ge> int_or (max_candidates cfg) 10 then (None, n, acc, s)
      else if cnt < int_or (min_count cfg) 1 then harvest_loop cfg uuids stamp rest k n acc s
      else (let cand0 = make_candidate cfg key cnt (uuids k);
                cand = ensure_ids (uuids k) stamp cand0;
                before_cnt = draft_count s
            in case add s cand0 True False (uuids k) stamp of
                 Inl e \<Rightarrow> (Some e, n, acc, s)
               | Inr (added, s') \<Rightarrow>
                   (let after_cnt = draft_count s'
                    in if after_cnt > before_cnt \<or> fingerprint added = fingerprint cand
                       then harvest_loop cfg uuids stamp rest (Suc k)
                              (n + (if after_cnt > before_cnt then 1 else 0)) (acc @ [added]) s'
                       else harvest_loop cfg uuids stamp rest (Suc k) n acc s')))"

definition harvest ::
  "auto_cfg \<Rightarrow> sys \<Rightarrow> (nat \<Rightarrow> string) \<Rightarrow> int \<Rightarrow> string \<Rightarrow> (error + harvest_response) \<times> sys" where
  "harvest cfg st uuids now stamp =
     (if \<not> enabled cfg then
        (Inr \<lparr>created = 0, candidates = []\<rparr>,
         st\<lparr>obs_logs := log_add (obs_logs st) now ''INFO'' ''auto_candidate_harvest_skipped''
                           ''experience'' [''disabled'']
                           [(''created'', JInt 0), (''since_seconds'', JInt (since_seconds cfg)),
                            (''min_count'', JInt (min_count cfg))]\<rparr>)
      else
        (let recent = harvest_recent cfg (obs_logs st) now
         in if int (length recent) < max 1 (min_samples cfg) then
              (Inr \<lparr>created = 0, candidates = []\<rparr>,
               st\<lparr>obs_metrics := set_gauge (obs_metrics st)
                                     ''experience_auto_candidate_last_created'' 0,
                  obs_logs := log_add (obs_logs st) now ''INFO'' ''auto_candidate_harvest_skipped''
                                ''experience'' [''insufficient_samples'']
                                [(''created'', JInt 0), (''samples'', JInt (int (length recent))),
                                 (''required'', JInt (min_samples cfg)),
                                 (''since_seconds'', JInt (since_seconds cfg)),
                                 (''min_count'', JInt (min_count cfg))]\<rparr>)
            else
              (let ordered = harvest_ordered cfg recent
               in case harvest_loop cfg uuids stamp ordered 0 0 [] (exp_store st) of
                    (Some e, n, added, s') \<Rightarrow> (Inl e, st\<lparr>exp_store := s'\<rparr>)
                  | (None, n, added, s') \<Rightarrow>
                      (Inr \<lparr>created = n, candidates = added\<rparr>,
                       st\<lparr>exp_store := s',
                          obs_metrics :=
                            set_gauge
                              (set_gauge
                                 (inc (obs_metrics st) ''experience_auto_candidate_harvest_total'' 1)
                                 ''experience_candidates_total'' (real (draft_count s')))
                              ''experience_auto_candidate_last_created'' (real_of_int n),
                          obs_logs := log_add (obs_logs st) now ''INFO'' ''auto_candidate_harvest''
                                        ''experience'' [''enabled'', str_of_int n]
                                        [(''created'', JInt n),
                                         (''since_seconds'', JInt (since_seconds cfg)),
                                         (''min_count'', JInt (min_count cfg)),
                                         (''breakdown'',
                                          JList (map (\<lambda>kv. JObj [(''source'', JStr (fst kv)),
                                                                  (''count'', JInt (snd kv))])
                                                     (take 5 ordered)))]\<rparr>))))"

section \<open>Specification-level definitions\<close>

text \<open>
  The matching rule of the log search as the specification words it: the query is a
  substring of the message or of the comma-joined tags. An absent query is the empty
  string, which occurs in every string.
\<close>

definition text_match :: "string \<Rightarrow> log_item \<Rightarrow> bool" where
  "text_match q item \<longleftrightarrow> str_in q (message item) \<or> str_in q (join '','' (item_tags item))"

definition log_matches :: "string option \<Rightarrow> string option \<Rightarrow> int option \<Rightarrow> log_item \<Rightarrow> bool" where
  "log_matches q level_u sdt item \<longleftrightarrow>
     (falsy level_u \<or> level item = or_empty level_u)
     \<and> text_match (or_empty q) item
     \<and> (case sdt of None \<Rightarrow> True | Some t \<Rightarrow> t \<le> ts item)"

text \<open>
  The filters of the rule search as one predicate over the normalised query values, and
  the score the loop appends for a rule that passes them.
\<close>

definition rule_matches :: "string \<Rightarrow> string \<Rightarrow> string \<Rightarrow> string \<Rightarrow> rule \<Rightarrow> bool" where
  "rule_matches ql tagl catl stl r \<longleftrightarrow>
     (catl = [] \<or> lower (or_empty (category r)) = catl)
     \<and> (stl = [] \<or> lower (status r) = stl)
     \<and> (tagl = [] \<or> str_in tagl (join '','' (map lower (tags r))))
     \<and> (ql = [] \<or> str_in ql (lower (title r)) \<or> str_in ql (lower (content r)))"

definition rule_score :: "(real \<Rightarrow> real) \<Rightarrow> string \<Rightarrow> rule \<Rightarrow> real" where
  "rule_score fl ql r =
     (let base = fl (fl (confidence r * 0.5) + fl (weight r * 0.5))
      in if ql = [] then fl (0 + base)
         else fl (fl (fl (0 + (if str_in ql (lower (title r)) then 2 else 0))
                      + (if str_in ql (lower (content r)) then 1 else 0)) + base))"

text \<open>
  Every rule of the store carries the fingerprint \<open>make_fingerprint\<close> computes from its
  own title and content.
\<close>

definition fp_consistent :: "store \<Rightarrow> bool" where
  "fp_consistent s =
     list_all (\<lambda>r. fingerprint r = Some (make_fingerprint (title r) (content r)))
       (dict_values (by_id s))"

text \<open>
  For the two-run property of the harvester: the frequency table a run at \<open>now\<close> works
  on, the entries of the table the loop visits before it stops (by the \<open>break\<close> or at the
  end of the table), and what it means for the fingerprint index to name a stored rule.
\<close>

definition harvest_table :: "auto_cfg \<Rightarrow> sys \<Rightarrow> int \<Rightarrow> (string \<times> int) list" where
  "harvest_table cfg st now = harvest_ordered cfg (harvest_recent cfg (obs_logs st) now)"

fun harvest_visited ::
  "auto_cfg \<Rightarrow> (nat \<Rightarrow> string) \<Rightarrow> string \<Rightarrow> (string \<times> int) list \<Rightarrow> nat \<Rightarrow> int \<Rightarrow> store
   \<Rightarrow> (string \<times> int) list" where
  "harvest_visited cfg uuids stamp [] k n s = []"
| "harvest_visited cfg uuids stamp ((key, cnt) # rest) k n s =
     (if n \<ge> int_or (max_candidates cfg) 10 then []
      else if cnt < int_or (min_count cfg) 1
        then (key, cnt) # harvest_visited cfg uuids stamp rest k n s
      else (case add s (make_candidate cfg key cnt (uuids k)) True False (uuids k) stamp of
              Inl e \<Rightarrow> [(key, cnt)]
            | Inr (added, s') \<Rightarrow>
                (key, cnt) # harvest_visited cfg uuids stamp rest (Suc k)
                               (n + (if draft_count s' > draft_count s then 1 else 0)) s'))"

definition live_fp :: "store \<Rightarrow> string \<Rightarrow> bool" where
  "live_fp s fp \<longleftrightarrow>
     (case dict_get (id_by_fp s) fp of
        None \<Rightarrow> False
      | Some i \<Rightarrow> dict_get (by_id s) i \<noteq> None)"

section \<open>Example inputs\<close>

definition ex_rule :: rule where
  "ex_rule = new_rule ''Retry on timeout'' ''Use backoff''"

definition ex_cfg :: auto_cfg where
  "ex_cfg = \<lparr>enabled = True, min_count = 3, include_levels = [''ERROR'', ''WARN''],
     since_seconds = 900, min_confidence = 0.6, max_candidates = 10, min_samples = 20\<rparr>"

definition ex_sys :: sys where
  "ex_sys = \<lparr>exp_store = empty_store, obs_metrics = \<lparr>counters = [], gauges = []\<rparr>,
     obs_logs = \<lparr>buf = [], maxlen = 2000\<rparr>\<rparr>"

definition ex_store1 :: store where
  "ex_store1 = \<lparr>by_id = [(''u1'', ensure_ids ''u1'' ''t1'' ex_rule)],
                id_by_fp = [(fp_of ex_rule, ''u1'')]\<rparr>"

definition ex_store2 :: store where
  "ex_store2 = \<lparr>by_id = [(''u1'', ex_rule)], id_by_fp = []\<rparr>"

definition ex_old :: log_item where
  "ex_old = \<lparr>ts = 0, level = ''WARN'', message = ''disk slow'', log_module = ''memory'',
             item_tags = [''io''], extra = []\<rparr>"

definition ex_new :: log_item where
  "ex_new = \<lparr>ts = 5000000, level = ''INFO'', message = ''ok'', log_module = ''memory'',
             item_tags = [''sync'', ''slow''], extra = []\<rparr>"

definition ex_logs :: log_buffer where
  "ex_logs = \<lparr>buf = [ex_old, ex_new], maxlen = 2000\<rparr>"

definition ex_req :: log_search_request where
  "ex_req = \<lparr>req_q = Some ''slow'', req_query = None, req_level = None, req_limit = 50,
             req_since_seconds = Some 0\<rparr>"

definition ex_cand :: rule where
  "ex_cand = make_candidate ex_cfg ''memory:WARN'' 25 ''id1''"

definition ex_cand2 :: rule where
  "ex_cand2 = make_candidate ex_cfg ''memory:WARN'' 25 ''id2''"

definition bug_s1 :: store where
  "bug_s1 = (case add empty_store ex_cand True False ''id1'' ''t0'' of
               Inl e \<Rightarrow> empty_store | Inr (r, s) \<Rightarrow> s)"

definition bug_s2 :: store where
  "bug_s2 = snd (approve_candidate bug_s1 ''id1'' ''t1'')"

definition bug_s3 :: store where
  "bug_s3 = snd (delete bug_s2 ''id1'')"

definition ex_rule_b :: rule where
  "ex_rule_b = new_rule ''Retry twice'' ''y''"

definition ex_store4 :: store where
  "ex_store4 = \<lparr>by_id = [(''u1'', ex_rule), (''u2'', ensure_ids ''u2'' ''t2'' ex_rule_b)],
                id_by_fp = [(fp_of ex_rule_b, ''u2'')]\<rparr>"

definition ex_rule_r1 :: rule where
  "ex_rule_r1 = ex_rule\<lparr>rule_id := Some ''r1''\<rparr>"

definition ex_rule_fa :: rule where
  "ex_rule_fa = ex_rule\<lparr>fingerprint := Some ''fa''\<rparr>"

definition ex_rule_fb :: rule where
  "ex_rule_fb = ex_rule\<lparr>fingerprint := Some ''fb''\<rparr>"

definition ex_rule_c :: rule where
  "ex_rule_c = ex_rule\<lparr>category := Some ''ops'', status := ''active''\<rparr>"


definition ex_dup1 :: store where
  "ex_dup1 = \<lparr>by_id = [(''r1'', ensure_ids ''u1'' ''t1'' ex_rule_r1)],
              id_by_fp = [(fp_of ex_rule, ''r1'')]\<rparr>"

definition ex_dup2 :: store where
  "ex_dup2 = \<lparr>by_id = [(''r1'', ensure_ids ''u2'' ''t2'' ex_rule_r1)],
              id_by_fp = [(fp_of ex_rule, ''r1'')]\<rparr>"

definition ex_two1 :: store where
  "ex_two1 = \<lparr>by_id = [(''u1'', ensure_ids ''u1'' ''t1'' ex_rule_fa)],
              id_by_fp = [(''fa'', ''u1'')]\<rparr>"

definition ex_two2 :: store where
  "ex_two2 = \<lparr>by_id = [(''u1'', ensure_ids ''u1'' ''t1'' ex_rule_fa),
                        (''u2'', ensure_ids ''u2'' ''t2'' ex_rule_fb)],
              id_by_fp = [(''fa'', ''u1''), (''fb'', ''u2'')]\<rparr>"

text \<open>
  Two systems for the harvester: 25 warnings of one module inside the window of both runs,
  and 25 warnings of which the oldest leaves the window between the runs. \<open>ex_info1\<close> is
  the line the first run appends to the log buffer.
\<close>

definition ex_warn :: log_item where
  "ex_warn = \<lparr>ts = 500000000, level = ''WARN'', message = ''slow'', log_module = ''memory'',
              item_tags = [], extra = []\<rparr>"

definition ex_sys_of :: "log_item list \<Rightarrow> sys" where
  "ex_sys_of b = \<lparr>exp_store = empty_store, obs_metrics = \<lparr>counters = [], gauges = []\<rparr>,
                  obs_logs = \<lparr>buf = b, maxlen = 2000\<rparr>\<rparr>"

definition ex_calm :: sys where
  "ex_calm = ex_sys_of (replicate 25 ex_warn)"

definition ex_busy :: sys where
  "ex_busy = ex_sys_of (ex_warn\<lparr>ts := 0\<rparr> # replicate 24 ex_warn)"

definition ex_uuid1 :: "nat \<Rightarrow> string" where
  "ex_uuid1 k = ''id1''"

definition ex_uuid2 :: "nat \<Rightarrow> string" where
  "ex_uuid2 k = ''id2''"

definition ex_calm1 :: sys where
  "ex_calm1 = snd (harvest ex_cfg ex_calm ex_uuid1 900000000 ''t1'')"

definition ex_busy1 :: sys where
  "ex_busy1 = snd (harvest ex_cfg ex_busy ex_uuid1 900000000 ''t1'')"

definition ex_busy2 :: sys where
  "ex_busy2 = snd (harvest ex_cfg ex_busy1 ex_uuid2 901000000 ''t2'')"

definition ex_draft1 :: rule where
  "ex_draft1 = ensure_ids ''id1'' ''t1'' (make_candidate ex_cfg ''memory:WARN'' 25 ''id1'')"

definition ex_draft2 :: rule where
  "ex_draft2 = ensure_ids ''id2'' ''t2'' (make_candidate ex_cfg ''memory:WARN'' 24 ''id2'')"

definition ex_info1 :: log_item where
  "ex_info1 = \<lparr>ts = 900000000, level = ''INFO'', message = ''auto_candidate_harvest'',
               log_module = ''experience'', item_tags = [''enabled'', ''1''],
               extra = [(''created'', JInt 1), (''since_seconds'', JInt 900), (''min_count'', JInt 3),
                        (''breakdown'', JList [JObj [(''source'', JStr ''memory:WARN''),
                                                     (''count'', JInt 25)]])]\<rparr>"

section \<open>Auxiliary lemmas\<close>

lemma dict_get_set: "dict_get (dict_set k v d) k' = (if k' = k then Some v else dict_get d k')"
  by (induction d) (auto simp: dict_get_def)

lemma length_hex32: "length (hex32 w) = 8"
  by (simp add: hex32_def)

lemma length_sha256_hex: "length (sha256_hex s) = 64"
  by (simp add: sha256_hex_def hexdigest_def length_hex32 split: prod.splits)

lemma make_fingerprint_nonempty: "make_fingerprint t c \<noteq> []"
  using length_sha256_hex [of "lower (strip t) @ [CHR 0x0A] @ lower (strip c)"]
  by (auto simp: make_fingerprint_def)

lemma ensure_ids_title [simp]: "title (ensure_ids u n r) = title r"
  and ensure_ids_content [simp]: "content (ensure_ids u n r) = content r"
  and ensure_ids_status [simp]: "status (ensure_ids u n r) = status r"
  by (simp_all add: ensure_ids_def Let_def)

lemma ensure_ids_fingerprint:
  "fingerprint (ensure_ids u n r) =
     (if falsy (fingerprint r) then Some (make_fingerprint (title r) (content r)) else fingerprint r)"
  by (simp add: ensure_ids_def Let_def)

lemma ensure_ids_rule_id:
  "rule_id (ensure_ids u n r) = (if falsy (rule_id r) then Some u else rule_id r)"
  by (simp add: ensure_ids_def Let_def)

lemma fp_of_ensure_ids: "fp_of (ensure_ids u n r) = fp_of r"
  by (auto simp: fp_of_def ensure_ids_fingerprint falsy_def or_empty_def make_fingerprint_nonempty
      split: option.splits)

lemma add_dedup_cases:
  "add s r True up u n = Inr (a, s') \<Longrightarrow>
   (dict_get (id_by_fp s) (fp_of r) \<noteq> None \<and> s' = s
      \<and> dict_get (by_id s) (the (dict_get (id_by_fp s) (fp_of r))) = Some a)
   \<or> (dict_get (id_by_fp s) (fp_of r) = None
      \<and> dict_get (id_by_fp s') (fp_of r) = Some (or_empty (rule_id a))
      \<and> dict_get (by_id s') (or_empty (rule_id a)) = Some a)"
  by (auto simp: add_def Let_def fp_of_ensure_ids dict_get_set split: option.splits if_splits)

lemma update_Inr:
  "update s i p n = Inr (upd, s') \<Longrightarrow>
     dict_get (by_id s') i = Some upd \<and> status upd = pick (p_status p) (status (the (dict_get (by_id s) i)))
     \<and> fingerprint upd = Some (make_fingerprint (title upd) (content upd))"
  by (auto simp: update_def Let_def dict_get_set apply_patch_def split: option.splits)

lemma fp_of_status [simp]: "fp_of (r\<lparr>status := x\<rparr>) = fp_of r"
  by (simp add: fp_of_def)

lemma add_inserted:
  assumes "dedup \<longrightarrow> dict_get (id_by_fp s) (fp_of r) = None"
      and "add s r dedup up u n = Inr (a, s')"
  shows "status a = status r" "dict_get (by_id s') (or_empty (rule_id a)) = Some a"
    "fingerprint a = fingerprint (ensure_ids u n r)" "title a = title r" "content a = content r"
    "rule_id a = rule_id (ensure_ids u n r)"
  using assms
  by (auto simp: add_def Let_def fp_of_ensure_ids dict_get_set split: option.splits if_splits)

lemma dict_values_set: "set (dict_values (dict_set k v d)) \<subseteq> insert v (set (dict_values d))"
  by (induction d) (auto simp: dict_values_def)

lemma fp_consistent_set:
  "fp_consistent s \<Longrightarrow> fingerprint v = Some (make_fingerprint (title v) (content v)) \<Longrightarrow>
     fp_consistent (s\<lparr>by_id := dict_set k v (by_id s), id_by_fp := x\<rparr>)"
  using dict_values_set [of k v "by_id s"]
  by (auto simp: fp_consistent_def list_all_iff)

lemma add_frame:
  "add s r dedup up u n = Inr (a, s') \<Longrightarrow> j \<noteq> or_empty (rule_id a) \<Longrightarrow>
     dict_get (by_id s') j = dict_get (by_id s) j"
  by (auto simp: add_def Let_def dict_get_set split: option.splits if_splits)

lemma add_fp_consistent:
  assumes "add s r dedup up u n = Inr (a, s')" "falsy (fingerprint r)" "fp_consistent s"
  shows "fp_consistent s'"
proof -
  let ?e = "ensure_ids u n r"
  have f: "fingerprint ?e = Some (make_fingerprint (title ?e) (content ?e))"
    using assms(2) by (simp add: ensure_ids_fingerprint)
  have g: "fingerprint (?e\<lparr>created_at := c\<rparr>)
           = Some (make_fingerprint (title (?e\<lparr>created_at := c\<rparr>)) (content (?e\<lparr>created_at := c\<rparr>)))" for c
    using f by simp
  show ?thesis
    using assms(1,3) f g
    by (auto simp: add_def Let_def fp_consistent_set split: option.splits if_splits)
qed

lemma update_frame:
  "update s i p n = Inr (upd, s') \<Longrightarrow> j \<noteq> i \<Longrightarrow> dict_get (by_id s') j = dict_get (by_id s) j"
  by (auto simp: update_def Let_def dict_get_set split: option.splits)

lemma update_fp_consistent:
  "update s i p n = Inr (upd, s') \<Longrightarrow> fp_consistent s \<Longrightarrow> fp_consistent s'"
  by (auto simp: update_def Let_def fp_consistent_set split: option.splits)

lemma str_in_Nil [simp]: "str_in [] s"
  by (induction s) auto

lemma log_search_loop_eq:
  "length results < cap \<Longrightarrow>
     log_search_loop q lu sdt cap items results =
       results @ take (cap - length results) (filter (log_matches q lu sdt) items)"
proof (induction items arbitrary: results)
  case Nil
  then show ?case by simp
next
  case (Cons item rest)
  show ?case
  proof (cases "log_matches q lu sdt item")
    case False
    then show ?thesis
      using Cons by (auto simp: log_matches_def text_match_def falsy_def or_empty_def split: option.splits)
  next
    case True
    then have pass: "\<not> (\<not> falsy lu \<and> level item \<noteq> or_empty lu)"
      "\<not> (\<not> falsy q \<and> \<not> str_in (or_empty q) (message item)
              \<and> \<not> str_in (or_empty q) (join '','' (item_tags item)))"
      "\<not> (case sdt of None \<Rightarrow> False | Some t \<Rightarrow> ts item < t)"
      by (auto simp: log_matches_def text_match_def split: option.splits)
    show ?thesis
    proof (cases "cap \<le> Suc (length results)")
      case True
      with Cons.prems have "cap - length results = Suc 0" by simp
      with True \<open>log_matches q lu sdt item\<close> pass show ?thesis
        by (auto simp: Let_def)
    next
      case False
      then have "length (results @ [item]) < cap" by simp
      from Cons.IH [OF this] False \<open>log_matches q lu sdt item\<close> pass show ?thesis
        by (auto simp: Let_def Suc_diff_Suc take_Cons')
    qed
  qed
qed

lemma clamp_limit_bounds: "1 \<le> clamp_limit limit \<and> clamp_limit limit \<le> 200"
  by (auto simp: clamp_limit_def)

lemma log_search_eq:
  "log_search lb now q lvl since limit =
     take (clamp_limit limit)
       (filter (log_matches q (if falsy lvl then None else Some (upper (or_empty lvl)))
                  (since_dt now since))
          (rev (buf lb)))"
proof -
  have "0 < clamp_limit limit" using clamp_limit_bounds [of limit] by simp
  then show ?thesis
    by (simp add: log_search_def Let_def log_search_loop_eq)
qed

lemma upper_Nil [simp]: "upper s = [] \<longleftrightarrow> s = []"
  by (simp add: upper_def)

lemma log_matches_None:
  "log_matches q None sdt =
     (\<lambda>item. text_match (or_empty q) item \<and> (case sdt of None \<Rightarrow> True | Some t \<Rightarrow> t \<le> ts item))"
  by (rule ext) (simp add: log_matches_def falsy_def)

lemma log_matches_Some:
  "\<not> falsy lvl \<Longrightarrow>
   log_matches q (Some (upper (or_empty lvl))) sdt =
     (\<lambda>item. level item = upper (or_empty lvl) \<and> text_match (or_empty q) item
             \<and> (case sdt of None \<Rightarrow> True | Some t \<Rightarrow> t \<le> ts item))"
  by (rule ext) (cases lvl; simp add: log_matches_def falsy_def or_empty_def)

lemma search_loop_skip:
  "\<not> rule_matches ql tagl catl stl r \<Longrightarrow>
     search_loop fl ql tagl catl stl (r # rs) res = search_loop fl ql tagl catl stl rs res"
  by (auto simp: rule_matches_def Let_def)

lemma search_loop_keep:
  "rule_matches ql tagl catl stl r \<Longrightarrow>
     search_loop fl ql tagl catl stl (r # rs) res =
       search_loop fl ql tagl catl stl rs (res @ [(rule_score fl ql r, r)])"
  by (auto simp: rule_matches_def rule_score_def Let_def)

lemma search_loop_eq:
  "search_loop fl ql tagl catl stl rs res =
     res @ map (\<lambda>r. (rule_score fl ql r, r)) (filter (rule_matches ql tagl catl stl) rs)"
proof (induction rs arbitrary: res)
  case Nil
  then show ?case by simp
next
  case (Cons r rs)
  show ?case
    by (cases "rule_matches ql tagl catl stl r")
       (simp_all add: search_loop_skip search_loop_keep Cons.IH del: search_loop.simps)
qed

lemma ex_rule_falsy: "falsy (fingerprint ex_rule)" "falsy (rule_id ex_rule)"
  by (simp_all add: ex_rule_def new_rule_def falsy_def)

lemma length_cand_fingerprint: "length (cand_fingerprint cfg key cnt) = 16"
  by (simp add: cand_fingerprint_def length_sha256_hex split: prod.splits)

lemma cand_fingerprint_neq [simp]:
  "cand_fingerprint cfg key cnt \<noteq> make_fingerprint t c"
  "make_fingerprint t c \<noteq> cand_fingerprint cfg key cnt"
  using length_cand_fingerprint [of cfg key cnt]
    length_sha256_hex [of "lower (strip t) @ [CHR 0x0A] @ lower (strip c)"]
  by (auto simp: make_fingerprint_def)

lemma cand_fingerprint_nonempty [simp]: "cand_fingerprint cfg key cnt \<noteq> []"
  using length_cand_fingerprint [of cfg key cnt] by auto

lemma make_candidate_sel [simp]:
  "rule_id (make_candidate cfg key cnt u) = Some u"
  "fingerprint (make_candidate cfg key cnt u) = Some (cand_fingerprint cfg key cnt)"
  "status (make_candidate cfg key cnt u) = ''draft''"
  "created_at (make_candidate cfg key cnt u) = None"
  by (simp_all add: make_candidate_def split: prod.splits)

lemma fp_of_make_candidate [simp]:
  "fp_of (make_candidate cfg key cnt u) = cand_fingerprint cfg key cnt"
  by (simp add: fp_of_def falsy_def or_empty_def)

lemma add_new_candidate:
  "dict_get (id_by_fp s) (cand_fingerprint cfg key cnt) = None \<Longrightarrow>
   add s (make_candidate cfg key cnt u) True False u n =
     Inr (ensure_ids u n (make_candidate cfg key cnt u),
          s\<lparr>by_id := dict_set u (ensure_ids u n (make_candidate cfg key cnt u)) (by_id s),
            id_by_fp := dict_set (cand_fingerprint cfg key cnt) u (id_by_fp s)\<rparr>)"
  by (simp add: add_def Let_def fp_of_ensure_ids ensure_ids_rule_id falsy_def or_empty_def)

lemma bug_s1_eq:
  "add empty_store ex_cand True False ''id1'' ''t0'' = Inr (ensure_ids ''id1'' ''t0'' ex_cand, bug_s1)"
  "bug_s1 = \<lparr>by_id = [(''id1'', ensure_ids ''id1'' ''t0'' ex_cand)],
             id_by_fp = [(cand_fingerprint ex_cfg ''memory:WARN'' 25, ''id1'')]\<rparr>"
proof -
  show 1: "bug_s1 = \<lparr>by_id = [(''id1'', ensure_ids ''id1'' ''t0'' ex_cand)],
             id_by_fp = [(cand_fingerprint ex_cfg ''memory:WARN'' 25, ''id1'')]\<rparr>"
    by (simp add: bug_s1_def ex_cand_def add_def Let_def fp_of_ensure_ids ensure_ids_rule_id
        falsy_def or_empty_def empty_store_def dict_get_def)
  show "add empty_store ex_cand True False ''id1'' ''t0'' = Inr (ensure_ids ''id1'' ''t0'' ex_cand, bug_s1)"
    unfolding 1
    by (simp add: ex_cand_def add_def Let_def fp_of_ensure_ids ensure_ids_rule_id
        falsy_def or_empty_def empty_store_def dict_get_def)
qed

lemma bug_s2_eq:
  "approve_candidate bug_s1 ''id1'' ''t1'' =
     (Inr ((ensure_ids ''id1'' ''t0'' ex_cand)
             \<lparr>status := ''active'', updated_at := Some ''t1'',
              fingerprint := Some (make_fingerprint (title ex_cand) (content ex_cand))\<rparr>),
      \<lparr>by_id = [(''id1'', (ensure_ids ''id1'' ''t0'' ex_cand)
                     \<lparr>status := ''active'', updated_at := Some ''t1'',
                      fingerprint := Some (make_fingerprint (title ex_cand) (content ex_cand))\<rparr>)],
       id_by_fp = [(cand_fingerprint ex_cfg ''memory:WARN'' 25, ''id1''),
                   (make_fingerprint (title ex_cand) (content ex_cand), ''id1'')]\<rparr>)"
  by (simp add: approve_candidate_def update_def bug_s1_eq(2) dict_get_def Let_def apply_patch_def
      no_patch_def pick_def pick_opt_def)

lemma bug_s3_eq:
  "delete bug_s2 ''id1'' =
     (True, \<lparr>by_id = [], id_by_fp = [(cand_fingerprint ex_cfg ''memory:WARN'' 25, ''id1'')]\<rparr>)"
  by (simp add: bug_s2_def bug_s2_eq delete_def dict_get_def dict_pop_def Let_def fp_of_def
      falsy_def or_empty_def make_fingerprint_nonempty)

lemma length_search:
  "length (search fl s q tag cat st limit) =
     min (clamp_limit limit)
       (length (filter (rule_matches (lower (strip (or_empty q))) (lower (strip (or_empty tag)))
                          (lower (strip (or_empty cat))) (lower (strip (or_empty st))))
                  (dict_values (by_id s))))"
  by (simp add: Let_def search_def search_loop_eq min.commute)

lemma dict_set_new: "dict_get d k = None \<Longrightarrow> dict_set k v d = d @ [(k, v)]"
  by (induction d) (auto simp: dict_get_def split: if_splits)

lemma lower_strip_Nil [simp]: "lower (strip []) = []"
  by (simp add: strip_def lower_def)

lemma ex_lower:
  "lower (strip (or_empty (Some ''Retry''))) = ''retry''"
  "lower (strip (or_empty None)) = []"
  "lower (strip (or_empty (Some '' Retry''))) = ''retry''"
  "lower (strip '' Retry'') = ''retry''"
  "lower ''Retry on timeout'' = ''retry on timeout''"
  "lower ''Retry twice'' = ''retry twice''"
  by code_simp+

lemma ex_store4_eq:
  "add ex_store2 ex_rule_b True False ''u2'' ''t2'' = Inr (ensure_ids ''u2'' ''t2'' ex_rule_b, ex_store4)"
proof -
  have "falsy (rule_id ex_rule_b)"
    by (simp add: ex_rule_b_def new_rule_def falsy_def)
  then show ?thesis
    by (simp add: add_def ex_store2_def ex_store4_def dict_get_def Let_def fp_of_ensure_ids
        ensure_ids_rule_id or_empty_def)
qed

lemma add_dedup_live:
  assumes "add s c True False u n = Inr (a, s')"
  shows "live_fp s' (fp_of c)" and "live_fp s fp \<Longrightarrow> live_fp s' fp"
  using assms
  by (auto simp: add_def Let_def fp_of_ensure_ids live_fp_def dict_get_set
      split: option.splits if_splits)

lemma add_dedup_absorbed:
  "live_fp s (fp_of c) \<Longrightarrow> \<exists>ex. add s c True False u n = Inr (ex, s)"
  by (auto simp: add_def Let_def fp_of_ensure_ids live_fp_def split: option.splits)

lemma harvest_loop_step:
  assumes "\<not> n \<ge> int_or (max_candidates cfg) 10" "\<not> cnt < int_or (min_count cfg) 1"
      and "add s (make_candidate cfg key cnt (uuids k)) True False (uuids k) stamp = Inr (added, s')"
  shows "\<exists>acc'. harvest_loop cfg uuids stamp ((key, cnt) # rest) k n acc s =
           harvest_loop cfg uuids stamp rest (Suc k)
             (n + (if draft_count s' > draft_count s then 1 else 0)) acc' s'"
  using assms by (auto simp: Let_def)

lemma harvest_loop_live:
  "harvest_loop cfg uuids stamp ordered k n acc s = (None, n1, acc1, s1) \<Longrightarrow>
   (\<forall>fp. live_fp s fp \<longrightarrow> live_fp s1 fp)
   \<and> (\<forall>(key, cnt) \<in> set (harvest_visited cfg uuids stamp ordered k n s).
         int_or (min_count cfg) 1 \<le> cnt \<longrightarrow> live_fp s1 (cand_fingerprint cfg key cnt))"
proof (induction ordered arbitrary: k n acc s)
  case Nil
  then show ?case by simp
next
  case (Cons e rest)
  obtain key cnt where e: "e = (key, cnt)" by (cases e)
  show ?case
  proof (cases "n \<ge> int_or (max_candidates cfg) 10")
    case True
    with Cons.prems e show ?thesis by simp
  next
    case nb: False
    show ?thesis
    proof (cases "cnt < int_or (min_count cfg) 1")
      case True
      with nb Cons.prems e Cons.IH [of k n acc s] show ?thesis by simp
    next
      case nm: False
      let ?c = "make_candidate cfg key cnt (uuids k)"
      from nb nm Cons.prems e obtain added s' where
        a: "add s ?c True False (uuids k) stamp = Inr (added, s')"
        by (auto simp: Let_def split: sum.splits)
      let ?n' = "n + (if draft_count s' > draft_count s then 1 else 0)"
      from harvest_loop_step [where uuids = uuids and k = k and rest = rest and acc = acc, OF nb nm a]
        Cons.prems e obtain acc' where
        l: "harvest_loop cfg uuids stamp rest (Suc k) ?n' acc' s' = (None, n1, acc1, s1)"
        by auto
      note ih = Cons.IH [OF l]
      have v: "harvest_visited cfg uuids stamp (e # rest) k n s =
                 (key, cnt) # harvest_visited cfg uuids stamp rest (Suc k) ?n' s'"
        using nb nm a e by simp
      from add_dedup_live [OF a] ih show ?thesis
        unfolding v by auto
    qed
  qed
qed

lemma harvest_visited_take:
  "harvest_loop cfg uuids stamp ordered k n acc s = (None, n1, acc1, s1) \<Longrightarrow>
   take (length (harvest_visited cfg uuids stamp ordered k n s)) ordered
     = harvest_visited cfg uuids stamp ordered k n s"
proof (induction ordered arbitrary: k n acc s)
  case Nil
  then show ?case by simp
next
  case (Cons e rest)
  obtain key cnt where e: "e = (key, cnt)" by (cases e)
  show ?case
  proof (cases "n \<ge> int_or (max_candidates cfg) 10")
    case True
    with e show ?thesis by simp
  next
    case nb: False
    show ?thesis
    proof (cases "cnt < int_or (min_count cfg) 1")
      case True
      with nb Cons.prems e Cons.IH [of k n acc s] show ?thesis by simp
    next
      case nm: False
      let ?c = "make_candidate cfg key cnt (uuids k)"
      from nb nm Cons.prems e obtain added s' where
        a: "add s ?c True False (uuids k) stamp = Inr (added, s')"
        by (auto simp: Let_def split: sum.splits)
      let ?n' = "n + (if draft_count s' > draft_count s then 1 else 0)"
      from harvest_loop_step [where uuids = uuids and k = k and rest = rest and acc = acc, OF nb nm a]
        Cons.prems e obtain acc' where
        l: "harvest_loop cfg uuids stamp rest (Suc k) ?n' acc' s' = (None, n1, acc1, s1)"
        by auto
      have v: "harvest_visited cfg uuids stamp (e # rest) k n s =
                 (key, cnt) # harvest_visited cfg uuids stamp rest (Suc k) ?n' s'"
        using nb nm a e by simp
      from Cons.IH [OF l] show ?thesis
        unfolding v by (simp add: e)
    qed
  qed
qed

lemma harvest_visited_nonempty:
  "harvest_visited cfg uuids stamp ordered k n s \<noteq> [] \<Longrightarrow> \<not> n \<ge> int_or (max_candidates cfg) 10"
  by (cases ordered) (auto split: if_splits)

lemma harvest_loop_absorb:
  assumes "\<forall>(key, cnt) \<in> set V. int_or (min_count cfg) 1 \<le> cnt \<longrightarrow> live_fp s1 (cand_fingerprint cfg key cnt)"
      and "V \<noteq> [] \<longrightarrow> \<not> n \<ge> int_or (max_candidates cfg) 10"
  shows "\<exists>k' acc'. harvest_loop cfg uuids stamp (V @ rest) k n acc s1 =
                    harvest_loop cfg uuids stamp rest k' n acc' s1"
  using assms
proof (induction V arbitrary: k acc)
  case Nil
  show ?case by auto
next
  case (Cons e V)
  obtain key cnt where e: "e = (key, cnt)" by (cases e)
  from Cons.prems have nb: "\<not> n \<ge> int_or (max_candidates cfg) 10" by simp
  from Cons.prems nb have ih: "\<exists>k' acc'. harvest_loop cfg uuids stamp (V @ rest) k0 n acc0 s1 =
                    harvest_loop cfg uuids stamp rest k' n acc' s1" for k0 acc0
    by (intro Cons.IH) auto
  show ?case
  proof (cases "cnt < int_or (min_count cfg) 1")
    case True
    with nb e ih [of k acc] show ?thesis by simp
  next
    case nm: False
    with Cons.prems(1) e have "live_fp s1 (fp_of (make_candidate cfg key cnt (uuids k)))"
      by simp
    from add_dedup_absorbed [OF this] obtain ex where
      a: "add s1 (make_candidate cfg key cnt (uuids k)) True False (uuids k) stamp = Inr (ex, s1)"
      by blast
    from harvest_loop_step [where uuids = uuids and k = k and rest = "V @ rest" and acc = acc, OF nb nm a]
    obtain acc0 where "harvest_loop cfg uuids stamp ((key, cnt) # V @ rest) k n acc s1 =
        harvest_loop cfg uuids stamp (V @ rest) (Suc k) n acc0 s1"
      by auto
    with ih [of "Suc k" acc0] e show ?thesis by simp
  qed
qed

lemma harvest_Inr:
  assumes "enabled cfg"
      and "max 1 (min_samples cfg) \<le> int (length (harvest_recent cfg (obs_logs st) now))"
      and "harvest cfg st uuids now stamp = (Inr r, st')"
  shows "harvest_loop cfg uuids stamp (harvest_table cfg st now) 0 0 [] (exp_store st)
           = (None, created r, candidates r, exp_store st')"
proof -
  let ?recent = "harvest_recent cfg (obs_logs st) now"
  have ns: "\<not> int (length ?recent) < max 1 (min_samples cfg)"
    using assms(2) by linarith
  obtain e n added s' where
    l: "harvest_loop cfg uuids stamp (harvest_ordered cfg ?recent) 0 0 [] (exp_store st) = (e, n, added, s')"
    by (metis prod_cases4)
  from assms(3) have "e = None \<and> created r = n \<and> candidates r = added \<and> exp_store st' = s'"
    unfolding harvest_def Let_def if_not_P [OF ns] l
    using assms(1) by (cases e) auto
  with l show ?thesis by (simp add: harvest_table_def)
qed

lemma harvest_skip:
  assumes "enabled cfg"
      and "\<not> max 1 (min_samples cfg) \<le> int (length (harvest_recent cfg (obs_logs st) now))"
  shows "fst (harvest cfg st uuids now stamp) = Inr \<lparr>created = 0, candidates = []\<rparr>"
    and "exp_store (snd (harvest cfg st uuids now stamp)) = exp_store st"
proof -
  have lt: "int (length (harvest_recent cfg (obs_logs st) now)) < max 1 (min_samples cfg)"
    using assms(2) by linarith
  show "fst (harvest cfg st uuids now stamp) = Inr \<lparr>created = 0, candidates = []\<rparr>"
    "exp_store (snd (harvest cfg st uuids now stamp)) = exp_store st"
    unfolding harvest_def Let_def if_P [OF lt] using assms(1) by simp_all
qed

subsection \<open>Two harvest runs on the example systems\<close>

lemma dict_set_set: "dict_set k v (dict_set k v' d) = dict_set k v d"
  by (induction d) auto

lemma freq_loop_replicate:
  assumes "upper (level it) \<in> set allow"
  shows "freq_loop allow (replicate (Suc n) it) freq =
           dict_set ((if log_module it = [] then ''unknown'' else log_module it) @ '':'' @ upper (level it))
             ((case dict_get freq ((if log_module it = [] then ''unknown'' else log_module it) @ '':'' @ upper (level it))
                 of None \<Rightarrow> 0 | Some c \<Rightarrow> c) + int (Suc n)) freq"
proof (induction n arbitrary: freq)
  case 0
  show ?case using assms by (simp add: Let_def)
next
  case (Suc n)
  have "freq_loop allow (replicate (Suc (Suc n)) it) freq =
        freq_loop allow (replicate (Suc n) it)
          (dict_set ((if log_module it = [] then ''unknown'' else log_module it) @ '':'' @ upper (level it))
             ((case dict_get freq ((if log_module it = [] then ''unknown'' else log_module it) @ '':'' @ upper (level it))
                 of None \<Rightarrow> 0 | Some c \<Rightarrow> c) + 1) freq)"
    using assms by (simp add: Let_def)
  then show ?case
    by (simp add: Suc.IH dict_get_set dict_set_set ac_simps del: replicate.simps)
qed

lemma ex_chars:
  "upper ''WARN'' = ''WARN''" "upper ''INFO'' = ''INFO''" "upper ''ERROR'' = ''ERROR''"
  "lower ''draft'' = ''draft''"
  by code_simp+

lemma ex_since:
  "since_dt 900000000 (Some (max 1 (int_or (since_seconds ex_cfg) 900))) = Some 0"
  "since_dt 901000000 (Some (max 1 (int_or (since_seconds ex_cfg) 900))) = Some 1000000"
  by (simp_all add: since_dt_def safe_seconds_def ex_cfg_def int_or_def MAX_RANGE_SECONDS_def)

lemma clamp_1000: "clamp_limit 1000 = 200"
  by (simp add: clamp_limit_def)

lemma recent_window:
  "log_matches None None (Some t) = (\<lambda>item. t \<le> ts item)"
  by (rule ext) (simp add: log_matches_def text_match_def falsy_def or_empty_def)

lemma filter_replicate_if: "filter P (replicate n x) = (if P x then replicate n x else [])"
  by (induction n) auto

lemma recent_warns:
  assumes "n \<le> 200" "t \<le> 500000000"
  shows "take (clamp_limit 1000) (filter (\<lambda>item. t \<le> ts item) (replicate n ex_warn)) = replicate n ex_warn"
  using assms by (simp add: filter_replicate_if clamp_1000 ex_warn_def del: replicate.simps)

lemma table_warns:
  "harvest_ordered ex_cfg (replicate (Suc n) ex_warn) = [(''memory:WARN'', int (Suc n))]"
proof -
  have u: "upper (level ex_warn) \<in> set (map upper (include_levels ex_cfg))"
    by (simp add: ex_warn_def ex_cfg_def ex_chars)
  show ?thesis
    unfolding harvest_ordered_def freq_loop_replicate [OF u]
    by (simp add: ex_warn_def ex_chars dict_get_def)
qed

lemma harvest_loop_single_new:
  assumes "\<not> 0 \<ge> int_or (max_candidates cfg) 10" "\<not> cnt < int_or (min_count cfg) 1"
      and "dict_get (id_by_fp s) (cand_fingerprint cfg key cnt) = None"
      and "dict_get (by_id s) (uu 0) = None"
  shows "harvest_loop cfg uu stamp [(key, cnt)] 0 0 [] s =
     (None, 1, [ensure_ids (uu 0) stamp (make_candidate cfg key cnt (uu 0))],
      s\<lparr>by_id := by_id s @ [(uu 0, ensure_ids (uu 0) stamp (make_candidate cfg key cnt (uu 0)))],
        id_by_fp := dict_set (cand_fingerprint cfg key cnt) (uu 0) (id_by_fp s)\<rparr>)"
  using assms
  by (simp add: Let_def add_new_candidate dict_set_new draft_count_def dict_values_def ex_chars)

lemma harvest_run:
  assumes "enabled cfg"
      and "max 1 (min_samples cfg) \<le> int (length (harvest_recent cfg (obs_logs st) now))"
      and "harvest_loop cfg uuids stamp (harvest_table cfg st now) 0 0 [] (exp_store st)
             = (None, n, added, s')"
  shows "fst (harvest cfg st uuids now stamp) = Inr \<lparr>created = n, candidates = added\<rparr>"
    and "exp_store (snd (harvest cfg st uuids now stamp)) = s'"
    and "obs_logs (snd (harvest cfg st uuids now stamp)) =
           log_add (obs_logs st) now ''INFO'' ''auto_candidate_harvest'' ''experience''
             [''enabled'', str_of_int n]
             [(''created'', JInt n), (''since_seconds'', JInt (since_seconds cfg)),
              (''min_count'', JInt (min_count cfg)),
              (''breakdown'',
               JList (map (\<lambda>kv. JObj [(''source'', JStr (fst kv)), (''count'', JInt (snd kv))])
                        (take 5 (harvest_table cfg st now))))]"
proof -
  have ns: "\<not> int (length (harvest_recent cfg (obs_logs st) now)) < max 1 (min_samples cfg)"
    using assms(2) by linarith
  show "fst (harvest cfg st uuids now stamp) = Inr \<lparr>created = n, candidates = added\<rparr>"
    "exp_store (snd (harvest cfg st uuids now stamp)) = s'"
    "obs_logs (snd (harvest cfg st uuids now stamp)) =
           log_add (obs_logs st) now ''INFO'' ''auto_candidate_harvest'' ''experience''
             [''enabled'', str_of_int n]
             [(''created'', JInt n), (''since_seconds'', JInt (since_seconds cfg)),
              (''min_count'', JInt (min_count cfg)),
              (''breakdown'',
               JList (map (\<lambda>kv. JObj [(''source'', JStr (fst kv)), (''count'', JInt (snd kv))])
                        (take 5 (harvest_table cfg st now))))]"
    unfolding harvest_def Let_def if_not_P [OF ns]
    using assms(1,3) by (simp_all add: harvest_table_def)
qed

lemma ex_cfg_facts:
  "enabled ex_cfg" "\<not> 0 \<ge> int_or (max_candidates ex_cfg) 10"
  "\<not> 25 < int_or (min_count ex_cfg) 1" "\<not> 24 < int_or (min_count ex_cfg) 1"
  "max 1 (min_samples ex_cfg) = 20" "since_seconds ex_cfg = 900" "min_count ex_cfg = 3"
  by (simp_all add: ex_cfg_def int_or_def)

lemma calm_recent:
  "harvest_recent ex_cfg (obs_logs ex_calm) 900000000 = replicate 25 ex_warn"
  unfolding harvest_recent_def log_search_eq ex_since
  using recent_warns [of 25 0]
  by (simp add: falsy_def recent_window ex_calm_def ex_sys_of_def del: replicate.simps)

lemma calm_table: "harvest_table ex_cfg ex_calm 900000000 = [(''memory:WARN'', 25)]"
  unfolding harvest_table_def calm_recent
  using table_warns [of 24] by simp


lemma ex_str: "str_of_int 1 = ''1''" "str_of_int 0 = ''0''"
  by code_simp+

lemma first_run:
  assumes r: "harvest_recent ex_cfg (obs_logs (ex_sys_of b)) 900000000 = rs"
      and n: "20 \<le> int (length rs)"
      and t: "harvest_ordered ex_cfg rs = [(''memory:WARN'', 25)]"
      and l: "length b < 2000"
  shows "fst (harvest ex_cfg (ex_sys_of b) ex_uuid1 900000000 ''t1'')
           = Inr \<lparr>created = 1, candidates = [ex_draft1]\<rparr>"
    and "exp_store (snd (harvest ex_cfg (ex_sys_of b) ex_uuid1 900000000 ''t1''))
           = \<lparr>by_id = [(''id1'', ex_draft1)],
              id_by_fp = [(cand_fingerprint ex_cfg ''memory:WARN'' 25, ''id1'')]\<rparr>"
    and "obs_logs (snd (harvest ex_cfg (ex_sys_of b) ex_uuid1 900000000 ''t1''))
           = \<lparr>buf = b @ [ex_info1], maxlen = 2000\<rparr>"
proof -
  have T: "harvest_table ex_cfg (ex_sys_of b) 900000000 = [(''memory:WARN'', 25)]"
    by (simp add: harvest_table_def r t)
  have e: "max 1 (min_samples ex_cfg) \<le> int (length (harvest_recent ex_cfg (obs_logs (ex_sys_of b)) 900000000))"
    using n by (simp add: r ex_cfg_facts)
  have L: "harvest_loop ex_cfg ex_uuid1 ''t1'' (harvest_table ex_cfg (ex_sys_of b) 900000000) 0 0 []
             (exp_store (ex_sys_of b))
           = (None, 1, [ex_draft1],
              \<lparr>by_id = [(''id1'', ex_draft1)],
               id_by_fp = [(cand_fingerprint ex_cfg ''memory:WARN'' 25, ''id1'')]\<rparr>)"
  proof -
    have d: "dict_get (id_by_fp empty_store) (cand_fingerprint ex_cfg ''memory:WARN'' 25) = None"
      "dict_get (by_id empty_store) (ex_uuid1 0) = None"
      by (simp_all add: empty_store_def dict_get_def)
    from harvest_loop_single_new [where uu = ex_uuid1 and stamp = "''t1''",
        OF ex_cfg_facts(2) ex_cfg_facts(3) d]
    show ?thesis
      unfolding T by (simp add: empty_store_def ex_uuid1_def ex_draft1_def ex_sys_of_def)
  qed
  note h = harvest_run [OF ex_cfg_facts(1) e L]
  show "fst (harvest ex_cfg (ex_sys_of b) ex_uuid1 900000000 ''t1'')
           = Inr \<lparr>created = 1, candidates = [ex_draft1]\<rparr>"
    "exp_store (snd (harvest ex_cfg (ex_sys_of b) ex_uuid1 900000000 ''t1''))
           = \<lparr>by_id = [(''id1'', ex_draft1)],
              id_by_fp = [(cand_fingerprint ex_cfg ''memory:WARN'' 25, ''id1'')]\<rparr>"
    by (rule h(1), rule h(2))
  show "obs_logs (snd (harvest ex_cfg (ex_sys_of b) ex_uuid1 900000000 ''t1''))
           = \<lparr>buf = b @ [ex_info1], maxlen = 2000\<rparr>"
    unfolding h(3) T using l
    by (simp add: log_add_def Let_def ex_sys_of_def ex_info1_def ex_chars ex_str ex_cfg_facts)
qed

lemma info_skipped:
  "freq_loop (map upper (include_levels ex_cfg)) (ex_info1 # rest) freq
     = freq_loop (map upper (include_levels ex_cfg)) rest freq"
  by (simp add: ex_info1_def ex_cfg_def ex_chars Let_def)

lemma calm_run1:
  "harvest ex_cfg ex_calm ex_uuid1 900000000 ''t1''
     = (Inr \<lparr>created = 1, candidates = [ex_draft1]\<rparr>, ex_calm1)"
  "exp_store ex_calm1 = \<lparr>by_id = [(''id1'', ex_draft1)],
                         id_by_fp = [(cand_fingerprint ex_cfg ''memory:WARN'' 25, ''id1'')]\<rparr>"
  "obs_logs ex_calm1 = \<lparr>buf = replicate 25 ex_warn @ [ex_info1], maxlen = 2000\<rparr>"
proof -
  have r: "harvest_recent ex_cfg (obs_logs (ex_sys_of (replicate 25 ex_warn))) 900000000
           = replicate 25 ex_warn"
    using calm_recent by (simp add: ex_calm_def)
  have t: "harvest_ordered ex_cfg (replicate 25 ex_warn) = [(''memory:WARN'', 25)]"
    using table_warns [of 24] by simp
  note f = first_run [OF r _ t]
  have "fst (harvest ex_cfg ex_calm ex_uuid1 900000000 ''t1'')
          = Inr \<lparr>created = 1, candidates = [ex_draft1]\<rparr>"
    unfolding ex_calm_def by (rule f(1)) simp_all
  then show "harvest ex_cfg ex_calm ex_uuid1 900000000 ''t1''
     = (Inr \<lparr>created = 1, candidates = [ex_draft1]\<rparr>, ex_calm1)"
    by (simp add: ex_calm1_def prod_eq_iff)
  show "exp_store ex_calm1 = \<lparr>by_id = [(''id1'', ex_draft1)],
                         id_by_fp = [(cand_fingerprint ex_cfg ''memory:WARN'' 25, ''id1'')]\<rparr>"
    unfolding ex_calm1_def ex_calm_def by (rule f(2)) simp_all
  show "obs_logs ex_calm1 = \<lparr>buf = replicate 25 ex_warn @ [ex_info1], maxlen = 2000\<rparr>"
    unfolding ex_calm1_def ex_calm_def by (rule f(3)) simp_all
qed

lemma calm_recent2:
  "harvest_recent ex_cfg (obs_logs ex_calm1) 901000000 = ex_info1 # replicate 25 ex_warn"
  unfolding harvest_recent_def log_search_eq ex_since calm_run1(3)
  using recent_warns [of 25 1000000]
  by (simp add: falsy_def recent_window ex_info1_def clamp_1000 filter_replicate_if ex_warn_def
      del: replicate.simps)

lemma calm_table2: "harvest_table ex_cfg ex_calm1 901000000 = [(''memory:WARN'', 25)]"
  unfolding harvest_table_def calm_recent2 harvest_ordered_def info_skipped
  using table_warns [of 24] by (simp add: harvest_ordered_def)

lemma calm_visited:
  "harvest_visited ex_cfg ex_uuid1 ''t1'' [(''memory:WARN'', 25)] 0 0 empty_store
     = [(''memory:WARN'', 25)]"
  using add_new_candidate [where cfg = ex_cfg and key = "''memory:WARN''" and cnt = 25
      and s = empty_store and u = "''id1''" and n = "''t1''"]
  by (simp add: ex_cfg_facts ex_uuid1_def empty_store_def dict_get_def)

subsection \<open>Two candidate fingerprints\<close>

lemma schedule_add: "schedule (m + n) w = schedule n (schedule m w)"
  by (induction m arbitrary: w) simp_all

text \<open>The digest of \<open>memory|WARN|24|900\<close>, evaluated step by step.\<close>

lemma sha_block_24:
  "sha256_words (map of_char ''memory|WARN|24|900'') = compress sha256_init
    [1835363695, 1920564311, 1095913084, 842300473, 808484864, 0, 0, 0, 0, 0, 0, 0, 0, 0, 0,
     144]"
proof -
  have p: "sha_pad (map of_char ''memory|WARN|24|900'') =
      [109, 101, 109, 111, 114, 121, 124, 87, 65, 82, 78, 124, 50, 52, 124, 57, 48, 48, 128, 0,
       0, 0, 0, 0, 0, 0, 0, 0, 0, 0, 0, 0, 0, 0, 0, 0, 0, 0, 0, 0, 0, 0, 0, 0, 0, 0, 0, 0, 0,
       0, 0, 0, 0, 0, 0, 0, 0, 0, 0, 0, 0, 0, 0, 144]"
    by code_simp
  have b: "map be32 (chunks 16 4
      [109, 101, 109, 111, 114, 121, 124, 87, 65, 82, 78, 124, 50, 52, 124, 57, 48, 48, 128, 0,
       0, 0, 0, 0, 0, 0, 0, 0, 0, 0, 0, 0, 0, 0, 0, 0, 0, 0, 0, 0, 0, 0, 0, 0, 0, 0, 0, 0, 0,
       0, 0, 0, 0, 0, 0, 0, 0, 0, 0, 0, 0, 0, 0, 144]) =
      [1835363695, 1920564311, 1095913084, 842300473, 808484864, 0, 0, 0, 0, 0, 0, 0, 0, 0, 0,
       144]"
    by code_simp
  show ?thesis
    unfolding sha256_words_def p Let_def by (simp add: b)
qed

lemma sha_schedule_24:
  "schedule 48
    [144, 0, 0, 0, 0, 0, 0, 0, 0, 0, 0, 808484864, 842300473, 1095913084, 1920564311,
     1835363695] =
    [2050885544, 3887595970, 557285024, 965939067, 2030052461, 749835134, 2439669518,
     533079856, 1301027882, 2767690768, 2453041141, 2782229986, 1418583944, 1841558172,
     1160001819, 2500196646, 3894965631, 3024396817, 1211506384, 2103304690, 3233437152,
     3015419947, 3943201095, 269979131, 2802389405, 1017272754, 2488289687, 2798730936,
     288804416, 937562951, 1358709294, 2657066335, 3218086884, 3890666808, 3499769435,
     632082314, 3273327400, 3792601948, 50252529, 106198534, 3380977621, 4007165741,
     2477744292, 116712598, 743189599, 2262601308, 3591076190, 1831038811, 144, 0, 0, 0, 0, 0,
     0, 0, 0, 0, 0, 808484864, 842300473, 1095913084, 1920564311, 1835363695]"
proof -
  have s0: "schedule 8
      [144, 0, 0, 0, 0, 0, 0, 0, 0, 0, 0, 808484864, 842300473, 1095913084, 1920564311,
       1835363695] =
      [3380977621, 4007165741, 2477744292, 116712598, 743189599, 2262601308, 3591076190,
       1831038811, 144, 0, 0, 0, 0, 0, 0, 0, 0, 0, 0, 808484864, 842300473, 1095913084,
       1920564311, 1835363695]"
    by code_simp
  have s1: "schedule 8
      [3380977621, 4007165741, 2477744292, 116712598, 743189599, 2262601308, 3591076190,
       1831038811, 144, 0, 0, 0, 0, 0, 0, 0, 0, 0, 0, 808484864, 842300473, 1095913084,
       1920564311, 1835363695] =
      [3218086884, 3890666808, 3499769435, 632082314, 3273327400, 3792601948, 50252529,
       106198534, 3380977621, 4007165741, 2477744292, 116712598, 743189599, 2262601308,
       3591076190, 1831038811, 144, 0, 0, 0, 0, 0, 0, 0, 0, 0, 0, 808484864, 842300473,
       1095913084, 1920564311, 1835363695]"
    by code_simp
  have s2: "schedule 8
      [3218086884, 3890666808, 3499769435, 632082314, 3273327400, 3792601948, 50252529,
       106198534, 3380977621, 4007165741, 2477744292, 116712598, 743189599, 2262601308,
       3591076190, 1831038811, 144, 0, 0, 0, 0, 0, 0, 0, 0, 0, 0, 808484864, 842300473,
       1095913084, 1920564311, 1835363695] =
      [2802389405, 1017272754, 2488289687, 2798730936, 288804416, 937562951, 1358709294,
       2657066335, 3218086884, 3890666808, 3499769435, 632082314, 3273327400, 3792601948,
       50252529, 106198534, 3380977621, 4007165741, 2477744292, 116712598, 743189599,
       2262601308, 3591076190, 1831038811, 144, 0, 0, 0, 0, 0, 0, 0, 0, 0, 0, 808484864,
       842300473, 1095913084, 1920564311, 1835363695]"
    by code_simp
  have s3: "schedule 8
      [2802389405, 1017272754, 2488289687, 2798730936, 288804416, 937562951, 1358709294,
       2657066335, 3218086884, 3890666808, 3499769435, 632082314, 3273327400, 3792601948,
       50252529, 106198534, 3380977621, 4007165741, 2477744292, 116712598, 743189599,
       2262601308, 3591076190, 1831038811, 144, 0, 0, 0, 0, 0, 0, 0, 0, 0, 0, 808484864,
       842300473, 1095913084, 1920564311, 1835363695] =
      [3894965631, 3024396817, 1211506384, 2103304690, 3233437152, 3015419947, 3943201095,
       269979131, 2802389405, 1017272754, 2488289687, 2798730936, 288804416, 937562951,
       1358709294, 2657066335, 3218086884, 3890666808, 3499769435, 632082314, 3273327400,
       3792601948, 50252529, 106198534, 3380977621, 4007165741, 2477744292, 116712598,
       743189599, 2262601308, 3591076190, 1831038811, 144, 0, 0, 0, 0, 0, 0, 0, 0, 0, 0,
       808484864, 842300473, 1095913084, 1920564311, 1835363695]"
    by code_simp
  have s4: "schedule 8
      [3894965631, 3024396817, 1211506384, 2103304690, 3233437152, 3015419947, 3943201095,
       269979131, 2802389405, 1017272754, 2488289687, 2798730936, 288804416, 937562951,
       1358709294, 2657066335, 3218086884, 3890666808, 3499769435, 632082314, 3273327400,
       3792601948, 50252529, 106198534, 3380977621, 4007165741, 2477744292, 116712598,
       743189599, 2262601308, 3591076190, 1831038811, 144, 0, 0, 0, 0, 0, 0, 0, 0, 0, 0,
       808484864, 842300473, 1095913084, 1920564311, 1835363695] =
      [1301027882, 2767690768, 2453041141, 2782229986, 1418583944, 1841558172, 1160001819,
       2500196646, 3894965631, 3024396817, 1211506384, 2103304690, 3233437152, 3015419947,
       3943201095, 269979131, 2802389405, 1017272754, 2488289687, 2798730936, 288804416,
       937562951, 1358709294, 2657066335, 3218086884, 3890666808, 3499769435, 632082314,
       3273327400, 3792601948, 50252529, 106198534, 3380977621, 4007165741, 2477744292,
       116712598, 743189599, 2262601308, 3591076190, 1831038811, 144, 0, 0, 0, 0, 0, 0, 0, 0,
       0, 0, 808484864, 842300473, 1095913084, 1920564311, 1835363695]"
    by code_simp
  have s5: "schedule 8
      [1301027882, 2767690768, 2453041141, 2782229986, 1418583944, 1841558172, 1160001819,
       2500196646, 3894965631, 3024396817, 1211506384, 2103304690, 3233437152, 3015419947,
       3943201095, 269979131, 2802389405, 1017272754, 2488289687, 2798730936, 288804416,
       937562951, 1358709294, 2657066335, 3218086884, 3890666808, 3499769435, 632082314,
       3273327400, 3792601948, 50252529, 106198534, 3380977621, 4007165741, 2477744292,
       116712598, 743189599, 2262601308, 3591076190, 1831038811, 144, 0, 0, 0, 0, 0, 0, 0, 0,
       0, 0, 808484864, 842300473, 1095913084, 1920564311, 1835363695] =
      [2050885544, 3887595970, 557285024, 965939067, 2030052461, 749835134, 2439669518,
       533079856, 1301027882, 2767690768, 2453041141, 2782229986, 1418583944, 1841558172,
       1160001819, 2500196646, 3894965631, 3024396817, 1211506384, 2103304690, 3233437152,
       3015419947, 3943201095, 269979131, 2802389405, 1017272754, 2488289687, 2798730936,
       288804416, 937562951, 1358709294, 2657066335, 3218086884, 3890666808, 3499769435,
       632082314, 3273327400, 3792601948, 50252529, 106198534, 3380977621, 4007165741,
       2477744292, 116712598, 743189599, 2262601308, 3591076190, 1831038811, 144, 0, 0, 0, 0,
       0, 0, 0, 0, 0, 0, 808484864, 842300473, 1095913084, 1920564311, 1835363695]"
    by code_simp
  have e: "(48::nat) = 8 + 8 + 8 + 8 + 8 + 8" by simp
  show ?thesis
    unfolding e schedule_add s0 s1 s2 s3 s4 s5 by (rule refl)
qed

lemma sha_rounds_24_0:
  "foldl sha_round (1779033703, 3144134277, 1013904242, 2773480762, 1359893119, 2600822924, 528734635, 1541459225)
     (zip
      [1116352408, 1899447441, 3049323471, 3921009573, 961987163, 1508970993, 2453635748,
       2870763221, 3624381080, 310598401, 607225278, 1426881987, 1925078388, 2162078206,
       2614888103, 3248222580]
      [1835363695, 1920564311, 1095913084, 842300473, 808484864, 0, 0, 0, 0, 0, 0, 0, 0, 0, 0,
       144]) =
     (1306951308, 2496397871, 1252670859, 131073377, 1858407563, 1055387212, 4106643732, 4090652965)"
proof -
  have r0: "sha_round (1779033703, 3144134277, 1013904242, 2773480762, 1359893119, 2600822924, 528734635, 1541459225)
      (1116352408, 1835363695) =
    (1768814012, 1779033703, 3144134277, 1013904242, 103632913, 1359893119, 2600822924, 528734635)"
    by (simp add: sha_round_def Let_def bsig0_def bsig1_def Ch_def Maj_def rotr_def)
  have r1: "sha_round (1768814012, 1779033703, 3144134277, 1013904242, 103632913, 1359893119, 2600822924, 528734635)
      (1899447441, 1920564311) =
    (1487813091, 1768814012, 1779033703, 3144134277, 692092683, 103632913, 1359893119, 2600822924)"
    by (simp add: sha_round_def Let_def bsig0_def bsig1_def Ch_def Maj_def rotr_def)
  have r2: "sha_round (1487813091, 1768814012, 1779033703, 3144134277, 692092683, 103632913, 1359893119, 2600822924)
      (3049323471, 1095913084) =
    (1512795141, 1487813091, 1768814012, 1779033703, 193879608, 692092683, 103632913, 1359893119)"
    by (simp add: sha_round_def Let_def bsig0_def bsig1_def Ch_def Maj_def rotr_def)
  have r3: "sha_round (1512795141, 1487813091, 1768814012, 1779033703, 193879608, 692092683, 103632913, 1359893119)
      (3921009573, 842300473) =
    (1297742323, 1512795141, 1487813091, 1768814012, 3290710915, 193879608, 692092683, 103632913)"
    by (simp add: sha_round_def Let_def bsig0_def bsig1_def Ch_def Maj_def rotr_def)
  have r4: "sha_round (1297742323, 1512795141, 1487813091, 1768814012, 3290710915, 193879608, 692092683, 103632913)
      (961987163, 808484864) =
    (3650762817, 1297742323, 1512795141, 1487813091, 1873861268, 3290710915, 193879608, 692092683)"
    by (simp add: sha_round_def Let_def bsig0_def bsig1_def Ch_def Maj_def rotr_def)
  have r5: "sha_round (3650762817, 1297742323, 1512795141, 1487813091, 1873861268, 3290710915, 193879608, 692092683)
      (1508970993, 0) =
    (3630372050, 3650762817, 1297742323, 1512795141, 4218196173, 1873861268, 3290710915, 193879608)"
    by (simp add: sha_round_def Let_def bsig0_def bsig1_def Ch_def Maj_def rotr_def)
  have r6: "sha_round (3630372050, 3650762817, 1297742323, 1512795141, 4218196173, 1873861268, 3290710915, 193879608)
      (2453635748, 0) =
    (457307054, 3630372050, 3650762817, 1297742323, 4281653651, 4218196173, 1873861268, 3290710915)"
    by (simp add: sha_round_def Let_def bsig0_def bsig1_def Ch_def Maj_def rotr_def)
  have r7: "sha_round (457307054, 3630372050, 3650762817, 1297742323, 4281653651, 4218196173, 1873861268, 3290710915)
      (2870763221, 0) =
    (1216774186, 457307054, 3630372050, 3650762817, 2687445714, 4281653651, 4218196173, 1873861268)"
    by (simp add: sha_round_def Let_def bsig0_def bsig1_def Ch_def Maj_def rotr_def)
  have r8: "sha_round (1216774186, 457307054, 3630372050, 3650762817, 2687445714, 4281653651, 4218196173, 1873861268)
      (3624381080, 0) =
    (739625903, 1216774186, 457307054, 3630372050, 603530794, 2687445714, 4281653651, 4218196173)"
    by (simp add: sha_round_def Let_def bsig0_def bsig1_def Ch_def Maj_def rotr_def)
  have r9: "sha_round (739625903, 1216774186, 457307054, 3630372050, 603530794, 2687445714, 4281653651, 4218196173)
      (310598401, 0) =
    (1691281585, 739625903, 1216774186, 457307054, 1943636704, 603530794, 2687445714, 4281653651)"
    by (simp add: sha_round_def Let_def bsig0_def bsig1_def Ch_def Maj_def rotr_def)
  have r10: "sha_round (1691281585, 739625903, 1216774186, 457307054, 1943636704, 603530794, 2687445714, 4281653651)
      (607225278, 0) =
    (2349535513, 1691281585, 739625903, 1216774186, 330031700, 1943636704, 603530794, 2687445714)"
    by (simp add: sha_round_def Let_def bsig0_def bsig1_def Ch_def Maj_def rotr_def)
  have r11: "sha_round (2349535513, 1691281585, 739625903, 1216774186, 330031700, 1943636704, 603530794, 2687445714)
      (1426881987, 0) =
    (3958221794, 2349535513, 1691281585, 739625903, 1088004133, 330031700, 1943636704, 603530794)"
    by (simp add: sha_round_def Let_def bsig0_def bsig1_def Ch_def Maj_def rotr_def)
  have r12: "sha_round (3958221794, 2349535513, 1691281585, 739625903, 1088004133, 330031700, 1943636704, 603530794)
      (1925078388, 0) =
    (131073377, 3958221794, 2349535513, 1691281585, 4090652965, 1088004133, 330031700, 1943636704)"
    by (simp add: sha_round_def Let_def bsig0_def bsig1_def Ch_def Maj_def rotr_def)
  have r13: "sha_round (131073377, 3958221794, 2349535513, 1691281585, 4090652965, 1088004133, 330031700, 1943636704)
      (2162078206, 0) =
    (1252670859, 131073377, 3958221794, 2349535513, 4106643732, 4090652965, 1088004133, 330031700)"
    by (simp add: sha_round_def Let_def bsig0_def bsig1_def Ch_def Maj_def rotr_def)
  have r14: "sha_round (1252670859, 131073377, 3958221794, 2349535513, 4106643732, 4090652965, 1088004133, 330031700)
      (2614888103, 0) =
    (2496397871, 1252670859, 131073377, 3958221794, 1055387212, 4106643732, 4090652965, 1088004133)"
    by (simp add: sha_round_def Let_def bsig0_def bsig1_def Ch_def Maj_def rotr_def)
  have r15: "sha_round (2496397871, 1252670859, 131073377, 3958221794, 1055387212, 4106643732, 4090652965, 1088004133)
      (3248222580, 144) =
    (1306951308, 2496397871, 1252670859, 131073377, 1858407563, 1055387212, 4106643732, 4090652965)"
    by (simp add: sha_round_def Let_def bsig0_def bsig1_def Ch_def Maj_def rotr_def)
  show ?thesis
    unfolding zip_Cons_Cons zip_Nil foldl_Cons foldl_Nil
      r0 r1 r2 r3 r4 r5 r6 r7 r8 r9 r10 r11 r12 r13 r14 r15
    by (rule refl)
qed

lemma sha_rounds_24_1:
  "foldl sha_round (1306951308, 2496397871, 1252670859, 131073377, 1858407563, 1055387212, 4106643732, 4090652965)
     (zip
      [3835390401, 4022224774, 264347078, 604807628, 770255983, 1249150122, 1555081692,
       1996064986, 2554220882, 2821834349, 2952996808, 3210313671, 3336571891, 3584528711,
       113926993, 338241895]
      [1831038811, 3591076190, 2262601308, 743189599, 116712598, 2477744292, 4007165741,
       3380977621, 106198534, 50252529, 3792601948, 3273327400, 632082314, 3499769435,
       3890666808, 3218086884]) =
     (2358167901, 102812036, 335009154, 3316904530, 3974904066, 2585438373, 3864845455, 2729079482)"
proof -
  have r16: "sha_round (1306951308, 2496397871, 1252670859, 131073377, 1858407563, 1055387212, 4106643732, 4090652965)
      (3835390401, 1831038811) =
    (2927179959, 1306951308, 2496397871, 1252670859, 3933814242, 1858407563, 1055387212, 4106643732)"
    by (simp add: sha_round_def Let_def bsig0_def bsig1_def Ch_def Maj_def rotr_def)
  have r17: "sha_round (2927179959, 1306951308, 2496397871, 1252670859, 3933814242, 1858407563, 1055387212, 4106643732)
      (4022224774, 3591076190) =
    (2624614711, 2927179959, 1306951308, 2496397871, 2406256822, 3933814242, 1858407563, 1055387212)"
    by (simp add: sha_round_def Let_def bsig0_def bsig1_def Ch_def Maj_def rotr_def)
  have r18: "sha_round (2624614711, 2927179959, 1306951308, 2496397871, 2406256822, 3933814242, 1858407563, 1055387212)
      (264347078, 2262601308) =
    (1994905126, 2624614711, 2927179959, 1306951308, 3487514079, 2406256822, 3933814242, 1858407563)"
    by (simp add: sha_round_def Let_def bsig0_def bsig1_def Ch_def Maj_def rotr_def)
  have r19: "sha_round (1994905126, 2624614711, 2927179959, 1306951308, 3487514079, 2406256822, 3933814242, 1858407563)
      (604807628, 743189599) =
    (203857926, 1994905126, 2624614711, 2927179959, 3888698095, 3487514079, 2406256822, 3933814242)"
    by (simp add: sha_round_def Let_def bsig0_def bsig1_def Ch_def Maj_def rotr_def)
  have r20: "sha_round (203857926, 1994905126, 2624614711, 2927179959, 3888698095, 3487514079, 2406256822, 3933814242)
      (770255983, 116712598) =
    (728682130, 203857926, 1994905126, 2624614711, 2747745823, 3888698095, 3487514079, 2406256822)"
    by (simp add: sha_round_def Let_def bsig0_def bsig1_def Ch_def Maj_def rotr_def)
  have r21: "sha_round (728682130, 203857926, 1994905126, 2624614711, 2747745823, 3888698095, 3487514079, 2406256822)
      (1249150122, 2477744292) =
    (806929017, 728682130, 203857926, 1994905126, 1488047403, 2747745823, 3888698095, 3487514079)"
    by (simp add: sha_round_def Let_def bsig0_def bsig1_def Ch_def Maj_def rotr_def)
  have r22: "sha_round (806929017, 728682130, 203857926, 1994905126, 1488047403, 2747745823, 3888698095, 3487514079)
      (1555081692, 4007165741) =
    (2031491330, 806929017, 728682130, 203857926, 2332612734, 1488047403, 2747745823, 3888698095)"
    by (simp add: sha_round_def Let_def bsig0_def bsig1_def Ch_def Maj_def rotr_def)
  have r23: "sha_round (2031491330, 806929017, 728682130, 203857926, 2332612734, 1488047403, 2747745823, 3888698095)
      (1996064986, 3380977621) =
    (166877230, 2031491330, 806929017, 728682130, 3469207310, 2332612734, 1488047403, 2747745823)"
    by (simp add: sha_round_def Let_def bsig0_def bsig1_def Ch_def Maj_def rotr_def)
  have r24: "sha_round (166877230, 2031491330, 806929017, 728682130, 3469207310, 2332612734, 1488047403, 2747745823)
      (2554220882, 106198534) =
    (1494929301, 166877230, 2031491330, 806929017, 3238716479, 3469207310, 2332612734, 1488047403)"
    by (simp add: sha_round_def Let_def bsig0_def bsig1_def Ch_def Maj_def rotr_def)
  have r25: "sha_round (1494929301, 166877230, 2031491330, 806929017, 3238716479, 3469207310, 2332612734, 1488047403)
      (2821834349, 50252529) =
    (1717040992, 1494929301, 166877230, 2031491330, 4220269180, 3238716479, 3469207310, 2332612734)"
    by (simp add: sha_round_def Let_def bsig0_def bsig1_def Ch_def Maj_def rotr_def)
  have r26: "sha_round (1717040992, 1494929301, 166877230, 2031491330, 4220269180, 3238716479, 3469207310, 2332612734)
      (2952996808, 3792601948) =
    (2741835316, 1717040992, 1494929301, 166877230, 3588555028, 4220269180, 3238716479, 3469207310)"
    by (simp add: sha_round_def Let_def bsig0_def bsig1_def Ch_def Maj_def rotr_def)
  have r27: "sha_round (2741835316, 1717040992, 1494929301, 166877230, 3588555028, 4220269180, 3238716479, 3469207310)
      (3210313671, 3273327400) =
    (916411558, 2741835316, 1717040992, 1494929301, 2953529656, 3588555028, 4220269180, 3238716479)"
    by (simp add: sha_round_def Let_def bsig0_def bsig1_def Ch_def Maj_def rotr_def)
  have r28: "sha_round (916411558, 2741835316, 1717040992, 1494929301, 2953529656, 3588555028, 4220269180, 3238716479)
      (3336571891, 632082314) =
    (3316904530, 916411558, 2741835316, 1717040992, 2729079482, 2953529656, 3588555028, 4220269180)"
    by (simp add: sha_round_def Let_def bsig0_def bsig1_def Ch_def Maj_def rotr_def)
  have r29: "sha_round (3316904530, 916411558, 2741835316, 1717040992, 2729079482, 2953529656, 3588555028, 4220269180)
      (3584528711, 3499769435) =
    (335009154, 3316904530, 916411558, 2741835316, 3864845455, 2729079482, 2953529656, 3588555028)"
    by (simp add: sha_round_def Let_def bsig0_def bsig1_def Ch_def Maj_def rotr_def)
  have r30: "sha_round (335009154, 3316904530, 916411558, 2741835316, 3864845455, 2729079482, 2953529656, 3588555028)
      (113926993, 3890666808) =
    (102812036, 335009154, 3316904530, 916411558, 2585438373, 3864845455, 2729079482, 2953529656)"
    by (simp add: sha_round_def Let_def bsig0_def bsig1_def Ch_def Maj_def rotr_def)
  have r31: "sha_round (102812036, 335009154, 3316904530, 916411558, 2585438373, 3864845455, 2729079482, 2953529656)
      (338241895, 3218086884) =
    (2358167901, 102812036, 335009154, 3316904530, 3974904066, 2585438373, 3864845455, 2729079482)"
    by (simp add: sha_round_def Let_def bsig0_def bsig1_def Ch_def Maj_def rotr_def)
  show ?thesis
    unfolding zip_Cons_Cons zip_Nil foldl_Cons foldl_Nil
      r16 r17 r18 r19 r20 r21 r22 r23 r24 r25 r26 r27 r28 r29 r30 r31
    by (rule refl)
qed

lemma sha_rounds_24_2:
  "foldl sha_round (2358167901, 102812036, 335009154, 3316904530, 3974904066, 2585438373, 3864845455, 2729079482)
     (zip
      [666307205, 773529912, 1294757372, 1396182291, 1695183700, 1986661051, 2177026350,
       2456956037, 2730485921, 2820302411, 3259730800, 3345764771, 3516065817, 3600352804,
       4094571909, 275423344]
      [2657066335, 1358709294, 937562951, 288804416, 2798730936, 2488289687, 1017272754,
       2802389405, 269979131, 3943201095, 3015419947, 3233437152, 2103304690, 1211506384,
       3024396817, 3894965631]) =
     (404242764, 1108658159, 3902698558, 82049101, 580840039, 2478140778, 266483186, 323645909)"
proof -
  have r32: "sha_round (2358167901, 102812036, 335009154, 3316904530, 3974904066, 2585438373, 3864845455, 2729079482)
      (666307205, 2657066335) =
    (1784552663, 2358167901, 102812036, 335009154, 377529746, 3974904066, 2585438373, 3864845455)"
    by (simp add: sha_round_def Let_def bsig0_def bsig1_def Ch_def Maj_def rotr_def)
  have r33: "sha_round (1784552663, 2358167901, 102812036, 335009154, 377529746, 3974904066, 2585438373, 3864845455)
      (773529912, 1358709294) =
    (4274444006, 1784552663, 2358167901, 102812036, 3226491431, 377529746, 3974904066, 2585438373)"
    by (simp add: sha_round_def Let_def bsig0_def bsig1_def Ch_def Maj_def rotr_def)
  have r34: "sha_round (4274444006, 1784552663, 2358167901, 102812036, 3226491431, 377529746, 3974904066, 2585438373)
      (1294757372, 937562951) =
    (1112955064, 4274444006, 1784552663, 2358167901, 1170894065, 3226491431, 377529746, 3974904066)"
    by (simp add: sha_round_def Let_def bsig0_def bsig1_def Ch_def Maj_def rotr_def)
  have r35: "sha_round (1112955064, 4274444006, 1784552663, 2358167901, 1170894065, 3226491431, 377529746, 3974904066)
      (1396182291, 288804416) =
    (1479641183, 1112955064, 4274444006, 1784552663, 3996421937, 1170894065, 3226491431, 377529746)"
    by (simp add: sha_round_def Let_def bsig0_def bsig1_def Ch_def Maj_def rotr_def)
  have r36: "sha_round (1479641183, 1112955064, 4274444006, 1784552663, 3996421937, 1170894065, 3226491431, 377529746)
      (1695183700, 2798730936) =
    (1334704168, 1479641183, 1112955064, 4274444006, 213736710, 3996421937, 1170894065, 3226491431)"
    by (simp add: sha_round_def Let_def bsig0_def bsig1_def Ch_def Maj_def rotr_def)
  have r37: "sha_round (1334704168, 1479641183, 1112955064, 4274444006, 213736710, 3996421937, 1170894065, 3226491431)
      (1986661051, 2488289687) =
    (775305686, 1334704168, 1479641183, 1112955064, 4255487273, 213736710, 3996421937, 1170894065)"
    by (simp add: sha_round_def Let_def bsig0_def bsig1_def Ch_def Maj_def rotr_def)
  have r38: "sha_round (775305686, 1334704168, 1479641183, 1112955064, 4255487273, 213736710, 3996421937, 1170894065)
      (2177026350, 1017272754) =
    (3472475347, 775305686, 1334704168, 1479641183, 624868785, 4255487273, 213736710, 3996421937)"
    by (simp add: sha_round_def Let_def bsig0_def bsig1_def Ch_def Maj_def rotr_def)
  have r39: "sha_round (3472475347, 775305686, 1334704168, 1479641183, 624868785, 4255487273, 213736710, 3996421937)
      (2456956037, 2802389405) =
    (3291835072, 3472475347, 775305686, 1334704168, 2608181388, 624868785, 4255487273, 213736710)"
    by (simp add: sha_round_def Let_def bsig0_def bsig1_def Ch_def Maj_def rotr_def)
  have r40: "sha_round (3291835072, 3472475347, 775305686, 1334704168, 2608181388, 624868785, 4255487273, 213736710)
      (2730485921, 269979131) =
    (1061578841, 3291835072, 3472475347, 775305686, 234782628, 2608181388, 624868785, 4255487273)"
    by (simp add: sha_round_def Let_def bsig0_def bsig1_def Ch_def Maj_def rotr_def)
  have r41: "sha_round (1061578841, 3291835072, 3472475347, 775305686, 234782628, 2608181388, 624868785, 4255487273)
      (2820302411, 3943201095) =
    (955590448, 1061578841, 3291835072, 3472475347, 2214392669, 234782628, 2608181388, 624868785)"
    by (simp add: sha_round_def Let_def bsig0_def bsig1_def Ch_def Maj_def rotr_def)
  have r42: "sha_round (955590448, 1061578841, 3291835072, 3472475347, 2214392669, 234782628, 2608181388, 624868785)
      (3259730800, 3015419947) =
    (3097444408, 955590448, 1061578841, 3291835072, 1745046581, 2214392669, 234782628, 2608181388)"
    by (simp add: sha_round_def Let_def bsig0_def bsig1_def Ch_def Maj_def rotr_def)
  have r43: "sha_round (3097444408, 955590448, 1061578841, 3291835072, 1745046581, 2214392669, 234782628, 2608181388)
      (3345764771, 3233437152) =
    (134101471, 3097444408, 955590448, 1061578841, 1081691729, 1745046581, 2214392669, 234782628)"
    by (simp add: sha_round_def Let_def bsig0_def bsig1_def Ch_def Maj_def rotr_def)
  have r44: "sha_round (134101471, 3097444408, 955590448, 1061578841, 1081691729, 1745046581, 2214392669, 234782628)
      (3516065817, 2103304690) =
    (82049101, 134101471, 3097444408, 955590448, 323645909, 1081691729, 1745046581, 2214392669)"
    by (simp add: sha_round_def Let_def bsig0_def bsig1_def Ch_def Maj_def rotr_def)
  have r45: "sha_round (82049101, 134101471, 3097444408, 955590448, 323645909, 1081691729, 1745046581, 2214392669)
      (3600352804, 1211506384) =
    (3902698558, 82049101, 134101471, 3097444408, 266483186, 323645909, 1081691729, 1745046581)"
    by (simp add: sha_round_def Let_def bsig0_def bsig1_def Ch_def Maj_def rotr_def)
  have r46: "sha_round (3902698558, 82049101, 134101471, 3097444408, 266483186, 323645909, 1081691729, 1745046581)
      (4094571909, 3024396817) =
    (1108658159, 3902698558, 82049101, 134101471, 2478140778, 266483186, 323645909, 1081691729)"
    by (simp add: sha_round_def Let_def bsig0_def bsig1_def Ch_def Maj_def rotr_def)
  have r47: "sha_round (1108658159, 3902698558, 82049101, 134101471, 2478140778, 266483186, 323645909, 1081691729)
      (275423344, 3894965631) =
    (404242764, 1108658159, 3902698558, 82049101, 580840039, 2478140778, 266483186, 323645909)"
    by (simp add: sha_round_def Let_def bsig0_def bsig1_def Ch_def Maj_def rotr_def)
  show ?thesis
    unfolding zip_Cons_Cons zip_Nil foldl_Cons foldl_Nil
      r32 r33 r34 r35 r36 r37 r38 r39 r40 r41 r42 r43 r44 r45 r46 r47
    by (rule refl)
qed

lemma sha_rounds_24_3:
  "foldl sha_round (404242764, 1108658159, 3902698558, 82049101, 580840039, 2478140778, 266483186, 323645909)
     (zip
      [430227734, 506948616, 659060556, 883997877, 958139571, 1322822218, 1537002063,
       1747873779, 1955562222, 2024104815, 2227730452, 2361852424, 2428436474, 2756734187,
       3204031479, 3329325298]
      [2500196646, 1160001819, 1841558172, 1418583944, 2782229986, 2453041141, 2767690768,
       1301027882, 533079856, 2439669518, 749835134, 2030052461, 965939067, 557285024,
       3887595970, 2050885544]) =
     (2095988173, 3050319697, 262733517, 2633573048, 700806238, 2849430353, 2207239115, 3321976709)"
proof -
  have r48: "sha_round (404242764, 1108658159, 3902698558, 82049101, 580840039, 2478140778, 266483186, 323645909)
      (430227734, 2500196646) =
    (646245447, 404242764, 1108658159, 3902698558, 1978187317, 580840039, 2478140778, 266483186)"
    by (simp add: sha_round_def Let_def bsig0_def bsig1_def Ch_def Maj_def rotr_def)
  have r49: "sha_round (646245447, 404242764, 1108658159, 3902698558, 1978187317, 580840039, 2478140778, 266483186)
      (506948616, 1160001819) =
    (3074401492, 646245447, 404242764, 1108658159, 3852484631, 1978187317, 580840039, 2478140778)"
    by (simp add: sha_round_def Let_def bsig0_def bsig1_def Ch_def Maj_def rotr_def)
  have r50: "sha_round (3074401492, 646245447, 404242764, 1108658159, 3852484631, 1978187317, 580840039, 2478140778)
      (659060556, 1841558172) =
    (1239459609, 3074401492, 646245447, 404242764, 1608485040, 3852484631, 1978187317, 580840039)"
    by (simp add: sha_round_def Let_def bsig0_def bsig1_def Ch_def Maj_def rotr_def)
  have r51: "sha_round (1239459609, 3074401492, 646245447, 404242764, 1608485040, 3852484631, 1978187317, 580840039)
      (883997877, 1418583944) =
    (1510032110, 1239459609, 3074401492, 646245447, 1648811009, 1608485040, 3852484631, 1978187317)"
    by (simp add: sha_round_def Let_def bsig0_def bsig1_def Ch_def Maj_def rotr_def)
  have r52: "sha_round (1510032110, 1239459609, 3074401492, 646245447, 1648811009, 1608485040, 3852484631, 1978187317)
      (958139571, 2782229986) =
    (2745629871, 1510032110, 1239459609, 3074401492, 3926984769, 1648811009, 1608485040, 3852484631)"
    by (simp add: sha_round_def Let_def bsig0_def bsig1_def Ch_def Maj_def rotr_def)
  have r53: "sha_round (2745629871, 1510032110, 1239459609, 3074401492, 3926984769, 1648811009, 1608485040, 3852484631)
      (1322822218, 2453041141) =
    (664145213, 2745629871, 1510032110, 1239459609, 4241403600, 3926984769, 1648811009, 1608485040)"
    by (simp add: sha_round_def Let_def bsig0_def bsig1_def Ch_def Maj_def rotr_def)
  have r54: "sha_round (664145213, 2745629871, 1510032110, 1239459609, 4241403600, 3926984769, 1648811009, 1608485040)
      (1537002063, 2767690768) =
    (3840846448, 664145213, 2745629871, 1510032110, 2467346809, 4241403600, 3926984769, 1648811009)"
    by (simp add: sha_round_def Let_def bsig0_def bsig1_def Ch_def Maj_def rotr_def)
  have r55: "sha_round (3840846448, 664145213, 2745629871, 1510032110, 2467346809, 4241403600, 3926984769, 1648811009)
      (1747873779, 1301027882) =
    (3370231648, 3840846448, 664145213, 2745629871, 2871455639, 2467346809, 4241403600, 3926984769)"
    by (simp add: sha_round_def Let_def bsig0_def bsig1_def Ch_def Maj_def rotr_def)
  have r56: "sha_round (3370231648, 3840846448, 664145213, 2745629871, 2871455639, 2467346809, 4241403600, 3926984769)
      (1955562222, 533079856) =
    (166194636, 3370231648, 3840846448, 664145213, 956599573, 2871455639, 2467346809, 4241403600)"
    by (simp add: sha_round_def Let_def bsig0_def bsig1_def Ch_def Maj_def rotr_def)
  have r57: "sha_round (166194636, 3370231648, 3840846448, 664145213, 956599573, 2871455639, 2467346809, 4241403600)
      (2024104815, 2439669518) =
    (3801031374, 166194636, 3370231648, 3840846448, 1301216320, 956599573, 2871455639, 2467346809)"
    by (simp add: sha_round_def Let_def bsig0_def bsig1_def Ch_def Maj_def rotr_def)
  have r58: "sha_round (3801031374, 166194636, 3370231648, 3840846448, 1301216320, 956599573, 2871455639, 2467346809)
      (2227730452, 749835134) =
    (2570620342, 3801031374, 166194636, 3370231648, 585083162, 1301216320, 956599573, 2871455639)"
    by (simp add: sha_round_def Let_def bsig0_def bsig1_def Ch_def Maj_def rotr_def)
  have r59: "sha_round (2570620342, 3801031374, 166194636, 3370231648, 585083162, 1301216320, 956599573, 2871455639)
      (2361852424, 2030052461) =
    (2719238380, 2570620342, 3801031374, 166194636, 3078230449, 585083162, 1301216320, 956599573)"
    by (simp add: sha_round_def Let_def bsig0_def bsig1_def Ch_def Maj_def rotr_def)
  have r60: "sha_round (2719238380, 2570620342, 3801031374, 166194636, 3078230449, 585083162, 1301216320, 956599573)
      (2428436474, 965939067) =
    (2633573048, 2719238380, 2570620342, 3801031374, 3321976709, 3078230449, 585083162, 1301216320)"
    by (simp add: sha_round_def Let_def bsig0_def bsig1_def Ch_def Maj_def rotr_def)
  have r61: "sha_round (2633573048, 2719238380, 2570620342, 3801031374, 3321976709, 3078230449, 585083162, 1301216320)
      (2756734187, 557285024) =
    (262733517, 2633573048, 2719238380, 2570620342, 2207239115, 3321976709, 3078230449, 585083162)"
    by (simp add: sha_round_def Let_def bsig0_def bsig1_def Ch_def Maj_def rotr_def)
  have r62: "sha_round (262733517, 2633573048, 2719238380, 2570620342, 2207239115, 3321976709, 3078230449, 585083162)
      (3204031479, 3887595970) =
    (3050319697, 262733517, 2633573048, 2719238380, 2849430353, 2207239115, 3321976709, 3078230449)"
    by (simp add: sha_round_def Let_def bsig0_def bsig1_def Ch_def Maj_def rotr_def)
  have r63: "sha_round (3050319697, 262733517, 2633573048, 2719238380, 2849430353, 2207239115, 3321976709, 3078230449)
      (3329325298, 2050885544) =
    (2095988173, 3050319697, 262733517, 2633573048, 700806238, 2849430353, 2207239115, 3321976709)"
    by (simp add: sha_round_def Let_def bsig0_def bsig1_def Ch_def Maj_def rotr_def)
  show ?thesis
    unfolding zip_Cons_Cons zip_Nil foldl_Cons foldl_Nil
      r48 r49 r50 r51 r52 r53 r54 r55 r56 r57 r58 r59 r60 r61 r62 r63
    by (rule refl)
qed

lemma sha_digest_24: "take 16 (sha256_hex ''memory|WARN|24|900'') = ''e6f824347137ddd6''"
proof -
  have r16: "rev
      [1835363695, 1920564311, 1095913084, 842300473, 808484864, 0, 0, 0, 0, 0, 0, 0, 0, 0, 0,
       144] =
      [144, 0, 0, 0, 0, 0, 0, 0, 0, 0, 0, 808484864, 842300473, 1095913084, 1920564311,
       1835363695]"
    by simp
  have r64: "rev
      [2050885544, 3887595970, 557285024, 965939067, 2030052461, 749835134, 2439669518,
       533079856, 1301027882, 2767690768, 2453041141, 2782229986, 1418583944, 1841558172,
       1160001819, 2500196646, 3894965631, 3024396817, 1211506384, 2103304690, 3233437152,
       3015419947, 3943201095, 269979131, 2802389405, 1017272754, 2488289687, 2798730936,
       288804416, 937562951, 1358709294, 2657066335, 3218086884, 3890666808, 3499769435,
       632082314, 3273327400, 3792601948, 50252529, 106198534, 3380977621, 4007165741,
       2477744292, 116712598, 743189599, 2262601308, 3591076190, 1831038811, 144, 0, 0, 0, 0,
       0, 0, 0, 0, 0, 0, 808484864, 842300473, 1095913084, 1920564311, 1835363695] =
      [1835363695, 1920564311, 1095913084, 842300473, 808484864, 0, 0, 0, 0, 0, 0, 0, 0, 0, 0,
       144] @
      [1831038811, 3591076190, 2262601308, 743189599, 116712598, 2477744292, 4007165741,
       3380977621, 106198534, 50252529, 3792601948, 3273327400, 632082314, 3499769435,
       3890666808, 3218086884] @
      [2657066335, 1358709294, 937562951, 288804416, 2798730936, 2488289687, 1017272754,
       2802389405, 269979131, 3943201095, 3015419947, 3233437152, 2103304690, 1211506384,
       3024396817, 3894965631] @
      [2500196646, 1160001819, 1841558172, 1418583944, 2782229986, 2453041141, 2767690768,
       1301027882, 533079856, 2439669518, 749835134, 2030052461, 965939067, 557285024,
       3887595970, 2050885544]"
    by simp
  have k: "sha256_K =
      [1116352408, 1899447441, 3049323471, 3921009573, 961987163, 1508970993, 2453635748,
       2870763221, 3624381080, 310598401, 607225278, 1426881987, 1925078388, 2162078206,
       2614888103, 3248222580] @
      [3835390401, 4022224774, 264347078, 604807628, 770255983, 1249150122, 1555081692,
       1996064986, 2554220882, 2821834349, 2952996808, 3210313671, 3336571891, 3584528711,
       113926993, 338241895] @
      [666307205, 773529912, 1294757372, 1396182291, 1695183700, 1986661051, 2177026350,
       2456956037, 2730485921, 2820302411, 3259730800, 3345764771, 3516065817, 3600352804,
       4094571909, 275423344] @
      [430227734, 506948616, 659060556, 883997877, 958139571, 1322822218, 1537002063,
       1747873779, 1955562222, 2024104815, 2227730452, 2361852424, 2428436474, 2756734187,
       3204031479, 3329325298]"
    by (simp add: sha256_K_def)
  have z: "zip (a1 @ a2 @ a3 @ a4) (b1 @ b2 @ b3 @ b4) = zip a1 b1 @ zip a2 b2 @ zip a3 b3 @ zip a4 b4"
    if "length a1 = length b1" "length a2 = length b2" "length a3 = length b3"
    for a1 a2 a3 a4 :: "u32 list" and b1 b2 b3 b4 :: "u32 list"
    using that by simp
  have f: "foldl sha_round sha256_init (zip sha256_K
      ([1835363695, 1920564311, 1095913084, 842300473, 808484864, 0, 0, 0, 0, 0, 0, 0, 0, 0, 0,
       144] @
       [1831038811, 3591076190, 2262601308, 743189599, 116712598, 2477744292, 4007165741,
       3380977621, 106198534, 50252529, 3792601948, 3273327400, 632082314, 3499769435,
       3890666808, 3218086884] @
       [2657066335, 1358709294, 937562951, 288804416, 2798730936, 2488289687, 1017272754,
       2802389405, 269979131, 3943201095, 3015419947, 3233437152, 2103304690, 1211506384,
       3024396817, 3894965631] @
       [2500196646, 1160001819, 1841558172, 1418583944, 2782229986, 2453041141, 2767690768,
       1301027882, 533079856, 2439669518, 749835134, 2030052461, 965939067, 557285024,
       3887595970, 2050885544])) =
    (2095988173, 3050319697, 262733517, 2633573048, 700806238, 2849430353, 2207239115, 3321976709)"
    apply (subst k)
    apply (subst z)
       apply simp_all[3]
    apply (simp only: foldl_append sha256_init_def sha_rounds_24_0 sha_rounds_24_1 sha_rounds_24_2 sha_rounds_24_3)
    done
  have a: "sha_add sha256_init (2095988173, 3050319697, 262733517, 2633573048, 700806238, 2849430353, 2207239115, 3321976709) =
    (3875021876, 1899486678, 1276637759, 1112086514, 2060699357, 1155285981, 2735973750, 568468638)"
    by code_simp
  have h: "take 16 (hexdigest (3875021876, 1899486678, 1276637759, 1112086514, 2060699357, 1155285981, 2735973750, 568468638)) = ''e6f824347137ddd6''"
    by code_simp
  show ?thesis
    unfolding sha256_hex_def sha_block_24 compress_def r16 sha_schedule_24 r64 f a h
    by (rule refl)
qed

text \<open>The digest of \<open>memory|WARN|25|900\<close>, evaluated step by step.\<close>

lemma sha_block_25:
  "sha256_words (map of_char ''memory|WARN|25|900'') = compress sha256_init
    [1835363695, 1920564311, 1095913084, 842366009, 808484864, 0, 0, 0, 0, 0, 0, 0, 0, 0, 0,
     144]"
proof -
  have p: "sha_pad (map of_char ''memory|WARN|25|900'') =
      [109, 101, 109, 111, 114, 121, 124, 87, 65, 82, 78, 124, 50, 53, 124, 57, 48, 48, 128, 0,
       0, 0, 0, 0, 0, 0, 0, 0, 0, 0, 0, 0, 0, 0, 0, 0, 0, 0, 0, 0, 0, 0, 0, 0, 0, 0, 0, 0, 0,
       0, 0, 0, 0, 0, 0, 0, 0, 0, 0, 0, 0, 0, 0, 144]"
    by code_simp
  have b: "map be32 (chunks 16 4
      [109, 101, 109, 111, 114, 121, 124, 87, 65, 82, 78, 124, 50, 53, 124, 57, 48, 48, 128, 0,
       0, 0, 0, 0, 0, 0, 0, 0, 0, 0, 0, 0, 0, 0, 0, 0, 0, 0, 0, 0, 0, 0, 0, 0, 0, 0, 0, 0, 0,
       0, 0, 0, 0, 0, 0, 0, 0, 0, 0, 0, 0, 0, 0, 144]) =
      [1835363695, 1920564311, 1095913084, 842366009, 808484864, 0, 0, 0, 0, 0, 0, 0, 0, 0, 0,
       144]"
    by code_simp
  show ?thesis
    unfolding sha256_words_def p Let_def by (simp add: b)
qed

lemma sha_schedule_25:
  "schedule 48
    [144, 0, 0, 0, 0, 0, 0, 0, 0, 0, 0, 808484864, 842366009, 1095913084, 1920564311,
     1835363695] =
    [4173258084, 1551580488, 4167506697, 2705641238, 1834083563, 3990361944, 3122529695,
     3826906858, 2500231348, 3105540584, 3766049157, 1087880198, 2792347226, 2398701658,
     899000049, 2383627532, 3425410514, 1841909584, 1906450848, 4035984416, 422338368,
     3977200367, 2281379367, 3592670663, 420421016, 3471135405, 1240881885, 487947234,
     3033775707, 1566792061, 1675375558, 3950067439, 336343586, 4042314816, 1400816435,
     2172823310, 1831805896, 1128221177, 2491328742, 4185400501, 3380995029, 3724038713,
     867131620, 3957628078, 743255135, 1188850780, 3591076190, 1831038811, 144, 0, 0, 0, 0, 0,
     0, 0, 0, 0, 0, 808484864, 842366009, 1095913084, 1920564311, 1835363695]"
proof -
  have s0: "schedule 8
      [144, 0, 0, 0, 0, 0, 0, 0, 0, 0, 0, 808484864, 842366009, 1095913084, 1920564311,
       1835363695] =
      [3380995029, 3724038713, 867131620, 3957628078, 743255135, 1188850780, 3591076190,
       1831038811, 144, 0, 0, 0, 0, 0, 0, 0, 0, 0, 0, 808484864, 842366009, 1095913084,
       1920564311, 1835363695]"
    by code_simp
  have s1: "schedule 8
      [3380995029, 3724038713, 867131620, 3957628078, 743255135, 1188850780, 3591076190,
       1831038811, 144, 0, 0, 0, 0, 0, 0, 0, 0, 0, 0, 808484864, 842366009, 1095913084,
       1920564311, 1835363695] =
      [336343586, 4042314816, 1400816435, 2172823310, 1831805896, 1128221177, 2491328742,
       4185400501, 3380995029, 3724038713, 867131620, 3957628078, 743255135, 1188850780,
       3591076190, 1831038811, 144, 0, 0, 0, 0, 0, 0, 0, 0, 0, 0, 808484864, 842366009,
       1095913084, 1920564311, 1835363695]"
    by code_simp
  have s2: "schedule 8
      [336343586, 4042314816, 1400816435, 2172823310, 1831805896, 1128221177, 2491328742,
       4185400501, 3380995029, 3724038713, 867131620, 3957628078, 743255135, 1188850780,
       3591076190, 1831038811, 144, 0, 0, 0, 0, 0, 0, 0, 0, 0, 0, 808484864, 842366009,
       1095913084, 1920564311, 1835363695] =
      [420421016, 3471135405, 1240881885, 487947234, 3033775707, 1566792061, 1675375558,
       3950067439, 336343586, 4042314816, 1400816435, 2172823310, 1831805896, 1128221177,
       2491328742, 4185400501, 3380995029, 3724038713, 867131620, 3957628078, 743255135,
       1188850780, 3591076190, 1831038811, 144, 0, 0, 0, 0, 0, 0, 0, 0, 0, 0, 808484864,
       842366009, 1095913084, 1920564311, 1835363695]"
    by code_simp
  have s3: "schedule 8
      [420421016, 3471135405, 1240881885, 487947234, 3033775707, 1566792061, 1675375558,
       3950067439, 336343586, 4042314816, 1400816435, 2172823310, 1831805896, 1128221177,
       2491328742, 4185400501, 3380995029, 3724038713, 867131620, 3957628078, 743255135,
       1188850780, 3591076190, 1831038811, 144, 0, 0, 0, 0, 0, 0, 0, 0, 0, 0, 808484864,
       842366009, 1095913084, 1920564311, 1835363695] =
      [3425410514, 1841909584, 1906450848, 4035984416, 422338368, 3977200367, 2281379367,
       3592670663, 420421016, 3471135405, 1240881885, 487947234, 3033775707, 1566792061,
       1675375558, 3950067439, 336343586, 4042314816, 1400816435, 2172823310, 1831805896,
       1128221177, 2491328742, 4185400501, 3380995029, 3724038713, 867131620, 3957628078,
       743255135, 1188850780, 3591076190, 1831038811, 144, 0, 0, 0, 0, 0, 0, 0, 0, 0, 0,
       808484864, 842366009, 1095913084, 1920564311, 1835363695]"
    by code_simp
  have s4: "schedule 8
      [3425410514, 1841909584, 1906450848, 4035984416, 422338368, 3977200367, 2281379367,
       3592670663, 420421016, 3471135405, 1240881885, 487947234, 3033775707, 1566792061,
       1675375558, 3950067439, 336343586, 4042314816, 1400816435, 2172823310, 1831805896,
       1128221177, 2491328742, 4185400501, 3380995029, 3724038713, 867131620, 3957628078,
       743255135, 1188850780, 3591076190, 1831038811, 144, 0, 0, 0, 0, 0, 0, 0, 0, 0, 0,
       808484864, 842366009, 1095913084, 1920564311, 1835363695] =
      [2500231348, 3105540584, 3766049157, 1087880198, 2792347226, 2398701658, 899000049,
       2383627532, 3425410514, 1841909584, 1906450848, 4035984416, 422338368, 3977200367,
       2281379367, 3592670663, 420421016, 3471135405, 1240881885, 487947234, 3033775707,
       1566792061, 1675375558, 3950067439, 336343586, 4042314816, 1400816435, 2172823310,
       1831805896, 1128221177, 2491328742, 4185400501, 3380995029, 3724038713, 867131620,
       3957628078, 743255135, 1188850780, 3591076190, 1831038811, 144, 0, 0, 0, 0, 0, 0, 0, 0,
       0, 0, 808484864, 842366009, 1095913084, 1920564311, 1835363695]"
    by code_simp
  have s5: "schedule 8
      [2500231348, 3105540584, 3766049157, 1087880198, 2792347226, 2398701658, 899000049,
       2383627532, 3425410514, 1841909584, 1906450848, 4035984416, 422338368, 3977200367,
       2281379367, 3592670663, 420421016, 3471135405, 1240881885, 487947234, 3033775707,
       1566792061, 1675375558, 3950067439, 336343586, 4042314816, 1400816435, 2172823310,
       1831805896, 1128221177, 2491328742, 4185400501, 3380995029, 3724038713, 867131620,
       3957628078, 743255135, 1188850780, 3591076190, 1831038811, 144, 0, 0, 0, 0, 0, 0, 0, 0,
       0, 0, 808484864, 842366009, 1095913084, 1920564311, 1835363695] =
      [4173258084, 1551580488, 4167506697, 2705641238, 1834083563, 3990361944, 3122529695,
       3826906858, 2500231348, 3105540584, 3766049157, 1087880198, 2792347226, 2398701658,
       899000049, 2383627532, 3425410514, 1841909584, 1906450848, 4035984416, 422338368,
       3977200367, 2281379367, 3592670663, 420421016, 3471135405, 1240881885, 487947234,
       3033775707, 1566792061, 1675375558, 3950067439, 336343586, 4042314816, 1400816435,
       2172823310, 1831805896, 1128221177, 2491328742, 4185400501, 3380995029, 3724038713,
       867131620, 3957628078, 743255135, 1188850780, 3591076190, 1831038811, 144, 0, 0, 0, 0,
       0, 0, 0, 0, 0, 0, 808484864, 842366009, 1095913084, 1920564311, 1835363695]"
    by code_simp
  have e: "(48::nat) = 8 + 8 + 8 + 8 + 8 + 8" by simp
  show ?thesis
    unfolding e schedule_add s0 s1 s2 s3 s4 s5 by (rule refl)
qed

lemma sha_rounds_25_0:
  "foldl sha_round (1779033703, 3144134277, 1013904242, 2773480762, 1359893119, 2600822924, 528734635, 1541459225)
     (zip
      [1116352408, 1899447441, 3049323471, 3921009573, 961987163, 1508970993, 2453635748,
       2870763221, 3624381080, 310598401, 607225278, 1426881987, 1925078388, 2162078206,
       2614888103, 3248222580]
      [1835363695, 1920564311, 1095913084, 842366009, 808484864, 0, 0, 0, 0, 0, 0, 0, 0, 0, 0,
       144]) =
     (576674184, 3266460722, 2818929295, 2043449975, 811145062, 2350347756, 649980499, 422069043)"
proof -
  have r0: "sha_round (1779033703, 3144134277, 1013904242, 2773480762, 1359893119, 2600822924, 528734635, 1541459225)
      (1116352408, 1835363695) =
    (1768814012, 1779033703, 3144134277, 1013904242, 103632913, 1359893119, 2600822924, 528734635)"
    by (simp add: sha_round_def Let_def bsig0_def bsig1_def Ch_def Maj_def rotr_def)
  have r1: "sha_round (1768814012, 1779033703, 3144134277, 1013904242, 103632913, 1359893119, 2600822924, 528734635)
      (1899447441, 1920564311) =
    (1487813091, 1768814012, 1779033703, 3144134277, 692092683, 103632913, 1359893119, 2600822924)"
    by (simp add: sha_round_def Let_def bsig0_def bsig1_def Ch_def Maj_def rotr_def)
  have r2: "sha_round (1487813091, 1768814012, 1779033703, 3144134277, 692092683, 103632913, 1359893119, 2600822924)
      (3049323471, 1095913084) =
    (1512795141, 1487813091, 1768814012, 1779033703, 193879608, 692092683, 103632913, 1359893119)"
    by (simp add: sha_round_def Let_def bsig0_def bsig1_def Ch_def Maj_def rotr_def)
  have r3: "sha_round (1512795141, 1487813091, 1768814012, 1779033703, 193879608, 692092683, 103632913, 1359893119)
      (3921009573, 842366009) =
    (1297807859, 1512795141, 1487813091, 1768814012, 3290776451, 193879608, 692092683, 103632913)"
    by (simp add: sha_round_def Let_def bsig0_def bsig1_def Ch_def Maj_def rotr_def)
  have r4: "sha_round (1297807859, 1512795141, 1487813091, 1768814012, 3290776451, 193879608, 692092683, 103632913)
      (961987163, 808484864) =
    (3591926841, 1297807859, 1512795141, 1487813091, 1882248820, 3290776451, 193879608, 692092683)"
    by (simp add: sha_round_def Let_def bsig0_def bsig1_def Ch_def Maj_def rotr_def)
  have r5: "sha_round (3591926841, 1297807859, 1512795141, 1487813091, 1882248820, 3290776451, 193879608, 692092683)
      (1508970993, 0) =
    (3921191237, 3591926841, 1297807859, 1512795141, 783553634, 1882248820, 3290776451, 193879608)"
    by (simp add: sha_round_def Let_def bsig0_def bsig1_def Ch_def Maj_def rotr_def)
  have r6: "sha_round (3921191237, 3591926841, 1297807859, 1512795141, 783553634, 1882248820, 3290776451, 193879608)
      (2453635748, 0) =
    (1020384292, 3921191237, 3591926841, 1297807859, 924834950, 783553634, 1882248820, 3290776451)"
    by (simp add: sha_round_def Let_def bsig0_def bsig1_def Ch_def Maj_def rotr_def)
  have r7: "sha_round (1020384292, 3921191237, 3591926841, 1297807859, 924834950, 783553634, 1882248820, 3290776451)
      (2870763221, 0) =
    (3276312565, 1020384292, 3921191237, 3591926841, 717591119, 924834950, 783553634, 1882248820)"
    by (simp add: sha_round_def Let_def bsig0_def bsig1_def Ch_def Maj_def rotr_def)
  have r8: "sha_round (3276312565, 1020384292, 3921191237, 3591926841, 717591119, 924834950, 783553634, 1882248820)
      (3624381080, 0) =
    (2635199161, 3276312565, 1020384292, 3921191237, 1544418009, 717591119, 924834950, 783553634)"
    by (simp add: sha_round_def Let_def bsig0_def bsig1_def Ch_def Maj_def rotr_def)
  have r9: "sha_round (2635199161, 3276312565, 1020384292, 3921191237, 1544418009, 717591119, 924834950, 783553634)
      (310598401, 0) =
    (4152766871, 2635199161, 3276312565, 1020384292, 2393541074, 1544418009, 717591119, 924834950)"
    by (simp add: sha_round_def Let_def bsig0_def bsig1_def Ch_def Maj_def rotr_def)
  have r10: "sha_round (4152766871, 2635199161, 3276312565, 1020384292, 2393541074, 1544418009, 717591119, 924834950)
      (607225278, 0) =
    (3982995089, 4152766871, 2635199161, 3276312565, 3919601526, 2393541074, 1544418009, 717591119)"
    by (simp add: sha_round_def Let_def bsig0_def bsig1_def Ch_def Maj_def rotr_def)
  have r11: "sha_round (3982995089, 4152766871, 2635199161, 3276312565, 3919601526, 2393541074, 1544418009, 717591119)
      (1426881987, 0) =
    (2420654508, 3982995089, 4152766871, 2635199161, 3306969060, 3919601526, 2393541074, 1544418009)"
    by (simp add: sha_round_def Let_def bsig0_def bsig1_def Ch_def Maj_def rotr_def)
  have r12: "sha_round (2420654508, 3982995089, 4152766871, 2635199161, 3306969060, 3919601526, 2393541074, 1544418009)
      (1925078388, 0) =
    (2043449975, 2420654508, 3982995089, 4152766871, 422069043, 3306969060, 3919601526, 2393541074)"
    by (simp add: sha_round_def Let_def bsig0_def bsig1_def Ch_def Maj_def rotr_def)
  have r13: "sha_round (2043449975, 2420654508, 3982995089, 4152766871, 422069043, 3306969060, 3919601526, 2393541074)
      (2162078206, 0) =
    (2818929295, 2043449975, 2420654508, 3982995089, 649980499, 422069043, 3306969060, 3919601526)"
    by (simp add: sha_round_def Let_def bsig0_def bsig1_def Ch_def Maj_def rotr_def)
  have r14: "sha_round (2818929295, 2043449975, 2420654508, 3982995089, 649980499, 422069043, 3306969060, 3919601526)
      (2614888103, 0) =
    (3266460722, 2818929295, 2043449975, 2420654508, 2350347756, 649980499, 422069043, 3306969060)"
    by (simp add: sha_round_def Let_def bsig0_def bsig1_def Ch_def Maj_def rotr_def)
  have r15: "sha_round (3266460722, 2818929295, 2043449975, 2420654508, 2350347756, 649980499, 422069043, 3306969060)
      (3248222580, 144) =
    (576674184, 3266460722, 2818929295, 2043449975, 811145062, 2350347756, 649980499, 422069043)"
    by (simp add: sha_round_def Let_def bsig0_def bsig1_def Ch_def Maj_def rotr_def)
  show ?thesis
    unfolding zip_Cons_Cons zip_Nil foldl_Cons foldl_Nil
      r0 r1 r2 r3 r4 r5 r6 r7 r8 r9 r10 r11 r12 r13 r14 r15
    by (rule refl)
qed

lemma sha_rounds_25_1:
  "foldl sha_round (576674184, 3266460722, 2818929295, 2043449975, 811145062, 2350347756, 649980499, 422069043)
     (zip
      [3835390401, 4022224774, 264347078, 604807628, 770255983, 1249150122, 1555081692,
       1996064986, 2554220882, 2821834349, 2952996808, 3210313671, 3336571891, 3584528711,
       113926993, 338241895]
      [1831038811, 3591076190, 1188850780, 743255135, 3957628078, 867131620, 3724038713,
       3380995029, 4185400501, 2491328742, 1128221177, 1831805896, 2172823310, 1400816435,
       4042314816, 336343586]) =
     (1520082313, 3543359430, 2255777683, 4017406935, 854061048, 1369556231, 3622225274, 3170908529)"
proof -
  have r16: "sha_round (576674184, 3266460722, 2818929295, 2043449975, 811145062, 2350347756, 649980499, 422069043)
      (3835390401, 1831038811) =
    (636637894, 576674184, 3266460722, 2818929295, 1140230306, 811145062, 2350347756, 649980499)"
    by (simp add: sha_round_def Let_def bsig0_def bsig1_def Ch_def Maj_def rotr_def)
  have r17: "sha_round (636637894, 576674184, 3266460722, 2818929295, 1140230306, 811145062, 2350347756, 649980499)
      (4022224774, 3591076190) =
    (3621130925, 636637894, 576674184, 3266460722, 2262993158, 1140230306, 811145062, 2350347756)"
    by (simp add: sha_round_def Let_def bsig0_def bsig1_def Ch_def Maj_def rotr_def)
  have r18: "sha_round (3621130925, 636637894, 576674184, 3266460722, 2262993158, 1140230306, 811145062, 2350347756)
      (264347078, 1188850780) =
    (1105777526, 3621130925, 636637894, 576674184, 603140056, 2262993158, 1140230306, 811145062)"
    by (simp add: sha_round_def Let_def bsig0_def bsig1_def Ch_def Maj_def rotr_def)
  have r19: "sha_round (1105777526, 3621130925, 636637894, 576674184, 603140056, 2262993158, 1140230306, 811145062)
      (604807628, 743255135) =
    (338559744, 1105777526, 3621130925, 636637894, 1209345798, 603140056, 2262993158, 1140230306)"
    by (simp add: sha_round_def Let_def bsig0_def bsig1_def Ch_def Maj_def rotr_def)
  have r20: "sha_round (338559744, 1105777526, 3621130925, 636637894, 1209345798, 603140056, 2262993158, 1140230306)
      (770255983, 3957628078) =
    (3542616799, 338559744, 1105777526, 3621130925, 4263848097, 1209345798, 603140056, 2262993158)"
    by (simp add: sha_round_def Let_def bsig0_def bsig1_def Ch_def Maj_def rotr_def)
  have r21: "sha_round (3542616799, 338559744, 1105777526, 3621130925, 4263848097, 1209345798, 603140056, 2262993158)
      (1249150122, 867131620) =
    (595099381, 3542616799, 338559744, 1105777526, 2819008913, 4263848097, 1209345798, 603140056)"
    by (simp add: sha_round_def Let_def bsig0_def bsig1_def Ch_def Maj_def rotr_def)
  have r22: "sha_round (595099381, 3542616799, 338559744, 1105777526, 2819008913, 4263848097, 1209345798, 603140056)
      (1555081692, 3724038713) =
    (807930083, 595099381, 3542616799, 338559744, 6029457, 2819008913, 4263848097, 1209345798)"
    by (simp add: sha_round_def Let_def bsig0_def bsig1_def Ch_def Maj_def rotr_def)
  have r23: "sha_round (807930083, 595099381, 3542616799, 338559744, 6029457, 2819008913, 4263848097, 1209345798)
      (1996064986, 3380995029) =
    (1563626007, 807930083, 595099381, 3542616799, 319353448, 6029457, 2819008913, 4263848097)"
    by (simp add: sha_round_def Let_def bsig0_def bsig1_def Ch_def Maj_def rotr_def)
  have r24: "sha_round (1563626007, 807930083, 595099381, 3542616799, 319353448, 6029457, 2819008913, 4263848097)
      (2554220882, 4185400501) =
    (506962039, 1563626007, 807930083, 595099381, 1950951926, 319353448, 6029457, 2819008913)"
    by (simp add: sha_round_def Let_def bsig0_def bsig1_def Ch_def Maj_def rotr_def)
  have r25: "sha_round (506962039, 1563626007, 807930083, 595099381, 1950951926, 319353448, 6029457, 2819008913)
      (2821834349, 2491328742) =
    (4014366284, 506962039, 1563626007, 807930083, 3688304370, 1950951926, 319353448, 6029457)"
    by (simp add: sha_round_def Let_def bsig0_def bsig1_def Ch_def Maj_def rotr_def)
  have r26: "sha_round (4014366284, 506962039, 1563626007, 807930083, 3688304370, 1950951926, 319353448, 6029457)
      (2952996808, 1128221177) =
    (1923265398, 4014366284, 506962039, 1563626007, 1925436390, 3688304370, 1950951926, 319353448)"
    by (simp add: sha_round_def Let_def bsig0_def bsig1_def Ch_def Maj_def rotr_def)
  have r27: "sha_round (1923265398, 4014366284, 506962039, 1563626007, 1925436390, 3688304370, 1950951926, 319353448)
      (3210313671, 1831805896) =
    (658962285, 1923265398, 4014366284, 506962039, 2021420812, 1925436390, 3688304370, 1950951926)"
    by (simp add: sha_round_def Let_def bsig0_def bsig1_def Ch_def Maj_def rotr_def)
  have r28: "sha_round (658962285, 1923265398, 4014366284, 506962039, 2021420812, 1925436390, 3688304370, 1950951926)
      (3336571891, 2172823310) =
    (4017406935, 658962285, 1923265398, 4014366284, 3170908529, 2021420812, 1925436390, 3688304370)"
    by (simp add: sha_round_def Let_def bsig0_def bsig1_def Ch_def Maj_def rotr_def)
  have r29: "sha_round (4017406935, 658962285, 1923265398, 4014366284, 3170908529, 2021420812, 1925436390, 3688304370)
      (3584528711, 1400816435) =
    (2255777683, 4017406935, 658962285, 1923265398, 3622225274, 3170908529, 2021420812, 1925436390)"
    by (simp add: sha_round_def Let_def bsig0_def bsig1_def Ch_def Maj_def rotr_def)
  have r30: "sha_round (2255777683, 4017406935, 658962285, 1923265398, 3622225274, 3170908529, 2021420812, 1925436390)
      (113926993, 4042314816) =
    (3543359430, 2255777683, 4017406935, 658962285, 1369556231, 3622225274, 3170908529, 2021420812)"
    by (simp add: sha_round_def Let_def bsig0_def bsig1_def Ch_def Maj_def rotr_def)
  have r31: "sha_round (3543359430, 2255777683, 4017406935, 658962285, 1369556231, 3622225274, 3170908529, 2021420812)
      (338241895, 336343586) =
    (1520082313, 3543359430, 2255777683, 4017406935, 854061048, 1369556231, 3622225274, 3170908529)"
    by (simp add: sha_round_def Let_def bsig0_def bsig1_def Ch_def Maj_def rotr_def)
  show ?thesis
    unfolding zip_Cons_Cons zip_Nil foldl_Cons foldl_Nil
      r16 r17 r18 r19 r20 r21 r22 r23 r24 r25 r26 r27 r28 r29 r30 r31
    by (rule refl)
qed

lemma sha_rounds_25_2:
  "foldl sha_round (1520082313, 3543359430, 2255777683, 4017406935, 854061048, 1369556231, 3622225274, 3170908529)
     (zip
      [666307205, 773529912, 1294757372, 1396182291, 1695183700, 1986661051, 2177026350,
       2456956037, 2730485921, 2820302411, 3259730800, 3345764771, 3516065817, 3600352804,
       4094571909, 275423344]
      [3950067439, 1675375558, 1566792061, 3033775707, 487947234, 1240881885, 3471135405,
       420421016, 3592670663, 2281379367, 3977200367, 422338368, 4035984416, 1906450848,
       1841909584, 3425410514]) =
     (226324978, 1110791739, 2591796196, 2166740784, 3909104273, 2281798410, 617998298, 542205931)"
proof -
  have r32: "sha_round (1520082313, 3543359430, 2255777683, 4017406935, 854061048, 1369556231, 3622225274, 3170908529)
      (666307205, 3950067439) =
    (3033611681, 1520082313, 3543359430, 2255777683, 24726297, 854061048, 1369556231, 3622225274)"
    by (simp add: sha_round_def Let_def bsig0_def bsig1_def Ch_def Maj_def rotr_def)
  have r33: "sha_round (3033611681, 1520082313, 3543359430, 2255777683, 24726297, 854061048, 1369556231, 3622225274)
      (773529912, 1675375558) =
    (228768974, 3033611681, 1520082313, 3543359430, 4239695790, 24726297, 854061048, 1369556231)"
    by (simp add: sha_round_def Let_def bsig0_def bsig1_def Ch_def Maj_def rotr_def)
  have r34: "sha_round (228768974, 3033611681, 1520082313, 3543359430, 4239695790, 24726297, 854061048, 1369556231)
      (1294757372, 1566792061) =
    (528892676, 228768974, 3033611681, 1520082313, 3862620977, 4239695790, 24726297, 854061048)"
    by (simp add: sha_round_def Let_def bsig0_def bsig1_def Ch_def Maj_def rotr_def)
  have r35: "sha_round (528892676, 228768974, 3033611681, 1520082313, 3862620977, 4239695790, 24726297, 854061048)
      (1396182291, 3033775707) =
    (25605281, 528892676, 228768974, 3033611681, 936482841, 3862620977, 4239695790, 24726297)"
    by (simp add: sha_round_def Let_def bsig0_def bsig1_def Ch_def Maj_def rotr_def)
  have r36: "sha_round (25605281, 528892676, 228768974, 3033611681, 936482841, 3862620977, 4239695790, 24726297)
      (1695183700, 487947234) =
    (239424621, 25605281, 528892676, 228768974, 3050616943, 936482841, 3862620977, 4239695790)"
    by (simp add: sha_round_def Let_def bsig0_def bsig1_def Ch_def Maj_def rotr_def)
  have r37: "sha_round (239424621, 25605281, 528892676, 228768974, 3050616943, 936482841, 3862620977, 4239695790)
      (1986661051, 1240881885) =
    (2478614328, 239424621, 25605281, 528892676, 2620423385, 3050616943, 936482841, 3862620977)"
    by (simp add: sha_round_def Let_def bsig0_def bsig1_def Ch_def Maj_def rotr_def)
  have r38: "sha_round (2478614328, 239424621, 25605281, 528892676, 2620423385, 3050616943, 936482841, 3862620977)
      (2177026350, 3471135405) =
    (3345872149, 2478614328, 239424621, 25605281, 4088933771, 2620423385, 3050616943, 936482841)"
    by (simp add: sha_round_def Let_def bsig0_def bsig1_def Ch_def Maj_def rotr_def)
  have r39: "sha_round (3345872149, 2478614328, 239424621, 25605281, 4088933771, 2620423385, 3050616943, 936482841)
      (2456956037, 420421016) =
    (2960979937, 3345872149, 2478614328, 239424621, 3153372686, 4088933771, 2620423385, 3050616943)"
    by (simp add: sha_round_def Let_def bsig0_def bsig1_def Ch_def Maj_def rotr_def)
  have r40: "sha_round (2960979937, 3345872149, 2478614328, 239424621, 3153372686, 4088933771, 2620423385, 3050616943)
      (2730485921, 3592670663) =
    (2619262738, 2960979937, 3345872149, 2478614328, 4128893808, 3153372686, 4088933771, 2620423385)"
    by (simp add: sha_round_def Let_def bsig0_def bsig1_def Ch_def Maj_def rotr_def)
  have r41: "sha_round (2619262738, 2960979937, 3345872149, 2478614328, 4128893808, 3153372686, 4088933771, 2620423385)
      (2820302411, 2281379367) =
    (2587217684, 2619262738, 2960979937, 3345872149, 3034997753, 4128893808, 3153372686, 4088933771)"
    by (simp add: sha_round_def Let_def bsig0_def bsig1_def Ch_def Maj_def rotr_def)
  have r42: "sha_round (2587217684, 2619262738, 2960979937, 3345872149, 3034997753, 4128893808, 3153372686, 4088933771)
      (3259730800, 3977200367) =
    (1850446860, 2587217684, 2619262738, 2960979937, 342282766, 3034997753, 4128893808, 3153372686)"
    by (simp add: sha_round_def Let_def bsig0_def bsig1_def Ch_def Maj_def rotr_def)
  have r43: "sha_round (1850446860, 2587217684, 2619262738, 2960979937, 342282766, 3034997753, 4128893808, 3153372686)
      (3345764771, 422338368) =
    (298336507, 1850446860, 2587217684, 2619262738, 2391001826, 342282766, 3034997753, 4128893808)"
    by (simp add: sha_round_def Let_def bsig0_def bsig1_def Ch_def Maj_def rotr_def)
  have r44: "sha_round (298336507, 1850446860, 2587217684, 2619262738, 2391001826, 342282766, 3034997753, 4128893808)
      (3516065817, 4035984416) =
    (2166740784, 298336507, 1850446860, 2587217684, 542205931, 2391001826, 342282766, 3034997753)"
    by (simp add: sha_round_def Let_def bsig0_def bsig1_def Ch_def Maj_def rotr_def)
  have r45: "sha_round (2166740784, 298336507, 1850446860, 2587217684, 542205931, 2391001826, 342282766, 3034997753)
      (3600352804, 1906450848) =
    (2591796196, 2166740784, 298336507, 1850446860, 617998298, 542205931, 2391001826, 342282766)"
    by (simp add: sha_round_def Let_def bsig0_def bsig1_def Ch_def Maj_def rotr_def)
  have r46: "sha_round (2591796196, 2166740784, 298336507, 1850446860, 617998298, 542205931, 2391001826, 342282766)
      (4094571909, 1841909584) =
    (1110791739, 2591796196, 2166740784, 298336507, 2281798410, 617998298, 542205931, 2391001826)"
    by (simp add: sha_round_def Let_def bsig0_def bsig1_def Ch_def Maj_def rotr_def)
  have r47: "sha_round (1110791739, 2591796196, 2166740784, 298336507, 2281798410, 617998298, 542205931, 2391001826)
      (275423344, 3425410514) =
    (226324978, 1110791739, 2591796196, 2166740784, 3909104273, 2281798410, 617998298, 542205931)"
    by (simp add: sha_round_def Let_def bsig0_def bsig1_def Ch_def Maj_def rotr_def)
  show ?thesis
    unfolding zip_Cons_Cons zip_Nil foldl_Cons foldl_Nil
      r32 r33 r34 r35 r36 r37 r38 r39 r40 r41 r42 r43 r44 r45 r46 r47
    by (rule refl)
qed

lemma sha_rounds_25_3:
  "foldl sha_round (226324978, 1110791739, 2591796196, 2166740784, 3909104273, 2281798410, 617998298, 542205931)
     (zip
      [430227734, 506948616, 659060556, 883997877, 958139571, 1322822218, 1537002063,
       1747873779, 1955562222, 2024104815, 2227730452, 2361852424, 2428436474, 2756734187,
       3204031479, 3329325298]
      [2383627532, 899000049, 2398701658, 2792347226, 1087880198, 3766049157, 3105540584,
       2500231348, 3826906858, 3122529695, 3990361944, 1834083563, 2705641238, 4167506697,
       1551580488, 4173258084]) =
     (4049951035, 1653481739, 2775349739, 851407318, 1146884674, 3998186648, 171084097, 4288140586)"
proof -
  have r48: "sha_round (226324978, 1110791739, 2591796196, 2166740784, 3909104273, 2281798410, 617998298, 542205931)
      (430227734, 2383627532) =
    (3991290147, 226324978, 1110791739, 2591796196, 1803920575, 3909104273, 2281798410, 617998298)"
    by (simp add: sha_round_def Let_def bsig0_def bsig1_def Ch_def Maj_def rotr_def)
  have r49: "sha_round (3991290147, 226324978, 1110791739, 2591796196, 1803920575, 3909104273, 2281798410, 617998298)
      (506948616, 899000049) =
    (3272372727, 3991290147, 226324978, 1110791739, 2763021275, 1803920575, 3909104273, 2281798410)"
    by (simp add: sha_round_def Let_def bsig0_def bsig1_def Ch_def Maj_def rotr_def)
  have r50: "sha_round (3272372727, 3991290147, 226324978, 1110791739, 2763021275, 1803920575, 3909104273, 2281798410)
      (659060556, 2398701658) =
    (297165574, 3272372727, 3991290147, 226324978, 935619644, 2763021275, 1803920575, 3909104273)"
    by (simp add: sha_round_def Let_def bsig0_def bsig1_def Ch_def Maj_def rotr_def)
  have r51: "sha_round (297165574, 3272372727, 3991290147, 226324978, 935619644, 2763021275, 1803920575, 3909104273)
      (883997877, 2792347226) =
    (3448370108, 297165574, 3272372727, 3991290147, 3549427539, 935619644, 2763021275, 1803920575)"
    by (simp add: sha_round_def Let_def bsig0_def bsig1_def Ch_def Maj_def rotr_def)
  have r52: "sha_round (3448370108, 297165574, 3272372727, 3991290147, 3549427539, 935619644, 2763021275, 1803920575)
      (958139571, 1087880198) =
    (3402963238, 3448370108, 297165574, 3272372727, 1843659517, 3549427539, 935619644, 2763021275)"
    by (simp add: sha_round_def Let_def bsig0_def bsig1_def Ch_def Maj_def rotr_def)
  have r53: "sha_round (3402963238, 3448370108, 297165574, 3272372727, 1843659517, 3549427539, 935619644, 2763021275)
      (1322822218, 3766049157) =
    (2032082728, 3402963238, 3448370108, 297165574, 1118736943, 1843659517, 3549427539, 935619644)"
    by (simp add: sha_round_def Let_def bsig0_def bsig1_def Ch_def Maj_def rotr_def)
  have r54: "sha_round (2032082728, 3402963238, 3448370108, 297165574, 1118736943, 1843659517, 3549427539, 935619644)
      (1537002063, 3105540584) =
    (853748269, 2032082728, 3402963238, 3448370108, 3749954353, 1118736943, 1843659517, 3549427539)"
    by (simp add: sha_round_def Let_def bsig0_def bsig1_def Ch_def Maj_def rotr_def)
  have r55: "sha_round (853748269, 2032082728, 3402963238, 3448370108, 3749954353, 1118736943, 1843659517, 3549427539)
      (1747873779, 2500231348) =
    (2694895367, 853748269, 2032082728, 3402963238, 1641662014, 3749954353, 1118736943, 1843659517)"
    by (simp add: sha_round_def Let_def bsig0_def bsig1_def Ch_def Maj_def rotr_def)
  have r56: "sha_round (2694895367, 853748269, 2032082728, 3402963238, 1641662014, 3749954353, 1118736943, 1843659517)
      (1955562222, 3826906858) =
    (3771326344, 2694895367, 853748269, 2032082728, 2813504316, 1641662014, 3749954353, 1118736943)"
    by (simp add: sha_round_def Let_def bsig0_def bsig1_def Ch_def Maj_def rotr_def)
  have r57: "sha_round (3771326344, 2694895367, 853748269, 2032082728, 2813504316, 1641662014, 3749954353, 1118736943)
      (2024104815, 3122529695) =
    (3209728352, 3771326344, 2694895367, 853748269, 3028451148, 2813504316, 1641662014, 3749954353)"
    by (simp add: sha_round_def Let_def bsig0_def bsig1_def Ch_def Maj_def rotr_def)
  have r58: "sha_round (3209728352, 3771326344, 2694895367, 853748269, 3028451148, 2813504316, 1641662014, 3749954353)
      (2227730452, 3990361944) =
    (1506832612, 3209728352, 3771326344, 2694895367, 90073072, 3028451148, 2813504316, 1641662014)"
    by (simp add: sha_round_def Let_def bsig0_def bsig1_def Ch_def Maj_def rotr_def)
  have r59: "sha_round (1506832612, 3209728352, 3771326344, 2694895367, 90073072, 3028451148, 2813504316, 1641662014)
      (2361852424, 1834083563) =
    (1579277451, 1506832612, 3209728352, 3771326344, 878484949, 90073072, 3028451148, 2813504316)"
    by (simp add: sha_round_def Let_def bsig0_def bsig1_def Ch_def Maj_def rotr_def)
  have r60: "sha_round (1579277451, 1506832612, 3209728352, 3771326344, 878484949, 90073072, 3028451148, 2813504316)
      (2428436474, 2705641238) =
    (851407318, 1579277451, 1506832612, 3209728352, 4288140586, 878484949, 90073072, 3028451148)"
    by (simp add: sha_round_def Let_def bsig0_def bsig1_def Ch_def Maj_def rotr_def)
  have r61: "sha_round (851407318, 1579277451, 1506832612, 3209728352, 4288140586, 878484949, 90073072, 3028451148)
      (2756734187, 4167506697) =
    (2775349739, 851407318, 1579277451, 1506832612, 171084097, 4288140586, 878484949, 90073072)"
    by (simp add: sha_round_def Let_def bsig0_def bsig1_def Ch_def Maj_def rotr_def)
  have r62: "sha_round (2775349739, 851407318, 1579277451, 1506832612, 171084097, 4288140586, 878484949, 90073072)
      (3204031479, 1551580488) =
    (1653481739, 2775349739, 851407318, 1579277451, 3998186648, 171084097, 4288140586, 878484949)"
    by (simp add: sha_round_def Let_def bsig0_def bsig1_def Ch_def Maj_def rotr_def)
  have r63: "sha_round (1653481739, 2775349739, 851407318, 1579277451, 3998186648, 171084097, 4288140586, 878484949)
      (3329325298, 4173258084) =
    (4049951035, 1653481739, 2775349739, 851407318, 1146884674, 3998186648, 171084097, 4288140586)"
    by (simp add: sha_round_def Let_def bsig0_def bsig1_def Ch_def Maj_def rotr_def)
  show ?thesis
    unfolding zip_Cons_Cons zip_Nil foldl_Cons foldl_Nil
      r48 r49 r50 r51 r52 r53 r54 r55 r56 r57 r58 r59 r60 r61 r62 r63
    by (rule refl)
qed

lemma sha_digest_25: "take 16 (sha256_hex ''memory|WARN|25|900'') = ''5b6f3fa21df5cf90''"
proof -
  have r16: "rev
      [1835363695, 1920564311, 1095913084, 842366009, 808484864, 0, 0, 0, 0, 0, 0, 0, 0, 0, 0,
       144] =
      [144, 0, 0, 0, 0, 0, 0, 0, 0, 0, 0, 808484864, 842366009, 1095913084, 1920564311,
       1835363695]"
    by simp
  have r64: "rev
      [4173258084, 1551580488, 4167506697, 2705641238, 1834083563, 3990361944, 3122529695,
       3826906858, 2500231348, 3105540584, 3766049157, 1087880198, 2792347226, 2398701658,
       899000049, 2383627532, 3425410514, 1841909584, 1906450848, 4035984416, 422338368,
       3977200367, 2281379367, 3592670663, 420421016, 3471135405, 1240881885, 487947234,
       3033775707, 1566792061, 1675375558, 3950067439, 336343586, 4042314816, 1400816435,
       2172823310, 1831805896, 1128221177, 2491328742, 4185400501, 3380995029, 3724038713,
       867131620, 3957628078, 743255135, 1188850780, 3591076190, 1831038811, 144, 0, 0, 0, 0,
       0, 0, 0, 0, 0, 0, 808484864, 842366009, 1095913084, 1920564311, 1835363695] =
      [1835363695, 1920564311, 1095913084, 842366009, 808484864, 0, 0, 0, 0, 0, 0, 0, 0, 0, 0,
       144] @
      [1831038811, 3591076190, 1188850780, 743255135, 3957628078, 867131620, 3724038713,
       3380995029, 4185400501, 2491328742, 1128221177, 1831805896, 2172823310, 1400816435,
       4042314816, 336343586] @
      [3950067439, 1675375558, 1566792061, 3033775707, 487947234, 1240881885, 3471135405,
       420421016, 3592670663, 2281379367, 3977200367, 422338368, 4035984416, 1906450848,
       1841909584, 3425410514] @
      [2383627532, 899000049, 2398701658, 2792347226, 1087880198, 3766049157, 3105540584,
       2500231348, 3826906858, 3122529695, 3990361944, 1834083563, 2705641238, 4167506697,
       1551580488, 4173258084]"
    by simp
  have k: "sha256_K =
      [1116352408, 1899447441, 3049323471, 3921009573, 961987163, 1508970993, 2453635748,
       2870763221, 3624381080, 310598401, 607225278, 1426881987, 1925078388, 2162078206,
       2614888103, 3248222580] @
      [3835390401, 4022224774, 264347078, 604807628, 770255983, 1249150122, 1555081692,
       1996064986, 2554220882, 2821834349, 2952996808, 3210313671, 3336571891, 3584528711,
       113926993, 338241895] @
      [666307205, 773529912, 1294757372, 1396182291, 1695183700, 1986661051, 2177026350,
       2456956037, 2730485921, 2820302411, 3259730800, 3345764771, 3516065817, 3600352804,
       4094571909, 275423344] @
      [430227734, 506948616, 659060556, 883997877, 958139571, 1322822218, 1537002063,
       1747873779, 1955562222, 2024104815, 2227730452, 2361852424, 2428436474, 2756734187,
       3204031479, 3329325298]"
    by (simp add: sha256_K_def)
  have z: "zip (a1 @ a2 @ a3 @ a4) (b1 @ b2 @ b3 @ b4) = zip a1 b1 @ zip a2 b2 @ zip a3 b3 @ zip a4 b4"
    if "length a1 = length b1" "length a2 = length b2" "length a3 = length b3"
    for a1 a2 a3 a4 :: "u32 list" and b1 b2 b3 b4 :: "u32 list"
    using that by simp
  have f: "foldl sha_round sha256_init (zip sha256_K
      ([1835363695, 1920564311, 1095913084, 842366009, 808484864, 0, 0, 0, 0, 0, 0, 0, 0, 0, 0,
       144] @
       [1831038811, 3591076190, 1188850780, 743255135, 3957628078, 867131620, 3724038713,
       3380995029, 4185400501, 2491328742, 1128221177, 1831805896, 2172823310, 1400816435,
       4042314816, 336343586] @
       [3950067439, 1675375558, 1566792061, 3033775707, 487947234, 1240881885, 3471135405,
       420421016, 3592670663, 2281379367, 3977200367, 422338368, 4035984416, 1906450848,
       1841909584, 3425410514] @
       [2383627532, 899000049, 2398701658, 2792347226, 1087880198, 3766049157, 3105540584,
       2500231348, 3826906858, 3122529695, 3990361944, 1834083563, 2705641238, 4167506697,
       1551580488, 4173258084])) =
    (4049951035, 1653481739, 2775349739, 851407318, 1146884674, 3998186648, 171084097, 4288140586)"
    apply (subst k)
    apply (subst z)
       apply simp_all[3]
    apply (simp only: foldl_append sha256_init_def sha_rounds_25_0 sha_rounds_25_1 sha_rounds_25_2 sha_rounds_25_3)
    done
  have a: "sha_add sha256_init (4049951035, 1653481739, 2775349739, 851407318, 1146884674, 3998186648, 171084097, 4288140586) =
    (1534017442, 502648720, 3789253981, 3624888080, 2506777793, 2304042276, 699818732, 1534632515)"
    by code_simp
  have h: "take 16 (hexdigest (1534017442, 502648720, 3789253981, 3624888080, 2506777793, 2304042276, 699818732, 1534632515)) = ''5b6f3fa21df5cf90''"
    by code_simp
  show ?thesis
    unfolding sha256_hex_def sha_block_25 compress_def r16 sha_schedule_25 r64 f a h
    by (rule refl)
qed

lemma ex_fingerprints:
  "cand_fingerprint ex_cfg ''memory:WARN'' 24 = ''e6f824347137ddd6''"
  "cand_fingerprint ex_cfg ''memory:WARN'' 25 = ''5b6f3fa21df5cf90''"
proof -
  have k: "split_key ''memory:WARN'' = (''memory'', ''WARN'')"
    by code_simp
  have n: "str_of_int 24 = ''24''" "str_of_int 25 = ''25''" "str_of_int 900 = ''900''"
    by code_simp+
  show "cand_fingerprint ex_cfg ''memory:WARN'' 24 = ''e6f824347137ddd6''"
    "cand_fingerprint ex_cfg ''memory:WARN'' 25 = ''5b6f3fa21df5cf90''"
    using sha_digest_24 sha_digest_25
    by (simp_all add: cand_fingerprint_def k n ex_cfg_facts)
qed

lemma freq_loop_append:
  "freq_loop allow (xs @ ys) freq = freq_loop allow ys (freq_loop allow xs freq)"
  by (induction xs arbitrary: freq) (simp_all add: Let_def)

lemma busy_recent:
  "harvest_recent ex_cfg (obs_logs ex_busy) 900000000 = replicate 24 ex_warn @ [ex_warn\<lparr>ts := 0\<rparr>]"
  unfolding harvest_recent_def log_search_eq ex_since
  by (simp add: falsy_def recent_window ex_busy_def ex_sys_of_def clamp_1000 filter_replicate_if
      ex_warn_def del: replicate.simps)

lemma busy_table:
  "harvest_ordered ex_cfg (replicate 24 ex_warn @ [ex_warn\<lparr>ts := 0\<rparr>]) = [(''memory:WARN'', 25)]"
proof -
  have u: "upper (level ex_warn) \<in> set (map upper (include_levels ex_cfg))"
    by (simp add: ex_warn_def ex_cfg_def ex_chars)
  have "freq_loop (map upper (include_levels ex_cfg)) (replicate (Suc 23) ex_warn) []
          = [(''memory:WARN'', 24)]"
    unfolding freq_loop_replicate [OF u] by (simp add: ex_warn_def ex_chars dict_get_def)
  then show ?thesis
    unfolding harvest_ordered_def freq_loop_append
    by (simp add: ex_warn_def ex_cfg_def ex_chars Let_def dict_get_def)
qed

lemma busy_run1:
  "fst (harvest ex_cfg ex_busy ex_uuid1 900000000 ''t1'')
     = Inr \<lparr>created = 1, candidates = [ex_draft1]\<rparr>"
  "exp_store ex_busy1 = \<lparr>by_id = [(''id1'', ex_draft1)],
                         id_by_fp = [(cand_fingerprint ex_cfg ''memory:WARN'' 25, ''id1'')]\<rparr>"
  "obs_logs ex_busy1 = \<lparr>buf = (ex_warn\<lparr>ts := 0\<rparr> # replicate 24 ex_warn) @ [ex_info1], maxlen = 2000\<rparr>"
proof -
  have r: "harvest_recent ex_cfg (obs_logs (ex_sys_of (ex_warn\<lparr>ts := 0\<rparr> # replicate 24 ex_warn))) 900000000
           = replicate 24 ex_warn @ [ex_warn\<lparr>ts := 0\<rparr>]"
    using busy_recent by (simp add: ex_busy_def)
  note f = first_run [OF r _ busy_table]
  show "fst (harvest ex_cfg ex_busy ex_uuid1 900000000 ''t1'')
     = Inr \<lparr>created = 1, candidates = [ex_draft1]\<rparr>"
    unfolding ex_busy_def by (rule f(1)) simp_all
  show "exp_store ex_busy1 = \<lparr>by_id = [(''id1'', ex_draft1)],
                         id_by_fp = [(cand_fingerprint ex_cfg ''memory:WARN'' 25, ''id1'')]\<rparr>"
    unfolding ex_busy1_def ex_busy_def by (rule f(2)) simp_all
  show "obs_logs ex_busy1 = \<lparr>buf = (ex_warn\<lparr>ts := 0\<rparr> # replicate 24 ex_warn) @ [ex_info1], maxlen = 2000\<rparr>"
    unfolding ex_busy1_def ex_busy_def by (rule f(3)) simp_all
qed

lemma busy_recent2:
  "harvest_recent ex_cfg (obs_logs ex_busy1) 901000000 = ex_info1 # replicate 24 ex_warn"
  unfolding harvest_recent_def log_search_eq ex_since busy_run1(3)
  by (simp add: falsy_def recent_window ex_info1_def clamp_1000 filter_replicate_if ex_warn_def
      del: replicate.simps)

lemma busy_table2: "harvest_table ex_cfg ex_busy1 901000000 = [(''memory:WARN'', 24)]"
  unfolding harvest_table_def busy_recent2 harvest_ordered_def info_skipped
  using table_warns [of 23] by (simp add: harvest_ordered_def)

lemma busy_run2:
  "fst (harvest ex_cfg ex_busy1 ex_uuid2 901000000 ''t2'')
     = Inr \<lparr>created = 1, candidates = [ex_draft2]\<rparr>"
  "by_id (exp_store ex_busy2) = [(''id1'', ex_draft1), (''id2'', ex_draft2)]"
proof -
  have e: "max 1 (min_samples ex_cfg) \<le> int (length (harvest_recent ex_cfg (obs_logs ex_busy1) 901000000))"
    by (simp add: busy_recent2 ex_cfg_facts)
  have d: "dict_get (id_by_fp (exp_store ex_busy1)) (cand_fingerprint ex_cfg ''memory:WARN'' 24) = None"
    "dict_get (by_id (exp_store ex_busy1)) (ex_uuid2 0) = None"
    by (simp_all add: busy_run1(2) ex_fingerprints dict_get_def ex_uuid2_def)
  from harvest_loop_single_new [where uu = ex_uuid2 and stamp = "''t2''",
      OF ex_cfg_facts(2) ex_cfg_facts(4) d]
  have L: "harvest_loop ex_cfg ex_uuid2 ''t2'' (harvest_table ex_cfg ex_busy1 901000000) 0 0 []
             (exp_store ex_busy1)
           = (None, 1, [ex_draft2],
              \<lparr>by_id = [(''id1'', ex_draft1), (''id2'', ex_draft2)],
               id_by_fp = dict_set (cand_fingerprint ex_cfg ''memory:WARN'' 24) ''id2''
                            [(cand_fingerprint ex_cfg ''memory:WARN'' 25, ''id1'')]\<rparr>)"
    unfolding busy_table2 by (simp add: busy_run1(2) ex_uuid2_def ex_draft2_def)
  note h = harvest_run [OF ex_cfg_facts(1) e L]
  show "fst (harvest ex_cfg ex_busy1 ex_uuid2 901000000 ''t2'')
     = Inr \<lparr>created = 1, candidates = [ex_draft2]\<rparr>"
    by (rule h(1))
  show "by_id (exp_store ex_busy2) = [(''id1'', ex_draft1), (''id2'', ex_draft2)]"
    unfolding ex_busy2_def h(2) by simp
qed

section \<open>The claims\<close>

text \<open>
  Claim C1, as the code has it. The rule a successful \<open>update\<close> stores has the SHA-256
  fingerprint of its trimmed, lower-cased title, a newline and its trimmed, lower-cased
  content. A rule that \<open>add\<close> inserts (a call that dedup does not absorb) is stored with
  that fingerprint when it carried none of its own, and with its own fingerprint, as
  given, when it carried one: \<open>ensure_ids\<close> fills the field only when it is missing.
  \<open>add\<close> and \<open>update\<close> leave the rule stored under any other identifier as it was.
  So when every stored rule had the fingerprint of its title and content before the call,
  every stored rule has it after a successful \<open>update\<close>, and after a successful \<open>add\<close> of
  a rule that carries no fingerprint of its own. For every rule of the store after any
  successful \<open>add\<close> the statement fails, as the harvester's 16-character fingerprints
  show.
\<close>

theorem fingerprint_after_add_update:
  "(add s r dedup up u n = Inr (a, s') \<longrightarrow>
       (\<forall>j. j \<noteq> or_empty (rule_id a) \<longrightarrow> dict_get (by_id s') j = dict_get (by_id s) j)
     \<and> (falsy (fingerprint r) \<and> fp_consistent s \<longrightarrow> fp_consistent s')
     \<and> ((dedup \<longrightarrow> dict_get (id_by_fp s) (fp_of r) = None) \<longrightarrow>
          dict_get (by_id s') (or_empty (rule_id a)) = Some a
        \<and> fingerprint a = (if falsy (fingerprint r)
                            then Some (make_fingerprint (title a) (content a))
                            else fingerprint r)))
   \<and> (update s i p n = Inr (upd, s'') \<longrightarrow>
        dict_get (by_id s'') i = Some upd
      \<and> fingerprint upd = Some (make_fingerprint (title upd) (content upd))
      \<and> (\<forall>j. j \<noteq> i \<longrightarrow> dict_get (by_id s'') j = dict_get (by_id s) j)
      \<and> (fp_consistent s \<longrightarrow> fp_consistent s''))"
proof (intro conjI impI allI)
  fix j
  assume "add s r dedup up u n = Inr (a, s')" "j \<noteq> or_empty (rule_id a)"
  then show "dict_get (by_id s') j = dict_get (by_id s) j" by (rule add_frame)
next
  assume "add s r dedup up u n = Inr (a, s')" "falsy (fingerprint r) \<and> fp_consistent s"
  then show "fp_consistent s'" using add_fp_consistent by blast
next
  assume a: "add s r dedup up u n = Inr (a, s')"
     and d: "dedup \<longrightarrow> dict_get (id_by_fp s) (fp_of r) = None"
  from add_inserted(2-5) [OF d a]
  show "dict_get (by_id s') (or_empty (rule_id a)) = Some a"
    "fingerprint a = (if falsy (fingerprint r)
                            then Some (make_fingerprint (title a) (content a))
                            else fingerprint r)"
    by (simp_all add: ensure_ids_fingerprint)
next
  assume u: "update s i p n = Inr (upd, s'')"
  from update_Inr [OF u]
  show "dict_get (by_id s'') i = Some upd"
    "fingerprint upd = Some (make_fingerprint (title upd) (content upd))"
    by simp_all
  show "fp_consistent s \<Longrightarrow> fp_consistent s''" using u by (rule update_fp_consistent)
  show "\<And>j. j \<noteq> i \<Longrightarrow> dict_get (by_id s'') j = dict_get (by_id s) j" using u by (rule update_frame)
qed

theorem fingerprint_after_add_update_witness:
  "add empty_store ex_rule True False ''u1'' ''t1'' = Inr (ensure_ids ''u1'' ''t1'' ex_rule, ex_store1)
   \<and> dict_get (by_id ex_store1) ''u1'' = Some (ensure_ids ''u1'' ''t1'' ex_rule)
   \<and> fingerprint (ensure_ids ''u1'' ''t1'' ex_rule)
       = Some (make_fingerprint ''Retry on timeout'' ''Use backoff'')
   \<and> fp_consistent ex_store1
   \<and> add empty_store ex_cand True False ''id1'' ''t0'' = Inr (ensure_ids ''id1'' ''t0'' ex_cand, bug_s1)
   \<and> fingerprint (ensure_ids ''id1'' ''t0'' ex_cand) = Some (cand_fingerprint ex_cfg ''memory:WARN'' 25)
   \<and> add ex_store2 ex_rule_b True False ''u2'' ''t2'' = Inr (ensure_ids ''u2'' ''t2'' ex_rule_b, ex_store4)
   \<and> dict_get (by_id ex_store4) ''u1'' = Some ex_rule
   \<and> fingerprint ex_rule = None
   \<and> (\<exists>upd s''. update ex_store1 ''u1'' (no_patch\<lparr>p_title := Some ''New title''\<rparr>) ''t2'' = Inr (upd, s'')
        \<and> dict_get (by_id s'') ''u1'' = Some upd
        \<and> fingerprint upd = Some (make_fingerprint ''New title'' ''Use backoff'')
        \<and> fp_consistent s'')"
proof -
  have a: "add empty_store ex_rule True False ''u1'' ''t1''
           = Inr (ensure_ids ''u1'' ''t1'' ex_rule, ex_store1)"
    using ex_rule_falsy
    by (simp add: add_def empty_store_def ex_store1_def dict_get_def Let_def fp_of_ensure_ids
        ensure_ids_rule_id or_empty_def)
  have e: "dict_get (id_by_fp empty_store) (fp_of ex_rule) = None"
    "dict_get (id_by_fp empty_store) (fp_of ex_cand) = None"
    "fp_consistent empty_store"
    by (simp_all add: empty_store_def dict_get_def fp_consistent_def dict_values_def)
  have i: "or_empty (rule_id (ensure_ids ''u1'' ''t1'' ex_rule)) = ''u1''"
    "or_empty (rule_id (ensure_ids ''u2'' ''t2'' ex_rule_b)) = ''u2''"
    "title ex_rule = ''Retry on timeout''" "content ex_rule = ''Use backoff''"
    "fingerprint ex_rule = None"
    "\<not> falsy (fingerprint ex_cand)" "fingerprint ex_cand = Some (cand_fingerprint ex_cfg ''memory:WARN'' 25)"
    "dict_get (by_id ex_store2) ''u1'' = Some ex_rule"
    by (simp_all add: ensure_ids_rule_id ex_rule_def ex_rule_b_def new_rule_def falsy_def or_empty_def
        ex_cand_def ex_store2_def dict_get_def)
  have c1: "fp_consistent ex_store1"
    "dict_get (by_id ex_store1) ''u1'' = Some (ensure_ids ''u1'' ''t1'' ex_rule)"
    "fingerprint (ensure_ids ''u1'' ''t1'' ex_rule)
       = Some (make_fingerprint ''Retry on timeout'' ''Use backoff'')"
    using a e i(1,3,4) ex_rule_falsy(1)
      fingerprint_after_add_update [where s = empty_store and r = ex_rule and dedup = True
        and up = False and u = "''u1''" and n = "''t1''" and a = "ensure_ids ''u1'' ''t1'' ex_rule"
        and s' = ex_store1]
    by simp_all
  have c2: "fingerprint (ensure_ids ''id1'' ''t0'' ex_cand) = Some (cand_fingerprint ex_cfg ''memory:WARN'' 25)"
    using bug_s1_eq(1) e(2) i(6,7)
      fingerprint_after_add_update [where s = empty_store and r = ex_cand and dedup = True
        and up = False and u = "''id1''" and n = "''t0''" and a = "ensure_ids ''id1'' ''t0'' ex_cand"
        and s' = bug_s1]
    by simp
  have c3: "dict_get (by_id ex_store4) ''u1'' = Some ex_rule"
    using ex_store4_eq i(2,8)
      fingerprint_after_add_update [where s = ex_store2 and r = ex_rule_b and dedup = True
        and up = False and u = "''u2''" and n = "''t2''" and a = "ensure_ids ''u2'' ''t2'' ex_rule_b"
        and s' = ex_store4]
    by simp
  obtain upd s'' where u: "update ex_store1 ''u1'' (no_patch\<lparr>p_title := Some ''New title''\<rparr>) ''t2'' = Inr (upd, s'')"
    by (simp add: update_def ex_store1_def dict_get_def Let_def)
  then have t: "title upd = ''New title''" "content upd = ''Use backoff''"
    by (auto simp: update_def ex_store1_def dict_get_def Let_def apply_patch_def pick_def no_patch_def
        ex_rule_def new_rule_def)
  have c4: "dict_get (by_id s'') ''u1'' = Some upd"
    "fingerprint upd = Some (make_fingerprint ''New title'' ''Use backoff'')"
    "fp_consistent s''"
    using u t c1(1)
      fingerprint_after_add_update [where s = ex_store1 and i = "''u1''"
        and p = "no_patch\<lparr>p_title := Some ''New title''\<rparr>" and n = "''t2''" and upd = upd and s'' = s'']
    by simp_all
  show ?thesis
    using a c1 c2 c3 c4 u bug_s1_eq(1) ex_store4_eq i(5) by blast
qed

theorem fingerprint_after_add_counterexample:
  "add empty_store ex_cand True False ''id1'' ''t0'' = Inr (ensure_ids ''id1'' ''t0'' ex_cand, bug_s1)
   \<and> dict_get (by_id bug_s1) ''id1'' = Some (ensure_ids ''id1'' ''t0'' ex_cand)
   \<and> fingerprint (ensure_ids ''id1'' ''t0'' ex_cand)
       \<noteq> Some (make_fingerprint (title (ensure_ids ''id1'' ''t0'' ex_cand))
                                 (content (ensure_ids ''id1'' ''t0'' ex_cand)))"
proof -
  have "fingerprint (ensure_ids ''id1'' ''t0'' ex_cand)
          = Some (cand_fingerprint ex_cfg ''memory:WARN'' 25)"
    by (simp add: ensure_ids_fingerprint ex_cand_def falsy_def)
  then show ?thesis
    by (simp add: bug_s1_eq dict_get_def)
qed

text \<open>
  Claim C2 at a failing input. A harvested candidate is inserted, approved (which
  re-indexes it under its recomputed fingerprint and leaves the old index entry) and
  deleted (which removes the new index entry only). The index then still holds the
  candidate's fingerprint, and \<open>add\<close> with dedup enabled raises \<open>KeyError\<close> instead of
  returning a stored rule.
\<close>

theorem add_dedup_dangling_index:
  "\<not> isl (fst (approve_candidate bug_s1 ''id1'' ''t1''))
   \<and> fst (delete bug_s2 ''id1'') = True
   \<and> by_id bug_s3 = []
   \<and> dict_get (id_by_fp bug_s3) (fp_of ex_cand2) = Some ''id1''
   \<and> add bug_s3 ex_cand2 True False ''id2'' ''t3'' = Inl KeyError"
  by (simp add: bug_s2_eq bug_s3_def bug_s3_eq ex_cand2_def dict_get_def add_def Let_def
      fp_of_ensure_ids)

text \<open>
  Claim C3, as the code has it. When a second harvest run works on the same frequency
  table as a first run that returned (the same patterns with the same counts), every
  pattern the first run submitted to \<open>add\<close> is absorbed in the second run: \<open>add\<close> returns
  a stored rule and leaves the store as it was; the second run's loop passes all entries
  the first run visited with its created total still 0 and the store unchanged; and when
  the first run visited the whole table, the second run returns \<open>created = 0\<close> and leaves
  the rule store as it was. The candidate's fingerprint covers the count, so without new
  log events a run that counts another number of events for the pattern (the oldest
  event has left the time window) inserts a second draft for it.
\<close>

theorem harvest_twice_absorbed:
  assumes en: "enabled cfg"
      and enough: "max 1 (min_samples cfg) \<le> int (length (harvest_recent cfg (obs_logs st) now1))"
      and run1: "harvest cfg st uu1 now1 stamp1 = (Inr r1, st1)"
      and same: "harvest_table cfg st1 now2 = harvest_table cfg st now1"
  shows "(\<forall>(key, cnt) \<in> set (harvest_visited cfg uu1 stamp1 (harvest_table cfg st now1) 0 0 (exp_store st)).
            int_or (min_count cfg) 1 \<le> cnt \<longrightarrow>
              (\<exists>ex. add (exp_store st1) (make_candidate cfg key cnt u) True False u t
                      = Inr (ex, exp_store st1)))
       \<and> (\<exists>k acc. harvest_loop cfg uu2 stamp2 (harvest_table cfg st1 now2) 0 0 [] (exp_store st1)
             = harvest_loop cfg uu2 stamp2
                 (drop (length (harvest_visited cfg uu1 stamp1 (harvest_table cfg st now1) 0 0 (exp_store st)))
                    (harvest_table cfg st1 now2))
                 k 0 acc (exp_store st1))
       \<and> (length (harvest_visited cfg uu1 stamp1 (harvest_table cfg st now1) 0 0 (exp_store st))
              = length (harvest_table cfg st now1)
          \<longrightarrow> (\<exists>r2 st2. harvest cfg st1 uu2 now2 stamp2 = (Inr r2, st2)
                 \<and> created r2 = 0 \<and> exp_store st2 = exp_store st1))"
proof -
  let ?T = "harvest_table cfg st now1"
  let ?V = "harvest_visited cfg uu1 stamp1 ?T 0 0 (exp_store st)"
  note l = harvest_Inr [OF en enough run1]
  from harvest_loop_live [OF l]
  have live: "\<forall>(key, cnt) \<in> set ?V. int_or (min_count cfg) 1 \<le> cnt
                \<longrightarrow> live_fp (exp_store st1) (cand_fingerprint cfg key cnt)"
    by blast
  have 1: "\<forall>(key, cnt) \<in> set ?V. int_or (min_count cfg) 1 \<le> cnt \<longrightarrow>
              (\<exists>ex. add (exp_store st1) (make_candidate cfg key cnt u) True False u t
                      = Inr (ex, exp_store st1))"
  proof (clarify)
    fix key cnt assume "(key, cnt) \<in> set ?V" "int_or (min_count cfg) 1 \<le> cnt"
    with live have "live_fp (exp_store st1) (fp_of (make_candidate cfg key cnt u))" by auto
    from add_dedup_absorbed [OF this]
    show "\<exists>ex. add (exp_store st1) (make_candidate cfg key cnt u) True False u t
                      = Inr (ex, exp_store st1)" .
  qed
  have T: "?T = ?V @ drop (length ?V) ?T"
    using harvest_visited_take [OF l] append_take_drop_id [of "length ?V" ?T] by simp
  have nb: "?V \<noteq> [] \<longrightarrow> \<not> (0::int) \<ge> int_or (max_candidates cfg) 10"
    using harvest_visited_nonempty [of cfg uu1 stamp1 ?T 0 0 "exp_store st"] by blast
  from harvest_loop_absorb [OF live nb, of uu2 stamp2 "drop (length ?V) ?T" 0 "[]"]
  have 2: "\<exists>k acc. harvest_loop cfg uu2 stamp2 ?T 0 0 [] (exp_store st1)
             = harvest_loop cfg uu2 stamp2 (drop (length ?V) ?T) k 0 acc (exp_store st1)"
    using T by simp
  have 3: "\<exists>r2 st2. harvest cfg st1 uu2 now2 stamp2 = (Inr r2, st2)
                 \<and> created r2 = 0 \<and> exp_store st2 = exp_store st1"
    if all: "length ?V = length ?T"
  proof (cases "max 1 (min_samples cfg) \<le> int (length (harvest_recent cfg (obs_logs st1) now2))")
    case False
    from harvest_skip [OF en this] show ?thesis
      by (metis prod.collapse harvest_response.select_convs(1))
  next
    case e2: True
    from 2 all obtain acc where
      "harvest_loop cfg uu2 stamp2 (harvest_table cfg st1 now2) 0 0 [] (exp_store st1)
         = (None, 0, acc, exp_store st1)"
      by (auto simp: same)
    from harvest_run(1,2) [OF en e2 this] show ?thesis
      by (metis prod.collapse harvest_response.select_convs(1))
  qed
  from 1 2 3 show ?thesis by (simp add: same)
qed

theorem harvest_twice_absorbed_witness:
  "harvest ex_cfg ex_calm ex_uuid1 900000000 ''t1''
     = (Inr \<lparr>created = 1, candidates = [ex_draft1]\<rparr>, ex_calm1)
   \<and> harvest_table ex_cfg ex_calm1 901000000 = [(''memory:WARN'', 25)]
   \<and> (\<exists>ex. add (exp_store ex_calm1) (make_candidate ex_cfg ''memory:WARN'' 25 ''id2'') True False
               ''id2'' ''t2'' = Inr (ex, exp_store ex_calm1))
   \<and> (\<exists>r2 st2. harvest ex_cfg ex_calm1 ex_uuid2 901000000 ''t2'' = (Inr r2, st2)
         \<and> created r2 = 0 \<and> exp_store st2 = exp_store ex_calm1)"
proof -
  have e1: "max 1 (min_samples ex_cfg) \<le> int (length (harvest_recent ex_cfg (obs_logs ex_calm) 900000000))"
    by (simp add: calm_recent ex_cfg_facts)
  have same: "harvest_table ex_cfg ex_calm1 901000000 = harvest_table ex_cfg ex_calm 900000000"
    by (simp add: calm_table calm_table2)
  have x: "exp_store ex_calm = empty_store"
    by (simp add: ex_calm_def ex_sys_of_def)
  have v: "harvest_visited ex_cfg ex_uuid1 ''t1'' (harvest_table ex_cfg ex_calm 900000000) 0 0
             (exp_store ex_calm) = [(''memory:WARN'', 25)]"
    unfolding calm_table x by (rule calm_visited)
  have m: "int_or (min_count ex_cfg) 1 \<le> 25"
    by (simp add: ex_cfg_def int_or_def)
  from harvest_twice_absorbed [OF ex_cfg_facts(1) e1 calm_run1(1) same,
      where ?uu2.0 = ex_uuid2 and ?stamp2.0 = "''t2''" and u = "''id2''" and t = "''t2''"]
  show ?thesis
    unfolding v using m calm_run1(1) calm_table calm_table2 by simp
qed

theorem harvest_twice_counterexample:
  "fst (harvest ex_cfg ex_busy ex_uuid1 900000000 ''t1'')
     = Inr \<lparr>created = 1, candidates = [ex_draft1]\<rparr>
   \<and> buf (obs_logs ex_busy1) = buf (obs_logs ex_busy) @ [ex_info1]
   \<and> level ex_info1 = ''INFO''
   \<and> fst (harvest ex_cfg ex_busy1 ex_uuid2 901000000 ''t2'')
     = Inr \<lparr>created = 1, candidates = [ex_draft2]\<rparr>
   \<and> by_id (exp_store ex_busy2) = [(''id1'', ex_draft1), (''id2'', ex_draft2)]
   \<and> status ex_draft1 = ''draft'' \<and> status ex_draft2 = ''draft''
   \<and> title ex_draft1 = title ex_draft2
   \<and> tags ex_draft1 = [''memory'', ''WARN'', ''auto'']
   \<and> tags ex_draft2 = [''memory'', ''WARN'', ''auto'']"
proof -
  have k: "split_key ''memory:WARN'' = (''memory'', ''WARN'')"
    by code_simp
  have t: "status ex_draft1 = ''draft''" "status ex_draft2 = ''draft''"
    "title ex_draft1 = title ex_draft2"
    "tags ex_draft1 = [''memory'', ''WARN'', ''auto'']"
    "tags ex_draft2 = [''memory'', ''WARN'', ''auto'']"
    by (simp_all add: ex_draft1_def ex_draft2_def ensure_ids_def Let_def make_candidate_def k falsy_def)
  have b: "buf (obs_logs ex_busy1) = buf (obs_logs ex_busy) @ [ex_info1]" "level ex_info1 = ''INFO''"
    by (simp_all add: busy_run1(3) ex_busy_def ex_sys_of_def ex_info1_def)
  from busy_run1(1) busy_run2 t b show ?thesis by simp
qed

text \<open>
  Claim C4. With \<open>enabled = False\<close> harvest returns \<open>created = 0\<close> and leaves the rule
  store unchanged, whatever the log buffer holds; with \<open>enabled = True\<close> and fewer
  retrieved log events than \<open>min_samples\<close> it returns \<open>created = 0\<close>, leaves the rule
  store unchanged and sets the gauge \<open>experience_auto_candidate_last_created\<close> to 0.
\<close>

theorem harvest_gating:
  "(\<not> enabled cfg \<longrightarrow>
      (\<exists>st'. harvest cfg st uuids now stamp = (Inr \<lparr>created = 0, candidates = []\<rparr>, st')
             \<and> exp_store st' = exp_store st))
   \<and> (enabled cfg \<and> int (length (harvest_recent cfg (obs_logs st) now)) < min_samples cfg \<longrightarrow>
      (\<exists>st'. harvest cfg st uuids now stamp = (Inr \<lparr>created = 0, candidates = []\<rparr>, st')
             \<and> exp_store st' = exp_store st
             \<and> dict_get (gauges (obs_metrics st')) ''experience_auto_candidate_last_created'' = Some 0))"
  by (auto simp: harvest_def Let_def set_gauge_def dict_get_set)

theorem harvest_gating_witness:
  "(\<exists>st'. harvest (ex_cfg\<lparr>enabled := False\<rparr>) ex_sys (\<lambda>k. ''u'') 1000000 ''t''
            = (Inr \<lparr>created = 0, candidates = []\<rparr>, st') \<and> exp_store st' = exp_store ex_sys)
   \<and> (\<exists>st'. harvest ex_cfg ex_sys (\<lambda>k. ''u'') 1000000 ''t''
            = (Inr \<lparr>created = 0, candidates = []\<rparr>, st') \<and> exp_store st' = exp_store ex_sys
          \<and> dict_get (gauges (obs_metrics st')) ''experience_auto_candidate_last_created'' = Some 0)"
proof -
  have r: "harvest_recent ex_cfg (obs_logs ex_sys) 1000000 = []"
    by (simp add: harvest_recent_def log_search_def ex_sys_def)
  show ?thesis
    using r
      harvest_gating [where cfg = "ex_cfg\<lparr>enabled := False\<rparr>" and st = ex_sys
        and uuids = "\<lambda>k. ''u''" and now = 1000000 and stamp = "''t''"]
      harvest_gating [where cfg = ex_cfg and st = ex_sys
        and uuids = "\<lambda>k. ''u''" and now = 1000000 and stamp = "''t''"]
    by (simp add: ex_cfg_def)
qed

text \<open>
  Claim C6, as the code has it. Take two rules with the same title, the same content and
  the same fingerprint field (none, as \<open>POST /rules\<close> builds them, or the same value).
  With dedup enabled, when the first \<open>add\<close> returns, the second returns the same stored
  rule, hence the same identifier, and leaves the store as the first left it. With dedup
  disabled both calls succeed; each rule is stored under the identifier it carries or,
  when it carries none, under the value \<open>uuid4\<close> draws for it (\<open>u1\<close>, \<open>u2\<close>); the two
  stored fingerprints are equal; and when the two identifiers differ both rules are in
  the store. The claim as stated fails for rules that carry the same identifier (dedup
  disabled: one row, one identifier) and for rules that carry different fingerprints
  (dedup enabled: two rows, two identifiers).
\<close>

theorem add_twice:
  assumes tc: "title r2 = title r1" "content r2 = content r1"
      and fp: "fingerprint r2 = fingerprint r1"
  shows "(add s r1 True up1 u1 n1 = Inr (a1, s1) \<longrightarrow> add s1 r2 True up2 u2 n2 = Inr (a1, s1))
       \<and> (\<exists>b1 t1 b2 t2.
             add s r1 False up1 u1 n1 = Inr (b1, t1) \<and> add t1 r2 False up2 u2 n2 = Inr (b2, t2)
           \<and> rule_id b1 = (if falsy (rule_id r1) then Some u1 else rule_id r1)
           \<and> rule_id b2 = (if falsy (rule_id r2) then Some u2 else rule_id r2)
           \<and> fingerprint b1 = fingerprint b2
           \<and> dict_get (by_id t2) (or_empty (rule_id b2)) = Some b2
           \<and> (rule_id b1 \<noteq> rule_id b2 \<longrightarrow> dict_get (by_id t2) (or_empty (rule_id b1)) = Some b1))"
proof (intro conjI impI)
  have fp': "fp_of r2 = fp_of r1"
    using tc fp by (simp add: fp_of_def)
  assume a: "add s r1 True up1 u1 n1 = Inr (a1, s1)"
  from add_dedup_cases [OF a]
  have "dict_get (id_by_fp s1) (fp_of r1) \<noteq> None
        \<and> dict_get (by_id s1) (the (dict_get (id_by_fp s1) (fp_of r1))) = Some a1"
    by auto
  then show "add s1 r2 True up2 u2 n2 = Inr (a1, s1)"
    by (auto simp: add_def Let_def fp_of_ensure_ids fp')
next
  obtain b1 t1 where 1: "add s r1 False up1 u1 n1 = Inr (b1, t1)"
    by (auto simp: add_def Let_def split: option.splits)
  obtain b2 t2 where 2: "add t1 r2 False up2 u2 n2 = Inr (b2, t2)"
    by (auto simp: add_def Let_def split: option.splits)
  have n: "False \<longrightarrow> dict_get (id_by_fp x) (fp_of y) = None" for x :: store and y by simp
  note i1 = add_inserted [OF n 1] and i2 = add_inserted [OF n 2]
  have f: "fingerprint b1 = fingerprint b2"
    using i1(3) i2(3) tc fp by (simp add: ensure_ids_fingerprint)
  have o: "rule_id b1 \<noteq> rule_id b2 \<Longrightarrow> or_empty (rule_id b1) \<noteq> or_empty (rule_id b2)"
    using i1(6) i2(6) by (auto simp: ensure_ids_rule_id or_empty_def falsy_def split: if_splits option.splits)
  have k: "rule_id b1 \<noteq> rule_id b2 \<longrightarrow> dict_get (by_id t2) (or_empty (rule_id b1)) = Some b1"
    using add_frame [OF 2, of "or_empty (rule_id b1)"] o i1(2) by simp
  show "\<exists>b1 t1 b2 t2.
             add s r1 False up1 u1 n1 = Inr (b1, t1) \<and> add t1 r2 False up2 u2 n2 = Inr (b2, t2)
           \<and> rule_id b1 = (if falsy (rule_id r1) then Some u1 else rule_id r1)
           \<and> rule_id b2 = (if falsy (rule_id r2) then Some u2 else rule_id r2)
           \<and> fingerprint b1 = fingerprint b2
           \<and> dict_get (by_id t2) (or_empty (rule_id b2)) = Some b2
           \<and> (rule_id b1 \<noteq> rule_id b2 \<longrightarrow> dict_get (by_id t2) (or_empty (rule_id b1)) = Some b1)"
    using 1 2 i1(6) i2(6) i2(2) f k by (simp add: ensure_ids_rule_id)
qed

theorem add_twice_witness:
  "add empty_store ex_rule True False ''u1'' ''t1'' = Inr (ensure_ids ''u1'' ''t1'' ex_rule, ex_store1)
   \<and> add ex_store1 ex_rule_c True False ''u2'' ''t2'' = Inr (ensure_ids ''u1'' ''t1'' ex_rule, ex_store1)
   \<and> (\<exists>b1 t1 b2 t2. add empty_store ex_rule False False ''u1'' ''t1'' = Inr (b1, t1)
        \<and> add t1 ex_rule_c False False ''u2'' ''t2'' = Inr (b2, t2)
        \<and> rule_id b1 = Some ''u1'' \<and> rule_id b2 = Some ''u2''
        \<and> fingerprint b1 = fingerprint b2
        \<and> dict_get (by_id t2) ''u1'' = Some b1 \<and> dict_get (by_id t2) ''u2'' = Some b2)"
proof -
  have a: "add empty_store ex_rule True False ''u1'' ''t1''
           = Inr (ensure_ids ''u1'' ''t1'' ex_rule, ex_store1)"
    using ex_rule_falsy
    by (simp add: add_def empty_store_def ex_store1_def dict_get_def Let_def fp_of_ensure_ids
        ensure_ids_rule_id or_empty_def)
  have c: "title ex_rule_c = title ex_rule" "content ex_rule_c = content ex_rule"
    "fingerprint ex_rule_c = fingerprint ex_rule" "falsy (rule_id ex_rule_c)"
    by (simp_all add: ex_rule_c_def ex_rule_def new_rule_def falsy_def)
  note t = add_twice [where ?r1.0 = ex_rule and ?r2.0 = ex_rule_c and s = empty_store
        and ?up1.0 = False and ?u1.0 = "''u1''" and ?n1.0 = "''t1''"
        and ?a1.0 = "ensure_ids ''u1'' ''t1'' ex_rule" and ?s1.0 = ex_store1
        and ?up2.0 = False and ?u2.0 = "''u2''" and ?n2.0 = "''t2''", OF c(1,2,3)]
  from t a have 1: "add ex_store1 ex_rule_c True False ''u2'' ''t2'' = Inr (ensure_ids ''u1'' ''t1'' ex_rule, ex_store1)"
    by simp
  from t c(4) ex_rule_falsy(2)
  have 2: "\<exists>b1 t1 b2 t2. add empty_store ex_rule False False ''u1'' ''t1'' = Inr (b1, t1)
        \<and> add t1 ex_rule_c False False ''u2'' ''t2'' = Inr (b2, t2)
        \<and> rule_id b1 = Some ''u1'' \<and> rule_id b2 = Some ''u2''
        \<and> fingerprint b1 = fingerprint b2
        \<and> dict_get (by_id t2) ''u1'' = Some b1 \<and> dict_get (by_id t2) ''u2'' = Some b2"
    by (auto simp: or_empty_def)
  from a 1 2 show ?thesis by blast
qed

theorem add_twice_counterexample:
  "title ex_rule_r1 = ''Retry on timeout'' \<and> content ex_rule_r1 = ''Use backoff''
   \<and> add empty_store ex_rule_r1 False False ''u1'' ''t1'' = Inr (ensure_ids ''u1'' ''t1'' ex_rule_r1, ex_dup1)
   \<and> add ex_dup1 ex_rule_r1 False False ''u2'' ''t2'' = Inr (ensure_ids ''u2'' ''t2'' ex_rule_r1, ex_dup2)
   \<and> rule_id (ensure_ids ''u1'' ''t1'' ex_rule_r1) = Some ''r1''
   \<and> rule_id (ensure_ids ''u2'' ''t2'' ex_rule_r1) = Some ''r1''
   \<and> length (by_id ex_dup2) = 1
   \<and> title ex_rule_fa = title ex_rule_fb \<and> content ex_rule_fa = content ex_rule_fb
   \<and> add empty_store ex_rule_fa True False ''u1'' ''t1'' = Inr (ensure_ids ''u1'' ''t1'' ex_rule_fa, ex_two1)
   \<and> add ex_two1 ex_rule_fb True False ''u2'' ''t2'' = Inr (ensure_ids ''u2'' ''t2'' ex_rule_fb, ex_two2)
   \<and> rule_id (ensure_ids ''u1'' ''t1'' ex_rule_fa) = Some ''u1''
   \<and> rule_id (ensure_ids ''u2'' ''t2'' ex_rule_fb) = Some ''u2''
   \<and> length (by_id ex_two2) = 2"
proof -
  have f: "fp_of ex_rule_r1 = fp_of ex_rule" "fp_of ex_rule_fa = ''fa''" "fp_of ex_rule_fb = ''fb''"
    "rule_id ex_rule_r1 = Some ''r1''" "falsy (rule_id ex_rule_fa)" "falsy (rule_id ex_rule_fb)"
    by (simp_all add: fp_of_def ex_rule_r1_def ex_rule_fa_def ex_rule_fb_def falsy_def or_empty_def
        ex_rule_def new_rule_def)
  have 1: "add empty_store ex_rule_r1 False False ''u1'' ''t1'' = Inr (ensure_ids ''u1'' ''t1'' ex_rule_r1, ex_dup1)"
    "add ex_dup1 ex_rule_r1 False False ''u2'' ''t2'' = Inr (ensure_ids ''u2'' ''t2'' ex_rule_r1, ex_dup2)"
    by (simp_all add: add_def Let_def fp_of_ensure_ids ensure_ids_rule_id f falsy_def or_empty_def
        empty_store_def ex_dup1_def ex_dup2_def)
  have 2: "add empty_store ex_rule_fa True False ''u1'' ''t1'' = Inr (ensure_ids ''u1'' ''t1'' ex_rule_fa, ex_two1)"
    "add ex_two1 ex_rule_fb True False ''u2'' ''t2'' = Inr (ensure_ids ''u2'' ''t2'' ex_rule_fb, ex_two2)"
    using f(5,6)
    by (simp_all add: add_def Let_def fp_of_ensure_ids ensure_ids_rule_id f(2,3) or_empty_def
        empty_store_def ex_two1_def ex_two2_def dict_get_def)
  have 3: "title ex_rule_r1 = ''Retry on timeout''" "content ex_rule_r1 = ''Use backoff''"
    "title ex_rule_fa = title ex_rule_fb" "content ex_rule_fa = content ex_rule_fb"
    "length (by_id ex_dup2) = 1" "length (by_id ex_two2) = 2"
    by (simp_all add: ex_rule_r1_def ex_rule_fa_def ex_rule_fb_def ex_rule_def new_rule_def
        ex_dup2_def ex_two2_def)
  show ?thesis
    using 1 2 3 f(4,5,6) by (simp add: ensure_ids_rule_id falsy_def)
qed

text \<open>
  Claim C7. The candidate path succeeds whenever dedup does not absorb the request, and
  then the rule is stored with status \<open>draft\<close> whatever status the caller sent; approving
  a stored rule leaves it stored with status \<open>active\<close>, rejecting it with status
  \<open>deprecated\<close>; approve and reject on an identifier that is not stored answer
  \<open>NotFound\<close> and leave the store unchanged.
\<close>

theorem candidate_workflow:
  "((dedup \<longrightarrow> dict_get (id_by_fp s) (fp_of req) = None) \<longrightarrow>
      (\<exists>added s'. add_candidate s req dedup upsert uuid now = (Inr added, s')
         \<and> status added = ''draft''
         \<and> dict_get (by_id s') (or_empty (rule_id added)) = Some added))
   \<and> (\<forall>cur. dict_get (by_id s) i = Some cur \<longrightarrow>
         (\<exists>upd s'. approve_candidate s i now = (Inr upd, s') \<and> status upd = ''active''
                    \<and> dict_get (by_id s') i = Some upd)
       \<and> (\<exists>upd s'. reject_candidate s i now = (Inr upd, s') \<and> status upd = ''deprecated''
                    \<and> dict_get (by_id s') i = Some upd))
   \<and> (dict_get (by_id s) i = None \<longrightarrow>
         approve_candidate s i now = (Inl NotFound, s) \<and> reject_candidate s i now = (Inl NotFound, s))"
proof (intro conjI allI impI)
  assume d: "dedup \<longrightarrow> dict_get (id_by_fp s) (fp_of req) = None"
  then obtain added s' where a: "add s (req\<lparr>status := ''draft''\<rparr>) dedup upsert uuid now = Inr (added, s')"
    by (auto simp: add_def Let_def fp_of_ensure_ids split: option.splits)
  from d have d': "dedup \<longrightarrow> dict_get (id_by_fp s) (fp_of (req\<lparr>status := ''draft''\<rparr>)) = None"
    by simp
  from add_inserted(1,2) [OF d' a] a
  show "\<exists>added s'. add_candidate s req dedup upsert uuid now = (Inr added, s')
         \<and> status added = ''draft''
         \<and> dict_get (by_id s') (or_empty (rule_id added)) = Some added"
    by (simp add: add_candidate_def)
next
  fix cur assume "dict_get (by_id s) i = Some cur"
  then show "\<exists>upd s'. approve_candidate s i now = (Inr upd, s') \<and> status upd = ''active''
                    \<and> dict_get (by_id s') i = Some upd"
    "\<exists>upd s'. reject_candidate s i now = (Inr upd, s') \<and> status upd = ''deprecated''
                    \<and> dict_get (by_id s') i = Some upd"
    by (auto simp: approve_candidate_def reject_candidate_def update_def Let_def dict_get_set
        apply_patch_def pick_def no_patch_def)
next
  assume "dict_get (by_id s) i = None"
  then show "approve_candidate s i now = (Inl NotFound, s)" "reject_candidate s i now = (Inl NotFound, s)"
    by (auto simp: approve_candidate_def reject_candidate_def update_def)
qed

theorem candidate_workflow_witness:
  "(\<exists>added s'. add_candidate empty_store (ex_rule\<lparr>status := ''active''\<rparr>) True False ''u1'' ''t1''
                   = (Inr added, s')
         \<and> status added = ''draft'' \<and> dict_get (by_id s') (or_empty (rule_id added)) = Some added)
   \<and> (\<exists>upd s'. approve_candidate ex_store2 ''u1'' ''t2'' = (Inr upd, s')
         \<and> status upd = ''active'' \<and> dict_get (by_id s') ''u1'' = Some upd)
   \<and> (\<exists>upd s'. reject_candidate ex_store2 ''u1'' ''t2'' = (Inr upd, s')
         \<and> status upd = ''deprecated'' \<and> dict_get (by_id s') ''u1'' = Some upd)
   \<and> approve_candidate empty_store ''u9'' ''t1'' = (Inl NotFound, empty_store)
   \<and> reject_candidate empty_store ''u9'' ''t1'' = (Inl NotFound, empty_store)"
proof -
  have g: "dict_get (by_id ex_store2) ''u1'' = Some ex_rule"
    "dict_get (by_id empty_store) ''u9'' = None"
    "dict_get (id_by_fp empty_store) (fp_of (ex_rule\<lparr>status := ''active''\<rparr>)) = None"
    by (simp_all add: dict_get_def empty_store_def ex_store2_def)
  show ?thesis
    using g
      candidate_workflow [where s = empty_store and req = "ex_rule\<lparr>status := ''active''\<rparr>"
        and dedup = True and upsert = False and uuid = "''u1''" and now = "''t1''" and i = "''u9''"]
      candidate_workflow [where s = ex_store2 and req = ex_rule and dedup = False
        and upsert = False and uuid = "''u1''" and now = "''t2''" and i = "''u1''"]
    by simp
qed



text \<open>
  Claim C9, as the code has it. When \<open>add\<close> inserts a rule under a new identifier (not
  absorbed by dedup) and the trimmed, lower-cased query text occurs in the rule's
  lower-cased title (the test \<open>search\<close> applies), the number of rules \<open>search\<close> returns
  for that text grows by one if it was below \<open>max(1, min(limit, 200))\<close> and stays at that
  bound otherwise: the result is cut to the bound, so the count cannot grow past it.
  The count does not depend on the rounding \<open>fl\<close> of the scores.
\<close>

theorem search_count_after_add:
  assumes a: "add s r dedup up u n = Inr (a, s')"
      and d: "dedup \<longrightarrow> dict_get (id_by_fp s) (fp_of r) = None"
      and new: "dict_get (by_id s) (or_empty (rule_id a)) = None"
      and q: "str_in (lower (strip Q)) (lower (title r))"
  shows "length (search fl s' (Some Q) None None None limit) =
           (if length (search fl s (Some Q) None None None limit) < nat (max 1 (min limit 200))
            then Suc (length (search fl s (Some Q) None None None limit))
            else nat (max 1 (min limit 200)))"
proof -
  let ?ql = "lower (strip (or_empty (Some Q)))"
  let ?e = "lower (strip (or_empty None))"
  have e: "?e = []" by (simp add: or_empty_def)
  have s': "by_id s' = by_id s @ [(or_empty (rule_id a), a)]"
    using a d new
    by (auto simp: add_def Let_def fp_of_ensure_ids dict_set_new split: option.splits if_splits)
  have "title a = title r" using add_inserted(4) [OF d a] .
  with q have "rule_matches ?ql ?e ?e ?e a"
    unfolding e by (simp add: rule_matches_def or_empty_def)
  then have "length (filter (rule_matches ?ql ?e ?e ?e) (dict_values (by_id s')))
             = Suc (length (filter (rule_matches ?ql ?e ?e ?e) (dict_values (by_id s))))"
    by (simp add: s' dict_values_def)
  then show ?thesis
    by (simp add: length_search min_def clamp_limit_def)
qed

theorem search_count_after_add_witness:
  "length (search id ex_store4 (Some '' Retry'') None None None 50) =
     Suc (length (search id ex_store2 (Some '' Retry'') None None None 50))"
proof -
  have d: "dict_get (id_by_fp ex_store2) (fp_of ex_rule_b) = None"
    "dict_get (by_id ex_store2) (or_empty (rule_id (ensure_ids ''u2'' ''t2'' ex_rule_b))) = None"
    by (simp_all add: ex_store2_def dict_get_def ensure_ids_rule_id ex_rule_b_def new_rule_def
        falsy_def or_empty_def)
  have q: "str_in (lower (strip '' Retry'')) (lower (title ex_rule_b))"
    by (simp add: ex_rule_b_def new_rule_def ex_lower)
  have l: "length (search id ex_store2 (Some '' Retry'') None None None 50) = 1"
    by (simp add: length_search ex_lower clamp_limit_def)
       (simp add: ex_store2_def ex_rule_def new_rule_def dict_values_def rule_matches_def ex_lower)
  show ?thesis
    using search_count_after_add [OF ex_store4_eq _ d(2) q, of id 50] d(1) l
    by simp
qed

theorem search_count_after_add_counterexample:
  "add ex_store2 ex_rule_b True False ''u2'' ''t2'' = Inr (ensure_ids ''u2'' ''t2'' ex_rule_b, ex_store4)
   \<and> length (by_id ex_store4) = Suc (length (by_id ex_store2))
   \<and> str_in ''Retry'' (title ex_rule_b)
   \<and> length (search id ex_store2 (Some ''Retry'') None None None 1) = 1
   \<and> length (search id ex_store4 (Some ''Retry'') None None None 1) = 1"
  by (simp add: ex_store4_eq length_search ex_lower clamp_limit_def)
     (simp add: ex_store2_def ex_store4_def ex_rule_def ex_rule_b_def new_rule_def dict_values_def
        rule_matches_def ex_lower)

text \<open>
  Claim C10. Through the \<open>POST /logs/search\<close> route, whose request model accepts any
  integer, \<open>since_seconds = 0\<close> applies no time filter: events of any age are returned;
  a negative \<open>since_seconds\<close> is a window of one second.
\<close>

theorem since_zero_no_time_filter:
  "(let q = (if falsy (req_q p) then req_query p else req_q p);
        cap = clamp_limit (max 1 (min (if req_limit p = 0 then 50 else req_limit p) 200));
        lvl_ok = (\<lambda>item. falsy (req_level p) \<or> level item = upper (or_empty (req_level p)))
    in (req_since_seconds p = Some 0 \<longrightarrow>
          search_logs_post lb now p =
            take cap (filter (\<lambda>item. lvl_ok item \<and> text_match (or_empty q) item) (rev (buf lb))))
     \<and> (\<forall>n. n < 0 \<and> req_since_seconds p = Some n \<longrightarrow>
          search_logs_post lb now p =
            take cap (filter (\<lambda>item. lvl_ok item \<and> text_match (or_empty q) item
                                     \<and> now - 1000000 \<le> ts item) (rev (buf lb)))))"
proof -
  have z: "since_dt now (Some 0) = None"
    by (simp add: since_dt_def safe_seconds_def)
  have n: "since_dt now (Some n) = Some (now - 1000000)" if "n < 0" for n
    using that by (simp add: since_dt_def safe_seconds_def MAX_RANGE_SECONDS_def)
  show ?thesis
    unfolding Let_def search_logs_post_def log_search_eq
    by (intro conjI impI allI) (simp_all add: z n log_matches_None log_matches_Some)
qed

theorem since_zero_no_time_filter_witness:
  "search_logs_post ex_logs 1000000000000 ex_req = [ex_new, ex_old]
   \<and> search_logs_post ex_logs 1000000000000 (ex_req\<lparr>req_since_seconds := Some (- 5)\<rparr>) = []"
  using since_zero_no_time_filter [where p = ex_req and lb = ex_logs and now = 1000000000000]
    since_zero_no_time_filter [where p = "ex_req\<lparr>req_since_seconds := Some (- 5)\<rparr>"
      and lb = ex_logs and now = 1000000000000]
  by (simp add: ex_req_def ex_logs_def ex_old_def ex_new_def text_match_def falsy_def
      or_empty_def clamp_limit_def Let_def)

end
